theory Spec2Isabelle
  imports Complex_Main
begin

section \<open>Numbers and positions\<close>

text \<open>
  A Python \<open>float\<close> of the planners is modelled as a real number or \<open>float('inf')\<close>:
  the only non-finite value the code creates. Rounding of the binary representation is
  outside the model. A grid position is the tuple \<open>(x, y)\<close> of Python ints.
\<close>

type_synonym pos = "int \<times> int"

datatype pyfloat = Num real | PosInf

fun fadd :: "pyfloat \<Rightarrow> pyfloat \<Rightarrow> pyfloat" where
  "fadd (Num a) (Num b) = Num (a + b)"
| "fadd (Num a) PosInf = PosInf"
| "fadd PosInf b = PosInf"

fun fless :: "pyfloat \<Rightarrow> pyfloat \<Rightarrow> bool" where
  "fless (Num a) (Num b) = (a < b)"
| "fless (Num a) PosInf = True"
| "fless PosInf b = False"

definition fle :: "pyfloat \<Rightarrow> pyfloat \<Rightarrow> bool" where
  "fle a b = (fless a b \<or> a = b)"

text \<open>Python's \<open>min(a, b)\<close> returns \<open>b\<close> only when \<open>b < a\<close>.\<close>

definition fmin :: "pyfloat \<Rightarrow> pyfloat \<Rightarrow> pyfloat" where
  "fmin a b = (if fless b a then b else a)"

text \<open>
  The product \<open>base_cost * terrain_cost\<close> of \<open>WeightedGrid.get_movement_cost\<close>: the base
  cost is finite there, the terrain cost may be infinite. A zero or negative finite factor
  times infinity (Python's \<open>nan\<close> and \<open>-inf\<close>) is outside the datatype; the product is
  only used with the positive base costs of the constructor.
\<close>

fun fmul :: "pyfloat \<Rightarrow> pyfloat \<Rightarrow> pyfloat" where
  "fmul (Num a) (Num b) = Num (a * b)"
| "fmul (Num a) PosInf = PosInf"
| "fmul PosInf b = PosInf"

fun fhalf :: "pyfloat \<Rightarrow> pyfloat" where
  "fhalf (Num a) = Num (a / 2)"
| "fhalf PosInf = PosInf"

section \<open>core/node.py: GridNode\<close>

text \<open>
  A \<open>GridNode\<close> is identified with its position: \<open>__eq__\<close> and \<open>__hash__\<close> use
  \<open>(x, y)\<close> only, and the grid stores the node of \<open>(x, y)\<close> at \<open>nodes[y][x]\<close>. The record
  holds the remaining fields; \<open>parent\<close> refers to a node by its position.
\<close>

record GridNode =
  walkable :: bool
  g_cost :: pyfloat
  h_cost :: real
  f_cost :: pyfloat
  parent :: "pos option"
  visited :: bool
  in_open_set :: bool

definition GridNode_init :: "bool \<Rightarrow> GridNode" where
  "GridNode_init w = \<lparr> walkable = w, g_cost = PosInf, h_cost = 0, f_cost = PosInf,
     parent = None, visited = False, in_open_set = False \<rparr>"

definition GridNode_reset :: "GridNode \<Rightarrow> GridNode" where
  "GridNode_reset n = n\<lparr> g_cost := PosInf, h_cost := 0, f_cost := PosInf,
     parent := None, visited := False, in_open_set := False \<rparr>"

definition manhattan_distance :: "pos \<Rightarrow> pos \<Rightarrow> real" where
  "manhattan_distance a b = of_int (\<bar>fst a - fst b\<bar> + \<bar>snd a - snd b\<bar>)"

definition euclidean_distance :: "pos \<Rightarrow> pos \<Rightarrow> real" where
  "euclidean_distance a b =
     (let dx = fst a - fst b; dy = snd a - snd b in sqrt (of_int (dx * dx + dy * dy)))"

definition diagonal_distance :: "pos \<Rightarrow> pos \<Rightarrow> real" where
  "diagonal_distance a b =
     (let dx = \<bar>fst a - fst b\<bar>; dy = \<bar>snd a - snd b\<bar> in of_int (max dx dy))"

section \<open>core/grid.py: Grid and WeightedGrid\<close>

record Grid =
  width :: int
  height :: int
  nodes :: "pos \<Rightarrow> GridNode"
  diagonal_movement :: bool
  diagonal_cost :: real
  straight_cost :: real

text \<open>\<open>Grid.__init__\<close>: every node walkable, 8-connected, costs \<open>sqrt 2\<close> and \<open>1.0\<close>.\<close>

definition Grid_init :: "int \<Rightarrow> int \<Rightarrow> Grid" where
  "Grid_init w h = \<lparr> width = w, height = h, nodes = (\<lambda>p. GridNode_init True),
     diagonal_movement = True, diagonal_cost = sqrt 2, straight_cost = 1 \<rparr>"

definition is_valid_position :: "'a Grid_scheme \<Rightarrow> int \<Rightarrow> int \<Rightarrow> bool" where
  "is_valid_position g x y = (0 \<le> x \<and> x < width g \<and> 0 \<le> y \<and> y < height g)"

definition get_node :: "'a Grid_scheme \<Rightarrow> int \<Rightarrow> int \<Rightarrow> GridNode option" where
  "get_node g x y = (if is_valid_position g x y then Some (nodes g (x, y)) else None)"

definition is_walkable :: "'a Grid_scheme \<Rightarrow> int \<Rightarrow> int \<Rightarrow> bool" where
  "is_walkable g x y = (case get_node g x y of None \<Rightarrow> False | Some n \<Rightarrow> walkable n)"

definition set_walkable :: "'a Grid_scheme \<Rightarrow> int \<Rightarrow> int \<Rightarrow> bool \<Rightarrow> 'a Grid_scheme" where
  "set_walkable g x y w =
     (case get_node g x y of
        None \<Rightarrow> g
      | Some n \<Rightarrow> g\<lparr> nodes := (nodes g)((x, y) := n\<lparr> walkable := w \<rparr>) \<rparr>)"

definition directions :: "bool \<Rightarrow> pos list" where
  "directions diag =
     [(0, 1), (1, 0), (0, -1), (-1, 0)] @
     (if diag then [(1, 1), (1, -1), (-1, 1), (-1, -1)] else [])"

definition get_neighbors :: "'a Grid_scheme \<Rightarrow> pos \<Rightarrow> pos list" where
  "get_neighbors g p =
     filter (\<lambda>q. is_walkable g (fst q) (snd q))
       (map (\<lambda>d. (fst p + fst d, snd p + snd d)) (directions (diagonal_movement g)))"

definition get_movement_cost :: "'a Grid_scheme \<Rightarrow> pos \<Rightarrow> pos \<Rightarrow> pyfloat" where
  "get_movement_cost g from_node to_node =
     (let dx = \<bar>fst to_node - fst from_node\<bar>; dy = \<bar>snd to_node - snd from_node\<bar>
      in if dx = 1 \<and> dy = 1 then Num (diagonal_cost g)
         else if (dx = 1 \<and> dy = 0) \<or> (dx = 0 \<and> dy = 1) then Num (straight_cost g)
         else PosInf)"

text \<open>
  \<open>reset_pathfinding_data\<close> calls \<open>reset\<close> on every node of every row; the nodes are
  those of the positions inside the grid.
\<close>

definition reset_pathfinding_data :: "'a Grid_scheme \<Rightarrow> 'a Grid_scheme" where
  "reset_pathfinding_data g =
     g\<lparr> nodes := (\<lambda>p. if is_valid_position g (fst p) (snd p)
                         then GridNode_reset (nodes g p) else nodes g p) \<rparr>"

record WeightedGrid = Grid +
  terrain :: "pos \<Rightarrow> string"

text \<open>The class attribute \<open>TERRAIN_COSTS\<close>, a dict from terrain names to costs.\<close>

definition TERRAIN_COSTS :: "string \<Rightarrow> pyfloat option" where
  "TERRAIN_COSTS t =
     (if t = ''grass'' then Some (Num 1)
      else if t = ''sand'' then Some (Num (3 / 2))
      else if t = ''mud'' then Some (Num 2)
      else if t = ''water'' then Some (Num 3)
      else if t = ''mountain'' then Some (Num 4)
      else if t = ''wall'' then Some PosInf
      else None)"

definition WeightedGrid_init :: "int \<Rightarrow> int \<Rightarrow> WeightedGrid" where
  "WeightedGrid_init w h = Grid.extend (Grid_init w h) \<lparr> terrain = (\<lambda>p. ''grass'') \<rparr>"

definition get_terrain_cost :: "WeightedGrid \<Rightarrow> int \<Rightarrow> int \<Rightarrow> pyfloat" where
  "get_terrain_cost g x y =
     (if is_valid_position g x y
      then (case TERRAIN_COSTS (terrain g (x, y)) of None \<Rightarrow> Num 1 | Some c \<Rightarrow> c)
      else PosInf)"

definition set_terrain :: "WeightedGrid \<Rightarrow> int \<Rightarrow> int \<Rightarrow> string \<Rightarrow> WeightedGrid" where
  "set_terrain g x y terrain_type =
     (if is_valid_position g x y
      then (let g1 = g\<lparr> terrain := (terrain g)((x, y) := terrain_type) \<rparr>;
                cost = (case TERRAIN_COSTS terrain_type of None \<Rightarrow> Num 1 | Some c \<Rightarrow> c)
            in set_walkable g1 x y (cost \<noteq> PosInf))
      else g)"

definition WeightedGrid_get_movement_cost :: "WeightedGrid \<Rightarrow> pos \<Rightarrow> pos \<Rightarrow> pyfloat" where
  "WeightedGrid_get_movement_cost g from_node to_node =
     (let base_cost = get_movement_cost g from_node to_node
      in if base_cost = PosInf then base_cost
         else (let from_terrain = get_terrain_cost g (fst from_node) (snd from_node);
                   to_terrain = get_terrain_cost g (fst to_node) (snd to_node);
                   terrain_cost = fhalf (fadd from_terrain to_terrain)
               in fmul base_cost terrain_cost))"

text \<open>
  Adjacency in the movement model of the map: \<open>b\<close> is one step from \<open>a\<close> in one of the
  directions \<open>get_neighbors\<close> enumerates, four on a grid without diagonal movement and
  eight otherwise (walkability aside). A diagonal pair differs by one in both
  coordinates.
\<close>

definition adjacent :: "'a Grid_scheme \<Rightarrow> pos \<Rightarrow> pos \<Rightarrow> bool" where
  "adjacent g a b =
     (b \<in> set (map (\<lambda>d. (fst a + fst d, snd a + snd d)) (directions (diagonal_movement g))))"

definition diagonal_pair :: "pos \<Rightarrow> pos \<Rightarrow> bool" where
  "diagonal_pair a b = (\<bar>fst b - fst a\<bar> = 1 \<and> \<bar>snd b - snd a\<bar> = 1)"

text \<open>
  The grids a program can build: the constructor fixes the two base costs, and no method
  assigns them again; walkability, scratch data, the movement flag and the terrain vary.
\<close>

definition built_Grid :: "int \<Rightarrow> int \<Rightarrow> (pos \<Rightarrow> GridNode) \<Rightarrow> bool \<Rightarrow> Grid" where
  "built_Grid w h ns dm = (Grid_init w h)\<lparr> nodes := ns, diagonal_movement := dm \<rparr>"

definition built_WeightedGrid ::
  "int \<Rightarrow> int \<Rightarrow> (pos \<Rightarrow> GridNode) \<Rightarrow> bool \<Rightarrow> (pos \<Rightarrow> string) \<Rightarrow> WeightedGrid" where
  "built_WeightedGrid w h ns dm tr =
     (WeightedGrid_init w h)\<lparr> nodes := ns, diagonal_movement := dm, terrain := tr \<rparr>"

section \<open>core/algorithm_base.py: results and the engine base class\<close>

datatype AlgorithmCategory = CLASSICAL | ANY_ANGLE | OPTIMIZED | DYNAMIC | SAMPLING

datatype pyvalue = VFloat pyfloat | VInt int | VStr string | VBool bool

text \<open>
  \<open>PathfindingResult\<close>. The field \<open>execution_time\<close>, a difference of two readings of the
  process clock, is left out of the model. Waypoints are pairs of numbers: grid engines
  store integer tuples, any-angle and sampling engines floats.
\<close>

record PathfindingResult =
  path :: "(real \<times> real) list"
  path_length :: real
  path_cost :: real
  nodes_expanded :: int
  nodes_visited :: int
  memory_usage :: int
  found :: bool
  iterations :: int
  max_open_set_size :: int
  algorithm_data :: "string \<rightharpoonup> pyvalue"
  error_message :: "string option"

definition PathfindingResult_init :: PathfindingResult where
  "PathfindingResult_init = \<lparr> path = [], path_length = 0, path_cost = 0, nodes_expanded = 0,
     nodes_visited = 0, memory_usage = 0, found = False, iterations = 0,
     max_open_set_size = 0, algorithm_data = Map.empty, error_message = None \<rparr>"

text \<open>The body of the loop \<open>for i in range(1, len(self.path))\<close>.\<close>

definition add_segment :: "(real \<times> real) list \<Rightarrow> nat \<Rightarrow> real \<Rightarrow> real" where
  "add_segment ps i total_length =
     (let (x1, y1) = ps ! (i - 1); (x2, y2) = ps ! i; dx = x2 - x1; dy = y2 - y1
      in total_length + sqrt (dx * dx + dy * dy))"

definition calculate_path_length :: "PathfindingResult \<Rightarrow> PathfindingResult" where
  "calculate_path_length r =
     (if length (path r) < 2 then r\<lparr> path_length := 0 \<rparr>
      else r\<lparr> path_length := fold (add_segment (path r)) [1 ..< length (path r)] 0 \<rparr>)"

text \<open>
  The sum of the Euclidean distances between consecutive waypoints, written from the
  words of the claim; \<open>calculate_path_length\<close> is compared with it.
\<close>

fun consecutive_distances :: "(real \<times> real) list \<Rightarrow> real" where
  "consecutive_distances (p # q # ps) =
     sqrt ((fst q - fst p) * (fst q - fst p) + (snd q - snd p) * (snd q - snd p))
       + consecutive_distances (q # ps)"
| "consecutive_distances [p] = 0"
| "consecutive_distances [] = 0"

text \<open>
  \<open>PathfindingAlgorithm\<close>: the counters each engine object carries (the fields
  \<open>_nodes_expanded\<close>, \<open>_nodes_visited\<close>, \<open>_max_memory\<close>, \<open>_iterations\<close>).
\<close>

record PathfindingAlgorithm =
  alg_name :: string
  category :: AlgorithmCategory
  self_nodes_expanded :: int
  self_nodes_visited :: int
  self_max_memory :: int
  self_iterations :: int

definition PathfindingAlgorithm_init :: "string \<Rightarrow> AlgorithmCategory \<Rightarrow> PathfindingAlgorithm" where
  "PathfindingAlgorithm_init n c = \<lparr> alg_name = n, category = c, self_nodes_expanded = 0,
     self_nodes_visited = 0, self_max_memory = 0, self_iterations = 0 \<rparr>"

definition start_timing :: "'a PathfindingAlgorithm_scheme \<Rightarrow> 'a PathfindingAlgorithm_scheme" where
  "start_timing self = self\<lparr> self_nodes_expanded := 0, self_nodes_visited := 0,
     self_max_memory := 0, self_iterations := 0 \<rparr>"

definition expand_node :: "'a PathfindingAlgorithm_scheme \<Rightarrow> 'a PathfindingAlgorithm_scheme" where
  "expand_node self = self\<lparr> self_nodes_expanded := self_nodes_expanded self + 1 \<rparr>"

definition visit_node :: "'a PathfindingAlgorithm_scheme \<Rightarrow> 'a PathfindingAlgorithm_scheme" where
  "visit_node self = self\<lparr> self_nodes_visited := self_nodes_visited self + 1 \<rparr>"

definition update_memory_usage ::
  "'a PathfindingAlgorithm_scheme \<Rightarrow> int \<Rightarrow> 'a PathfindingAlgorithm_scheme" where
  "update_memory_usage self current_size =
     self\<lparr> self_max_memory := max (self_max_memory self) current_size \<rparr>"

definition increment_iteration :: "'a PathfindingAlgorithm_scheme \<Rightarrow> 'a PathfindingAlgorithm_scheme" where
  "increment_iteration self = self\<lparr> self_iterations := self_iterations self + 1 \<rparr>"

definition create_result ::
  "'a PathfindingAlgorithm_scheme \<Rightarrow> (real \<times> real) list \<Rightarrow> bool \<Rightarrow> string option
     \<Rightarrow> PathfindingResult" where
  "create_result self p fnd msg =
     (let result = PathfindingResult_init\<lparr> path := p, found := fnd, error_message := msg \<rparr>;
          result = (if p \<noteq> [] then calculate_path_length result else result)
      in result\<lparr> nodes_expanded := self_nodes_expanded self,
                 nodes_visited := self_nodes_visited self,
                 memory_usage := self_max_memory self,
                 iterations := self_iterations self \<rparr>)"

definition get_heuristic :: "pos \<Rightarrow> pos \<Rightarrow> string \<Rightarrow> real" where
  "get_heuristic node goal_node heuristic_type =
     (if heuristic_type = ''manhattan'' then manhattan_distance node goal_node
      else if heuristic_type = ''euclidean'' then euclidean_distance node goal_node
      else if heuristic_type = ''diagonal'' then diagonal_distance node goal_node
      else euclidean_distance node goal_node)"

text \<open>Python's \<open>str\<close> of an int and of a tuple of two ints, as the f-strings print them.\<close>

fun str_nat :: "nat \<Rightarrow> string" where
  "str_nat n = (if n < 10 then [''0123456789'' ! n]
                else str_nat (n div 10) @ [''0123456789'' ! (n mod 10)])"

definition str_int :: "int \<Rightarrow> string" where
  "str_int i = (if i < 0 then ''-'' @ str_nat (nat (- i)) else str_nat (nat i))"

definition str_pos :: "pos \<Rightarrow> string" where
  "str_pos p = ''('' @ str_int (fst p) @ '', '' @ str_int (snd p) @ '')''"

definition validate_inputs :: "'a Grid_scheme \<Rightarrow> pos \<Rightarrow> pos \<Rightarrow> string option" where
  "validate_inputs grid start goal =
     (if \<not> is_valid_position grid (fst start) (snd start)
      then Some (''Start position '' @ str_pos start @ '' is outside grid bounds'')
      else if \<not> is_valid_position grid (fst goal) (snd goal)
      then Some (''Goal position '' @ str_pos goal @ '' is outside grid bounds'')
      else if \<not> is_walkable grid (fst start) (snd start)
      then Some (''Start position '' @ str_pos start @ '' is not walkable'')
      else if \<not> is_walkable grid (fst goal) (snd goal)
      then Some (''Goal position '' @ str_pos goal @ '' is not walkable'')
      else None)"

text \<open>The test \<open>if error_msg:\<close> on an optional string: neither \<open>None\<close> nor empty.\<close>

definition truthy :: "string option \<Rightarrow> bool" where
  "truthy m = (case m of None \<Rightarrow> False | Some s \<Rightarrow> s \<noteq> [])"

definition waypoint :: "pos \<Rightarrow> real \<times> real" where
  "waypoint p = (of_int (fst p), of_int (snd p))"

text \<open>
  \<open>Grid.get_path\<close>: follow the parent links from the goal node and reverse. The loop
  runs while links remain, so on a cyclic chain of parents it does not return.
\<close>

partial_function (option) get_path_loop :: "Grid \<Rightarrow> pos option \<Rightarrow> pos list \<Rightarrow> pos list option" where
  "get_path_loop grid current p =
     (case current of
        None \<Rightarrow> Some (rev p)
      | Some c \<Rightarrow> get_path_loop grid (parent (nodes grid c)) (p @ [c]))"

definition get_path :: "Grid \<Rightarrow> pos \<Rightarrow> pos list option" where
  "get_path grid goal_node = get_path_loop grid (Some goal_node) []"

section \<open>The frontier: heapq on tuples\<close>

text \<open>
  The classical engines push tuples \<open>(f, id(node), node)\<close> on a \<open>heapq\<close>. The library's
  heap is modelled by its contract: \<open>heappop\<close> removes and returns a least tuple in
  Python's tuple order. The list keeps the entries in the order they were pushed; the
  layout inside the library's array is not modelled. \<open>id(node)\<close>, the identity of the
  node object, is a parameter \<open>ident\<close> of the engines. Two tuples with the same first two
  components hold the same node object and compare equal, so the order is the
  lexicographic one on \<open>(f, id)\<close>.
\<close>

type_synonym entry = "pyfloat \<times> nat \<times> pos"

definition entry_less :: "entry \<Rightarrow> entry \<Rightarrow> bool" where
  "entry_less a b =
     (if fst a \<noteq> fst b then fless (fst a) (fst b) else fst (snd a) < fst (snd b))"

definition heappush :: "entry list \<Rightarrow> entry \<Rightarrow> entry list" where
  "heappush heap item = heap @ [item]"

fun least_entry :: "entry \<Rightarrow> entry list \<Rightarrow> entry" where
  "least_entry m [] = m"
| "least_entry m (e # es) = least_entry (if entry_less e m then e else m) es"

text \<open>\<open>heappop\<close> on an empty heap raises \<open>IndexError\<close>; the engines pop only when
  the heap is not empty.\<close>

definition heappop :: "entry list \<Rightarrow> (entry \<times> entry list) option" where
  "heappop heap =
     (case heap of
        [] \<Rightarrow> None
      | e # es \<Rightarrow> (let m = least_entry e es in Some (m, remove1 m heap)))"

section \<open>algorithms/classical/astar.py: AStar and its subclass WeightedAStar\<close>

record AStar = PathfindingAlgorithm +
  heuristic_type :: string
  heuristic_weight :: real

definition AStar_init :: "string \<Rightarrow> real \<Rightarrow> AStar" where
  "AStar_init htype w = PathfindingAlgorithm.extend
     (PathfindingAlgorithm_init ''A*'' CLASSICAL)
     \<lparr> heuristic_type = htype, heuristic_weight = w \<rparr>"

text \<open>
  The state of the search loop: the engine (its counters), the grid (its scratch
  fields), the heap \<open>open_set\<close> and the set \<open>closed_set\<close> (a duplicate-free list).
\<close>

type_synonym astar_state = "AStar \<times> Grid \<times> entry list \<times> pos list"

text \<open>The body of \<open>for neighbor in grid.get_neighbors(current_node)\<close>.\<close>

definition astar_neighbor ::
  "(pos \<Rightarrow> nat) \<Rightarrow> pos \<Rightarrow> pos \<Rightarrow> pos \<Rightarrow> astar_state \<Rightarrow> astar_state" where
  "astar_neighbor ident goal current neighbor st =
     (case st of (self0, grid, open_set, closed_set) \<Rightarrow>
        let self = visit_node self0 in
        if neighbor \<in> set closed_set then (self, grid, open_set, closed_set)
        else
          let tentative_g =
                fadd (g_cost (nodes grid current)) (get_movement_cost grid current neighbor);
              n0 = nodes grid neighbor;
              new_node = \<not> in_open_set n0;
              n1 = (if new_node
                    then n0\<lparr> h_cost := get_heuristic neighbor goal (heuristic_type self),
                             in_open_set := True \<rparr>
                    else n0);
              is_better_path = (new_node \<or> fless tentative_g (g_cost n0))
          in if is_better_path
             then
               let n2 = n1\<lparr> parent := Some current, g_cost := tentative_g \<rparr>;
                   n3 = n2\<lparr> f_cost := fadd (g_cost n2) (Num (heuristic_weight self * h_cost n2)) \<rparr>
               in (self, grid\<lparr> nodes := (nodes grid)(neighbor := n3) \<rparr>,
                   heappush open_set (f_cost n3, ident neighbor, neighbor), closed_set)
             else (self, grid\<lparr> nodes := (nodes grid)(neighbor := n1) \<rparr>, open_set, closed_set))"

text \<open>
  One iteration of \<open>while open_set:\<close>, entered with a non-empty heap: either the call
  returns (\<open>Inl\<close>, the result and the grid as the call leaves it) or the loop goes on
  (\<open>Inr\<close>). \<open>None\<close> stands for a call that does not return.
\<close>

definition astar_iteration ::
  "(pos \<Rightarrow> nat) \<Rightarrow> pos \<Rightarrow> astar_state \<Rightarrow> ((PathfindingResult \<times> Grid) + astar_state) option" where
  "astar_iteration ident goal st =
     (case st of (self0, grid0, open_set0, closed_set0) \<Rightarrow>
        let self1 = update_memory_usage (increment_iteration self0)
                      (int (length open_set0) + int (length closed_set0))
        in case heappop open_set0 of
             None \<Rightarrow> None
           | Some (item, open_set1) \<Rightarrow>
               let current = snd (snd item);
                   grid1 = grid0\<lparr> nodes := (nodes grid0)
                             (current := (nodes grid0 current)\<lparr> in_open_set := False \<rparr>) \<rparr>
               in if current = goal
                  then (case get_path grid1 current of
                          None \<Rightarrow> None
                        | Some p \<Rightarrow> Some (Inl (create_result self1 (map waypoint p) True None, grid1)))
                  else
                    Some (Inr (fold (astar_neighbor ident goal current)
                                 (get_neighbors grid1 current)
                                 (expand_node self1, grid1, open_set1,
                                  List.insert current closed_set0))))"

partial_function (option) astar_loop ::
  "(pos \<Rightarrow> nat) \<Rightarrow> pos \<Rightarrow> astar_state \<Rightarrow> (PathfindingResult \<times> Grid) option" where
  "astar_loop ident goal st =
     (if fst (snd (snd st)) = []
      then Some (create_result (fst st) [] False (Some ''No path exists''), fst (snd st))
      else (case astar_iteration ident goal st of
              None \<Rightarrow> None
            | Some (Inl r) \<Rightarrow> Some r
            | Some (Inr st') \<Rightarrow> astar_loop ident goal st'))"

text \<open>
  \<open>AStar.find_path\<close>. The call returns the result; the grid is mutated in place, so the
  model returns it as well.
\<close>

definition AStar_find_path ::
  "(pos \<Rightarrow> nat) \<Rightarrow> AStar \<Rightarrow> Grid \<Rightarrow> pos \<Rightarrow> pos \<Rightarrow> (PathfindingResult \<times> Grid) option" where
  "AStar_find_path ident self0 grid0 start goal =
     (let self = start_timing self0;
          error_msg = validate_inputs grid0 start goal
      in if truthy error_msg then Some (create_result self [] False error_msg, grid0)
         else
           let grid = reset_pathfinding_data grid0 in
           case (get_node grid (fst start) (snd start), get_node grid (fst goal) (snd goal)) of
             (Some start_node, Some goal_node) \<Rightarrow>
               if start = goal then Some (create_result self [waypoint start] True None, grid)
               else
                 let h = get_heuristic start goal (heuristic_type self);
                     s1 = start_node\<lparr> g_cost := Num 0, h_cost := h,
                            f_cost := fadd (Num 0) (Num (heuristic_weight self * h)),
                            in_open_set := True \<rparr>;
                     grid1 = grid\<lparr> nodes := (nodes grid)(start := s1) \<rparr>
                 in astar_loop ident goal
                      (self, grid1, heappush [] (f_cost s1, ident start, start), [])
           | _ \<Rightarrow> Some (create_result self [] False (Some ''Invalid start or goal node''), grid))"

text \<open>
  \<open>WeightedAStar(AStar)\<close> of \<open>astar.py\<close>: the name carries the weight as given, the
  weight is raised to 1 when below, and \<open>find_path\<close> adds two entries to
  \<open>algorithm_data\<close>. The text Python prints for a float inside an f-string is the
  parameter \<open>fmt\<close>.
\<close>

definition WeightedAStar_init :: "(real \<Rightarrow> string) \<Rightarrow> string \<Rightarrow> real \<Rightarrow> AStar" where
  "WeightedAStar_init fmt htype w =
     (AStar_init htype w)\<lparr> alg_name := ''Weighted A* (w='' @ fmt w @ '')'',
        heuristic_weight := (if w < 1 then 1 else w) \<rparr>"

definition WeightedAStar_find_path ::
  "(pos \<Rightarrow> nat) \<Rightarrow> AStar \<Rightarrow> Grid \<Rightarrow> pos \<Rightarrow> pos \<Rightarrow> (PathfindingResult \<times> Grid) option" where
  "WeightedAStar_find_path ident self grid start goal =
     (case AStar_find_path ident self grid start goal of
        None \<Rightarrow> None
      | Some (result, grid') \<Rightarrow>
          Some (result\<lparr> algorithm_data := (algorithm_data result)
                   (''heuristic_weight'' \<mapsto> VFloat (Num (heuristic_weight self)),
                    ''optimality_bound'' \<mapsto> VFloat (Num (heuristic_weight self))) \<rparr>, grid'))"

section \<open>algorithms/classical/dijkstra.py: Dijkstra\<close>

type_synonym dijkstra_state = "PathfindingAlgorithm \<times> Grid \<times> entry list \<times> pos list"

definition dijkstra_neighbor ::
  "(pos \<Rightarrow> nat) \<Rightarrow> pos \<Rightarrow> pos \<Rightarrow> dijkstra_state \<Rightarrow> dijkstra_state" where
  "dijkstra_neighbor ident current neighbor st =
     (case st of (self0, grid, open_set, visited_set) \<Rightarrow>
        let self = visit_node self0 in
        if neighbor \<in> set visited_set then (self, grid, open_set, visited_set)
        else
          let distance =
                fadd (g_cost (nodes grid current)) (get_movement_cost grid current neighbor)
          in if fless distance (g_cost (nodes grid neighbor))
             then (self,
                   grid\<lparr> nodes := (nodes grid)
                     (neighbor := (nodes grid neighbor)\<lparr> g_cost := distance,
                        f_cost := distance, parent := Some current \<rparr>) \<rparr>,
                   heappush open_set (distance, ident neighbor, neighbor), visited_set)
             else (self, grid, open_set, visited_set))"

definition dijkstra_iteration ::
  "(pos \<Rightarrow> nat) \<Rightarrow> pos \<Rightarrow> dijkstra_state
     \<Rightarrow> ((PathfindingResult \<times> Grid) + dijkstra_state) option" where
  "dijkstra_iteration ident goal st =
     (case st of (self0, grid, open_set0, visited_set) \<Rightarrow>
        let self1 = update_memory_usage (increment_iteration self0)
                      (int (length open_set0) + int (length visited_set))
        in case heappop open_set0 of
             None \<Rightarrow> None
           | Some (item, open_set1) \<Rightarrow>
               let current = snd (snd item) in
               if current \<in> set visited_set then Some (Inr (self1, grid, open_set1, visited_set))
               else
                 let visited1 = List.insert current visited_set;
                     self2 = expand_node self1
                 in if current = goal
                    then (case get_path grid current of
                            None \<Rightarrow> None
                          | Some p \<Rightarrow>
                              let result = create_result self2 (map waypoint p) True None
                              in Some (Inl (result\<lparr> algorithm_data := (algorithm_data result)
                                     (''shortest_distance'' \<mapsto> VFloat (g_cost (nodes grid current))) \<rparr>,
                                   grid)))
                    else Some (Inr (fold (dijkstra_neighbor ident current)
                                      (get_neighbors grid current)
                                      (self2, grid, open_set1, visited1))))"

partial_function (option) dijkstra_loop ::
  "(pos \<Rightarrow> nat) \<Rightarrow> pos \<Rightarrow> dijkstra_state \<Rightarrow> (PathfindingResult \<times> Grid) option" where
  "dijkstra_loop ident goal st =
     (if fst (snd (snd st)) = []
      then Some (create_result (fst st) [] False (Some ''No path exists''), fst (snd st))
      else (case dijkstra_iteration ident goal st of
              None \<Rightarrow> None
            | Some (Inl r) \<Rightarrow> Some r
            | Some (Inr st') \<Rightarrow> dijkstra_loop ident goal st'))"

definition Dijkstra_init :: PathfindingAlgorithm where
  "Dijkstra_init = PathfindingAlgorithm_init ''Dijkstra'' CLASSICAL"

definition Dijkstra_find_path ::
  "(pos \<Rightarrow> nat) \<Rightarrow> PathfindingAlgorithm \<Rightarrow> Grid \<Rightarrow> pos \<Rightarrow> pos
     \<Rightarrow> (PathfindingResult \<times> Grid) option" where
  "Dijkstra_find_path ident self0 grid0 start goal =
     (let self = start_timing self0;
          error_msg = validate_inputs grid0 start goal
      in if truthy error_msg then Some (create_result self [] False error_msg, grid0)
         else
           let grid = reset_pathfinding_data grid0 in
           case (get_node grid (fst start) (snd start), get_node grid (fst goal) (snd goal)) of
             (Some start_node, Some goal_node) \<Rightarrow>
               if start = goal then Some (create_result self [waypoint start] True None, grid)
               else
                 let s1 = start_node\<lparr> g_cost := Num 0, f_cost := Num 0 \<rparr>;
                     grid1 = grid\<lparr> nodes := (nodes grid)(start := s1) \<rparr>
                 in dijkstra_loop ident goal
                      (self, grid1, heappush [] (g_cost s1, ident start, start), [])
           | _ \<Rightarrow> Some (create_result self [] False (Some ''Invalid start or goal node''), grid))"

section \<open>algorithms/optimized/ida_star.py: IDAStar\<close>

datatype search_result = FOUND | NOT_FOUND | CUTOFF

text \<open>
  The engine object of IDA*. Its field \<open>goal_node\<close> is assigned once by \<open>find_path\<close>
  before the first \<open>_search\<close> and read only there; the model passes the goal as an
  argument instead.
\<close>

record IDAStar = PathfindingAlgorithm +
  ida_heuristic_type :: string
  max_iterations :: int
  current_threshold :: pyfloat
  next_threshold :: pyfloat
  solution_path :: "pos list"

definition IDAStar_init :: "string \<Rightarrow> int \<Rightarrow> IDAStar" where
  "IDAStar_init htype max_iter = PathfindingAlgorithm.extend
     (PathfindingAlgorithm_init ''IDA*'' OPTIMIZED)
     \<lparr> ida_heuristic_type = htype, max_iterations = max_iter, current_threshold = Num 0,
       next_threshold = PosInf, solution_path = [] \<rparr>"

text \<open>The cells of the grid: the positions \<open>is_valid_position\<close> accepts.\<close>

definition cells :: "Grid \<Rightarrow> pos set" where
  "cells grid = {0 ..< width grid} \<times> {0 ..< height grid}"

lemma finite_cells: "finite (cells grid)"
  by (simp add: cells_def)

lemma get_neighbors_cells: "n \<in> set (get_neighbors grid p) \<Longrightarrow> n \<in> cells grid"
  by (auto simp: get_neighbors_def is_walkable_def get_node_def is_valid_position_def cells_def
      split: if_splits)

text \<open>
  \<open>IDAStar._search\<close>, the recursive depth-first search, and the loop over the neighbours
  inside it. The engine object is passed through: the search assigns \<open>next_threshold\<close>,
  \<open>solution_path\<close> and the counters. Python's limit on the recursion depth is not
  modelled.
\<close>

function (sequential) IDAStar_search ::
    "Grid \<Rightarrow> pos \<Rightarrow> IDAStar \<Rightarrow> pos \<Rightarrow> pyfloat \<Rightarrow> pos list \<Rightarrow> search_result \<times> IDAStar"
  and IDAStar_search_neighbors ::
    "Grid \<Rightarrow> pos \<Rightarrow> IDAStar \<Rightarrow> pos \<Rightarrow> pyfloat \<Rightarrow> pos list \<Rightarrow> pos list \<Rightarrow> bool
       \<Rightarrow> search_result \<times> IDAStar"
where
  "IDAStar_search grid goal self node g p =
     (let h = get_heuristic node goal (ida_heuristic_type self);
          f = fadd g (Num h)
      in if fless (current_threshold self) f
         then (CUTOFF, self\<lparr> next_threshold := fmin (next_threshold self) f \<rparr>)
         else if node = goal then (FOUND, self\<lparr> solution_path := p \<rparr>)
         else IDAStar_search_neighbors grid goal
                (expand_node (update_memory_usage self (int (length p))))
                node g p (get_neighbors grid node) False)"
| "IDAStar_search_neighbors grid goal self node g p [] cutoff_occurred =
     (if cutoff_occurred then CUTOFF else NOT_FOUND, self)"
| "IDAStar_search_neighbors grid goal self node g p (neighbor # rest) cutoff_occurred =
     (let self1 = visit_node self in
      if neighbor \<in> set p
      then IDAStar_search_neighbors grid goal self1 node g p rest cutoff_occurred
      else
        (case IDAStar_search grid goal self1 neighbor
                (fadd g (get_movement_cost grid node neighbor)) (p @ [neighbor]) of
           (result, self2) \<Rightarrow>
             if result = FOUND then (FOUND, self2)
             else IDAStar_search_neighbors grid goal self2 node g p rest
                    (cutoff_occurred \<or> result = CUTOFF)))"
  by pat_completeness auto
termination
  apply (relation "inv_image (less_than <*lex*> less_than)
     (\<lambda>x. case x of
        Inl (grid, goal, self, node, g, p) \<Rightarrow> (card (cells grid - set p), 9)
      | Inr (grid, goal, self, node, g, p, ns, c) \<Rightarrow>
          (if set ns \<subseteq> cells grid then card (cells grid - set p)
           else Suc (card (cells grid - set p)), length ns))")
  subgoal by (intro wf_inv_image wf_lex_prod wf_less_than)
  subgoal for grid goal self node g p
  proof -
    have "set (get_neighbors grid node) \<subseteq> cells grid"
      using get_neighbors_cells by blast
    moreover have "length (get_neighbors grid node) \<le> 8"
      by (simp add: get_neighbors_def directions_def le_trans [OF length_filter_le])
    ultimately show ?thesis by simp
  qed
  subgoal by auto
  subgoal for grid goal self node g p neighbor rest
  proof -
    assume nin: "neighbor \<notin> set p"
    have le: "card (cells grid - set (p @ [neighbor])) \<le> card (cells grid - set p)"
      by (rule card_mono) (auto simp: finite_cells)
    have "neighbor \<in> cells grid \<Longrightarrow>
          card (cells grid - set (p @ [neighbor])) < card (cells grid - set p)"
      using nin by (intro psubset_card_mono) (auto simp: finite_cells)
    with le show ?thesis by auto
  qed
  subgoal by auto
  done

declare IDAStar_search.simps(1) [simp del]

text \<open>
  One pass of \<open>while iterations < self.max_iterations\<close>, entered with the loop
  condition true: the call returns (\<open>Inl\<close>) or the loop goes on with the threshold
  raised (\<open>Inr\<close>, the engine and the local counter \<open>iterations\<close>).
\<close>

definition IDAStar_iteration ::
  "Grid \<Rightarrow> pos \<Rightarrow> pos \<Rightarrow> IDAStar \<Rightarrow> int \<Rightarrow> PathfindingResult + (IDAStar \<times> int)" where
  "IDAStar_iteration grid start goal self iters =
     (case IDAStar_search grid goal (self\<lparr> next_threshold := PosInf \<rparr>) start (Num 0) [start] of
        (result, self1) \<Rightarrow>
          let iterations1 = iters + 1;
              self2 = increment_iteration self1
          in if result = FOUND
             then (let r = create_result self2 (map waypoint (solution_path self2)) True None
                   in Inl (r\<lparr> algorithm_data := (algorithm_data r)
                       (''final_threshold'' \<mapsto> VFloat (current_threshold self2),
                        ''ida_iterations'' \<mapsto> VInt iterations1,
                        ''memory_complexity'' \<mapsto> VStr ''O(d)'') \<rparr>))
             else if result = NOT_FOUND
             then Inl (create_result self2 [] False (Some ''No path exists''))
             else Inr (self2\<lparr> current_threshold := next_threshold self2 \<rparr>, iterations1))"

lemma IDAStar_search_frame:
  "max_iterations (snd (IDAStar_search grid goal self node g p)) = max_iterations self
   \<and> current_threshold (snd (IDAStar_search grid goal self node g p)) = current_threshold self
   \<and> ida_heuristic_type (snd (IDAStar_search grid goal self node g p)) = ida_heuristic_type self"
  and IDAStar_search_neighbors_frame:
  "max_iterations (snd (IDAStar_search_neighbors grid goal self node g p ns c)) = max_iterations self
   \<and> current_threshold (snd (IDAStar_search_neighbors grid goal self node g p ns c)) = current_threshold self
   \<and> ida_heuristic_type (snd (IDAStar_search_neighbors grid goal self node g p ns c)) = ida_heuristic_type self"
proof (induction grid goal self node g p and grid goal self node g p ns c
    rule: IDAStar_search_IDAStar_search_neighbors.induct)
  case (1 grid goal self node g p)
  then show ?case
    by (subst (1 2 3) IDAStar_search.simps(1))
       (simp add: Let_def expand_node_def update_memory_usage_def)
next
  case (2 grid goal self node g p cutoff_occurred)
  then show ?case by simp
next
  case (3 grid goal self node g p neighbor rest cutoff_occurred)
  then show ?case
    by (auto simp: Let_def visit_node_def split: prod.splits)
qed

function IDAStar_loop ::
  "Grid \<Rightarrow> pos \<Rightarrow> pos \<Rightarrow> IDAStar \<Rightarrow> int \<Rightarrow> PathfindingResult" where
  "IDAStar_loop grid start goal self iters =
     (if iters < max_iterations self
      then (case IDAStar_iteration grid start goal self iters of
              Inl r \<Rightarrow> r
            | Inr (self', iterations') \<Rightarrow> IDAStar_loop grid start goal self' iterations')
      else create_result self [] False
             (Some (''Maximum iterations ('' @ str_int (max_iterations self) @ '') exceeded'')))"
  by pat_completeness auto
termination
proof (relation "measure (\<lambda>(grid, start, goal, self, iters). nat (max_iterations self - iters))")
  show "wf (measure (\<lambda>(grid, start, goal, self, iters). nat (max_iterations self - iters)))"
    by simp
next
  fix grid start goal self iters x2 self' iterations'
  assume lt: "iters < max_iterations self"
    and it: "IDAStar_iteration grid start goal self iters = Inr x2"
    and x2: "(self', iterations') = x2"
  have "max_iterations self' = max_iterations self \<and> iterations' = iters + 1"
    using it x2 IDAStar_search_frame[of grid goal "self\<lparr> next_threshold := PosInf \<rparr>" start "Num 0" "[start]"]
    by (auto simp: IDAStar_iteration_def Let_def increment_iteration_def split: prod.splits if_splits)
  with lt show "((grid, start, goal, self', iterations'), grid, start, goal, self, iters)
       \<in> measure (\<lambda>(grid, start, goal, self, iters). nat (max_iterations self - iters))"
    by simp
qed

declare IDAStar_loop.simps [simp del]

definition IDAStar_find_path ::
  "IDAStar \<Rightarrow> Grid \<Rightarrow> pos \<Rightarrow> pos \<Rightarrow> PathfindingResult \<times> Grid" where
  "IDAStar_find_path self0 grid0 start goal =
     (let self = start_timing self0;
          error_msg = validate_inputs grid0 start goal
      in if truthy error_msg then (create_result self [] False error_msg, grid0)
         else
           let grid = reset_pathfinding_data grid0 in
           case (get_node grid (fst start) (snd start), get_node grid (fst goal) (snd goal)) of
             (Some start_node, Some goal_node) \<Rightarrow>
               if start = goal then (create_result self [waypoint start] True None, grid)
               else
                 let self1 = self\<lparr> solution_path := [],
                        current_threshold :=
                          Num (get_heuristic start goal (ida_heuristic_type self)) \<rparr>
                 in (IDAStar_loop grid start goal self1 0, grid)
           | _ \<Rightarrow> (create_result self [] False (Some ''Invalid start or goal node''), grid))"

section \<open>The prologue shared by the engines\<close>

text \<open>
  The \<open>find_path\<close> of every engine class built on \<open>PathfindingAlgorithm\<close>, except
  \<open>DijkstraAllPaths\<close>, starts with the same statements: start the timing, validate, and
  return a failed result when the validation gives a message. \<open>Some\<close> is that early
  return; \<open>None\<close> means that the engine goes on to its own search.
\<close>

definition find_path_prologue ::
  "'a PathfindingAlgorithm_scheme \<Rightarrow> 'b Grid_scheme \<Rightarrow> pos \<Rightarrow> pos \<Rightarrow> PathfindingResult option" where
  "find_path_prologue self0 grid start goal =
     (let self = start_timing self0;
          error_msg = validate_inputs grid start goal
      in if truthy error_msg then Some (create_result self [] False error_msg) else None)"

section \<open>core/grid.py: AngleGrid.has_line_of_sight\<close>

text \<open>Python's \<open>int(x)\<close> on a float truncates towards zero.\<close>

definition py_int :: "real \<Rightarrow> int" where
  "py_int r = (if 0 \<le> r then \<lfloor>r\<rfloor> else \<lceil>r\<rceil>)"

text \<open>
  The loop \<open>while True\<close> of \<open>has_line_of_sight\<close>, with the loop variables \<open>x\<close>, \<open>y\<close>
  and \<open>error\<close>. \<open>None\<close> stands for a loop that does not end.
\<close>

partial_function (option) los_loop ::
  "Grid \<Rightarrow> int \<Rightarrow> int \<Rightarrow> int \<Rightarrow> int \<Rightarrow> int \<Rightarrow> int \<Rightarrow> int \<Rightarrow> int \<Rightarrow> int \<Rightarrow> bool option" where
  "los_loop grid ix2 iy2 dx dy x_step y_step x y err =
     (if \<not> is_walkable grid x y then Some False
      else if x = ix2 \<and> y = iy2 then Some True
      else
        let error2 = 2 * err;
            err1 = (if error2 > - dy then err - dy else err);
            x1 = (if error2 > - dy then x + x_step else x);
            err2 = (if error2 < dx then err1 + dx else err1);
            y1 = (if error2 < dx then y + y_step else y)
        in los_loop grid ix2 iy2 dx dy x_step y_step x1 y1 err2)"

definition has_line_of_sight :: "Grid \<Rightarrow> real \<Rightarrow> real \<Rightarrow> real \<Rightarrow> real \<Rightarrow> bool option" where
  "has_line_of_sight grid x1 y1 x2 y2 =
     (let ix1 = py_int x1; iy1 = py_int y1; ix2 = py_int x2; iy2 = py_int y2;
          dx = \<bar>ix2 - ix1\<bar>; dy = \<bar>iy2 - iy1\<bar>;
          x_step = (if ix1 < ix2 then 1 else - 1);
          y_step = (if iy1 < iy2 then 1 else - 1)
      in los_loop grid ix2 iy2 dx dy x_step y_step ix1 iy1 (dx - dy))"

text \<open>
  The discrete walk of \<open>has_line_of_sight\<close> from the first cell to the second: the loop
  of the function with the walkability test left out, collecting the cell of each pass.
\<close>

partial_function (option) bresenham_loop ::
  "int \<Rightarrow> int \<Rightarrow> int \<Rightarrow> int \<Rightarrow> int \<Rightarrow> int \<Rightarrow> int \<Rightarrow> int \<Rightarrow> int \<Rightarrow> pos list option" where
  "bresenham_loop ix2 iy2 dx dy x_step y_step x y err =
     (if x = ix2 \<and> y = iy2 then Some [(x, y)]
      else
        let error2 = 2 * err;
            err1 = (if error2 > - dy then err - dy else err);
            x1 = (if error2 > - dy then x + x_step else x);
            err2 = (if error2 < dx then err1 + dx else err1);
            y1 = (if error2 < dx then y + y_step else y)
        in Option.bind (bresenham_loop ix2 iy2 dx dy x_step y_step x1 y1 err2)
             (\<lambda>cs. Some ((x, y) # cs)))"

definition bresenham_cells :: "real \<Rightarrow> real \<Rightarrow> real \<Rightarrow> real \<Rightarrow> pos list option" where
  "bresenham_cells x1 y1 x2 y2 =
     (let ix1 = py_int x1; iy1 = py_int y1; ix2 = py_int x2; iy2 = py_int y2;
          dx = \<bar>ix2 - ix1\<bar>; dy = \<bar>iy2 - iy1\<bar>;
          x_step = (if ix1 < ix2 then 1 else - 1);
          y_step = (if iy1 < iy2 then 1 else - 1)
      in bresenham_loop ix2 iy2 dx dy x_step y_step ix1 iy1 (dx - dy))"

section \<open>The line-of-sight tests of the any-angle engines\<close>

text \<open>\<open>ThetaStar._line_of_sight_check\<close>; Lazy Theta* calls \<open>grid.has_line_of_sight\<close>
  with the same arguments, inline.\<close>

definition ThetaStar_line_of_sight_check :: "Grid \<Rightarrow> real \<times> real \<Rightarrow> pos \<Rightarrow> bool option" where
  "ThetaStar_line_of_sight_check grid start_coords end_node =
     has_line_of_sight grid (fst start_coords) (snd start_coords)
       (of_int (fst end_node)) (of_int (snd end_node))"

text \<open>\<open>IncrementalPhiStar._has_line_of_sight\<close>: a placeholder that returns \<open>True\<close>.\<close>

definition IncrementalPhiStar_has_line_of_sight :: "Grid \<Rightarrow> pos \<Rightarrow> pos \<Rightarrow> bool" where
  "IncrementalPhiStar_has_line_of_sight grid from_node to_node = True"

section \<open>algorithms/classical/weighted_astar.py: the standalone WeightedAStar\<close>

text \<open>
  What a call of a Python function gives back: a value or a raised exception. The
  standalone class does not use \<open>PathfindingResult\<close>: its \<open>find_path\<close> returns a list of
  positions or \<open>None\<close>.
\<close>

datatype py_exception = TypeError | AttributeError | KeyError

datatype find_path_value =
    Result PathfindingResult
  | PathList "pos list"
  | PyNone
  | Raised py_exception

record Standalone_WeightedAStar =
  weight :: real
  wa_heuristic_type :: string
  visited_nodes :: "pos list"
  open_nodes :: "pos list"

text \<open>
  The constructor calls \<open>super().__init__()\<close> without the two arguments \<open>name\<close> and
  \<open>category\<close> that \<open>PathfindingAlgorithm.__init__\<close> requires: it raises \<open>TypeError\<close>.
\<close>

definition Standalone_WeightedAStar_init :: "real \<Rightarrow> string \<Rightarrow> py_exception + Standalone_WeightedAStar" where
  "Standalone_WeightedAStar_init w h = Inl TypeError"

definition standalone_heuristic :: "Standalone_WeightedAStar \<Rightarrow> pos \<Rightarrow> pos \<Rightarrow> real" where
  "standalone_heuristic self pos1 pos2 =
     (let dx = \<bar>fst pos2 - fst pos1\<bar>; dy = \<bar>snd pos2 - snd pos1\<bar>
      in if wa_heuristic_type self = ''manhattan'' then of_int (dx + dy)
         else if wa_heuristic_type self = ''euclidean''
         then sqrt (of_int ((fst pos2 - fst pos1) ^ 2 + (snd pos2 - snd pos1) ^ 2))
         else if wa_heuristic_type self = ''octile''
         then of_int (max dx dy) + (sqrt 2 - 1) * of_int (min dx dy)
         else of_int (dx + dy))"

definition standalone_distance :: "pos \<Rightarrow> pos \<Rightarrow> real" where
  "standalone_distance pos1 pos2 =
     sqrt (of_int ((fst pos2 - fst pos1) ^ 2 + (snd pos2 - snd pos1) ^ 2))"

definition standalone_directions :: "pos list" where
  "standalone_directions =
     [(-1, -1), (-1, 0), (-1, 1), (0, -1), (0, 1), (1, -1), (1, 0), (1, 1)]"

text \<open>
  \<open>_get_neighbors\<close> asks \<open>grid.is_obstacle(nx, ny)\<close> for every neighbour inside the
  bounds. No grid class of the repository has a method \<open>is_obstacle\<close>, so the first such
  neighbour raises \<open>AttributeError\<close>; without one the list is empty.
\<close>

definition standalone_get_neighbors :: "Grid \<Rightarrow> pos \<Rightarrow> py_exception + pos list" where
  "standalone_get_neighbors grid p =
     (if \<exists>d \<in> set standalone_directions.
           0 \<le> fst p + fst d \<and> fst p + fst d < width grid
           \<and> 0 \<le> snd p + snd d \<and> snd p + snd d < height grid
      then Inl AttributeError else Inr [])"

text \<open>The heap holds tuples \<open>(f, (x, y))\<close>, ordered as Python orders tuples.\<close>

type_synonym wentry = "real \<times> pos"

definition wentry_less :: "wentry \<Rightarrow> wentry \<Rightarrow> bool" where
  "wentry_less a b =
     (if fst a \<noteq> fst b then fst a < fst b
      else if fst (snd a) \<noteq> fst (snd b) then fst (snd a) < fst (snd b)
      else snd (snd a) < snd (snd b))"

fun least_wentry :: "wentry \<Rightarrow> wentry list \<Rightarrow> wentry" where
  "least_wentry m [] = m"
| "least_wentry m (e # es) = least_wentry (if wentry_less e m then e else m) es"

definition wheappop :: "wentry list \<Rightarrow> (wentry \<times> wentry list) option" where
  "wheappop heap =
     (case heap of
        [] \<Rightarrow> None
      | e # es \<Rightarrow> (let m = least_wentry e es in Some (m, remove1 m heap)))"

text \<open>\<open>_reconstruct_path\<close>: follow \<open>came_from\<close> while the current position is a key.\<close>

partial_function (option) standalone_reconstruct ::
  "(pos \<rightharpoonup> pos) \<Rightarrow> pos \<Rightarrow> pos list \<Rightarrow> pos list option" where
  "standalone_reconstruct came_from current p =
     (case came_from current of
        None \<Rightarrow> Some (rev p)
      | Some c \<Rightarrow> standalone_reconstruct came_from c (p @ [c]))"

text \<open>
  The state of the loop: the engine, the heap, the closed set, \<open>came_from\<close> and
  \<open>g_score\<close>. (\<open>f_score\<close> is written and read back at once; the model keeps the value.)
\<close>

type_synonym standalone_state =
  "Standalone_WeightedAStar \<times> wentry list \<times> pos list \<times> (pos \<rightharpoonup> pos) \<times> (pos \<rightharpoonup> real)"

definition standalone_neighbor ::
  "pos \<Rightarrow> pos \<Rightarrow> pos \<Rightarrow> (py_exception + standalone_state) \<Rightarrow> (py_exception + standalone_state)" where
  "standalone_neighbor goal current neighbor acc =
     (case acc of
        Inl e \<Rightarrow> Inl e
      | Inr (self, open_set, closed_set, came_from, g_score) \<Rightarrow>
          if neighbor \<in> set closed_set then Inr (self, open_set, closed_set, came_from, g_score)
          else
            (case g_score current of
               None \<Rightarrow> Inl KeyError
             | Some gc \<Rightarrow>
                 let tentative_g = gc + standalone_distance current neighbor in
                 if g_score neighbor = None \<or> tentative_g < the (g_score neighbor)
                 then
                   let came_from1 = came_from(neighbor \<mapsto> current);
                       g_score1 = g_score(neighbor \<mapsto> tentative_g);
                       f = tentative_g + weight self * standalone_heuristic self neighbor goal
                   in if neighbor \<notin> snd ` set open_set
                      then Inr (self\<lparr> open_nodes := open_nodes self @ [neighbor] \<rparr>,
                                open_set @ [(f, neighbor)], closed_set, came_from1, g_score1)
                      else Inr (self, open_set, closed_set, came_from1, g_score1)
                 else Inr (self, open_set, closed_set, came_from, g_score)))"

partial_function (option) standalone_loop ::
  "Grid \<Rightarrow> pos \<Rightarrow> standalone_state \<Rightarrow> find_path_value option" where
  "standalone_loop grid goal st =
     (case st of (self, open_set, closed_set, came_from, g_score) \<Rightarrow>
        (case wheappop open_set of
           None \<Rightarrow> Some PyNone
         | Some (item, open_set1) \<Rightarrow>
             let current = snd item in
             if current \<in> set closed_set
             then standalone_loop grid goal (self, open_set1, closed_set, came_from, g_score)
             else
               let closed1 = List.insert current closed_set;
                   self1 = self\<lparr> visited_nodes := visited_nodes self @ [current] \<rparr>
               in if current = goal
                  then (case standalone_reconstruct came_from current [current] of
                          None \<Rightarrow> None
                        | Some p \<Rightarrow> Some (PathList p))
                  else
                    (case standalone_get_neighbors grid current of
                       Inl e \<Rightarrow> Some (Raised e)
                     | Inr ns \<Rightarrow>
                         (case fold (standalone_neighbor goal current) ns
                                 (Inr (self1, open_set1, closed1, came_from, g_score)) of
                            Inl e \<Rightarrow> Some (Raised e)
                          | Inr st' \<Rightarrow> standalone_loop grid goal st'))))"

definition Standalone_WeightedAStar_find_path ::
  "Standalone_WeightedAStar \<Rightarrow> Grid \<Rightarrow> pos \<Rightarrow> pos \<Rightarrow> find_path_value option" where
  "Standalone_WeightedAStar_find_path self0 grid start goal =
     (let self = self0\<lparr> visited_nodes := [], open_nodes := [start] \<rparr>;
          f = weight self * standalone_heuristic self start goal
      in standalone_loop grid goal
           (self, [(f, start)], [], Map.empty, [start \<mapsto> 0]))"

section \<open>core/node.py: SamplingNode\<close>

text \<open>
  Sampling nodes are objects that refer to each other (\<open>parent\<close>, \<open>children\<close>) and are
  mutated after they are linked, so they live in an explicit store: a reference is a
  number, and the store maps it to the fields. \<open>children\<close> is a Python set; the list
  keeps its elements, and membership is decided as the set decides it, by \<open>__hash__\<close>
  and \<open>__eq__\<close>.
\<close>

record SamplingNode =
  node_x :: real
  node_y :: real
  node_parent :: "nat option"
  children :: "nat list"
  cost :: real

definition SamplingNode_init :: "real \<Rightarrow> real \<Rightarrow> SamplingNode" where
  "SamplingNode_init x y =
     \<lparr> node_x = x, node_y = y, node_parent = None, children = [], cost = 0 \<rparr>"

definition node_position :: "SamplingNode \<Rightarrow> real \<times> real" where
  "node_position n = (node_x n, node_y n)"

definition distance_to :: "SamplingNode \<Rightarrow> SamplingNode \<Rightarrow> real" where
  "distance_to a b =
     (let dx = node_x a - node_x b; dy = node_y a - node_y b in sqrt (dx * dx + dy * dy))"

text \<open>\<open>SamplingNode.__eq__\<close>: equal positions up to \<open>1e-6\<close> in each coordinate.\<close>

definition node_eq :: "SamplingNode \<Rightarrow> SamplingNode \<Rightarrow> bool" where
  "node_eq a b =
     (\<bar>node_x a - node_x b\<bar> < 1 / 1000000 \<and> \<bar>node_y a - node_y b\<bar> < 1 / 1000000)"

text \<open>Python's \<open>round\<close>: to the nearest integer, a tie to the even one.\<close>

definition py_round :: "real \<Rightarrow> int" where
  "py_round r =
     (let f = \<lfloor>r\<rfloor>; d = r - of_int f
      in if d < 1 / 2 then f else if 1 / 2 < d then f + 1
         else if even f then f else f + 1)"

text \<open>
  \<open>SamplingNode.__hash__\<close> hashes \<open>(round(x, 6), round(y, 6))\<close>; two nodes have the same
  hash when these rounded coordinates agree (the model takes the hash of tuples to be
  free of collisions).
\<close>

definition node_hash :: "SamplingNode \<Rightarrow> int \<times> int" where
  "node_hash n = (py_round (node_x n * 1000000), py_round (node_y n * 1000000))"

type_synonym objects = "nat \<Rightarrow> SamplingNode"

text \<open>An element of a set matches a key when it is the same object, or has the same
  hash and is equal.\<close>

definition same_element :: "objects \<Rightarrow> nat \<Rightarrow> nat \<Rightarrow> bool" where
  "same_element objs a b =
     (a = b \<or> (node_hash (objs a) = node_hash (objs b) \<and> node_eq (objs a) (objs b)))"

definition add_child :: "objects \<Rightarrow> nat \<Rightarrow> nat \<Rightarrow> objects" where
  "add_child objs self child =
     (let cs = children (objs self);
          cs1 = (if \<exists>m \<in> set cs. same_element objs m child then cs else cs @ [child]);
          objs1 = objs(self := (objs self)\<lparr> children := cs1 \<rparr>)
      in objs1(child := (objs1 child)\<lparr> node_parent := Some self \<rparr>))"

definition remove_child :: "objects \<Rightarrow> nat \<Rightarrow> nat \<Rightarrow> objects" where
  "remove_child objs self child =
     (let cs = children (objs self)
      in case find (\<lambda>m. same_element objs m child) cs of
           None \<Rightarrow> objs
         | Some m \<Rightarrow>
             (let objs1 = objs(self := (objs self)\<lparr> children := remove1 m cs \<rparr>)
              in objs1(child := (objs1 child)\<lparr> node_parent := None \<rparr>)))"

section \<open>algorithms/sampling/rrt.py: RRT and RRTStar\<close>

text \<open>
  The engine object, with the two pieces of the environment its run changes: the store
  of sampling nodes (\<open>objs\<close>, and \<open>n_objs\<close> the number allocated) and the position
  \<open>n_draws\<close> in the sequence of numbers that \<open>random.random()\<close> returns. That sequence is
  the parameter \<open>rnd\<close> of the functions below; \<open>random.uniform(a, b)\<close> is
  \<open>a + (b - a) * random()\<close>.
\<close>

record RRT = PathfindingAlgorithm +
  step_size :: real
  rrt_max_iterations :: int
  goal_bias :: real
  tree_nodes :: "nat list"
  root :: "nat option"
  objs :: objects
  n_objs :: nat
  n_draws :: nat

record RRTStar = RRT +
  rewiring_radius :: real

definition RRT_init :: "real \<Rightarrow> int \<Rightarrow> real \<Rightarrow> RRT" where
  "RRT_init step max_iter bias = PathfindingAlgorithm.extend
     (PathfindingAlgorithm_init ''RRT'' SAMPLING)
     \<lparr> step_size = step, rrt_max_iterations = max_iter, goal_bias = bias, tree_nodes = [],
       root = None, objs = (\<lambda>r. SamplingNode_init 0 0), n_objs = 0, n_draws = 0 \<rparr>"

definition RRTStar_init :: "real \<Rightarrow> int \<Rightarrow> real \<Rightarrow> real \<Rightarrow> RRTStar" where
  "RRTStar_init step max_iter bias radius =
     RRT.extend ((RRT_init step max_iter bias)\<lparr> alg_name := ''RRT*'' \<rparr>)
       \<lparr> rewiring_radius = radius \<rparr>"

text \<open>\<open>SamplingNode(x, y)\<close>: a new object in the store.\<close>

definition new_node :: "'a RRT_scheme \<Rightarrow> real \<Rightarrow> real \<Rightarrow> nat \<times> 'a RRT_scheme" where
  "new_node self x y =
     (n_objs self,
      self\<lparr> objs := (objs self)(n_objs self := SamplingNode_init x y),
            n_objs := Suc (n_objs self) \<rparr>)"

definition random_uniform ::
  "(nat \<Rightarrow> real) \<Rightarrow> 'a RRT_scheme \<Rightarrow> real \<Rightarrow> real \<Rightarrow> real \<times> 'a RRT_scheme" where
  "random_uniform rnd self a b =
     (a + (b - a) * rnd (n_draws self), self\<lparr> n_draws := Suc (n_draws self) \<rparr>)"

definition sample_random_point ::
  "(nat \<Rightarrow> real) \<Rightarrow> Grid \<Rightarrow> 'a RRT_scheme \<Rightarrow> nat \<times> 'a RRT_scheme" where
  "sample_random_point rnd grid self =
     (case random_uniform rnd self 0 (of_int (width grid - 1)) of
        (x, self1) \<Rightarrow>
          (case random_uniform rnd self1 0 (of_int (height grid - 1)) of
             (y, self2) \<Rightarrow> new_node self2 x y))"

text \<open>The scan of \<open>_find_nearest_node\<close> over \<open>self.nodes[1:]\<close>.\<close>

fun nearest_scan :: "objects \<Rightarrow> nat \<Rightarrow> nat list \<Rightarrow> nat \<Rightarrow> real \<Rightarrow> nat" where
  "nearest_scan os sample [] nearest min_distance = nearest"
| "nearest_scan os sample (n # ns) nearest min_distance =
     (let distance = distance_to (os n) (os sample)
      in if distance < min_distance then nearest_scan os sample ns n distance
         else nearest_scan os sample ns nearest min_distance)"

definition find_nearest_node :: "'a RRT_scheme \<Rightarrow> nat \<Rightarrow> nat option" where
  "find_nearest_node self sample =
     (case tree_nodes self of
        [] \<Rightarrow> None
      | n # ns \<Rightarrow>
          Some (nearest_scan (objs self) sample ns n (distance_to (objs self n) (objs self sample))))"

text \<open>\<open>_is_collision_free\<close>: \<open>num_samples + 1\<close> points along the segment, each rounded
  to a cell.\<close>

definition is_collision_free :: "Grid \<Rightarrow> SamplingNode \<Rightarrow> SamplingNode \<Rightarrow> bool" where
  "is_collision_free grid from_node to_node =
     (let num_samples = max 10 (py_int (distance_to from_node to_node * 2))
      in list_all
           (\<lambda>i. let t = real i / of_int num_samples;
                     x = node_x from_node + t * (node_x to_node - node_x from_node);
                     y = node_y from_node + t * (node_y to_node - node_y from_node);
                     grid_x = py_round x;
                     grid_y = py_round y
                 in is_valid_position grid grid_x grid_y \<and> is_walkable grid grid_x grid_y)
           [0 ..< nat num_samples + 1])"

text \<open>\<open>RRT._extend_tree\<close>; the result is the new node, or \<open>None\<close>.\<close>

definition RRT_extend_tree ::
  "Grid \<Rightarrow> nat \<Rightarrow> nat \<Rightarrow> 'a RRT_scheme \<Rightarrow> nat option \<times> 'a RRT_scheme" where
  "RRT_extend_tree grid from_node toward_sample self =
     (let dx = node_x (objs self toward_sample) - node_x (objs self from_node);
          dy = node_y (objs self toward_sample) - node_y (objs self from_node);
          distance = sqrt (dx * dx + dy * dy)
      in if distance = 0 then (None, self)
         else
           let step_x = (dx / distance) * step_size self;
               step_y = (dy / distance) * step_size self
           in case new_node self (node_x (objs self from_node) + step_x)
                     (node_y (objs self from_node) + step_y) of
                (nn, self1) \<Rightarrow>
                  if is_collision_free grid (objs self1 from_node) (objs self1 nn)
                  then
                    let os1 = (objs self1)(nn := (objs self1 nn)\<lparr> node_parent := Some from_node \<rparr>);
                        os2 = os1(nn := (os1 nn)\<lparr> cost := cost (os1 from_node)
                                 + distance_to (os1 from_node) (os1 nn) \<rparr>)
                    in (Some nn, self1\<lparr> objs := add_child os2 from_node nn \<rparr>)
                  else (None, self1))"

text \<open>\<open>_construct_path\<close>: the positions along the parent links, reversed.\<close>

partial_function (option) construct_path_loop ::
  "objects \<Rightarrow> nat option \<Rightarrow> (real \<times> real) list \<Rightarrow> (real \<times> real) list option" where
  "construct_path_loop os current p =
     (case current of
        None \<Rightarrow> Some (rev p)
      | Some c \<Rightarrow> construct_path_loop os (node_parent (os c)) (p @ [node_position (os c)]))"

text \<open>
  One pass of \<open>for iteration in range(self.max_iterations)\<close>. The method \<open>_extend_tree\<close>
  is the one of the object's class: the parameter \<open>extend_tree\<close>.
\<close>

definition rrt_iteration ::
  "(Grid \<Rightarrow> nat \<Rightarrow> nat \<Rightarrow> 'a RRT_scheme \<Rightarrow> (nat option \<times> 'a RRT_scheme) option)
     \<Rightarrow> (nat \<Rightarrow> real) \<Rightarrow> Grid \<Rightarrow> nat \<Rightarrow> int \<Rightarrow> 'a RRT_scheme
     \<Rightarrow> (PathfindingResult + 'a RRT_scheme) option" where
  "rrt_iteration extend_tree rnd grid goal_node iteration self0 =
     (let self1 = update_memory_usage (increment_iteration self0) (int (length (tree_nodes self0)));
          r = rnd (n_draws self1);
          self2 = self1\<lparr> n_draws := Suc (n_draws self1) \<rparr>;
          (sample, self3) = (if r < goal_bias self2 then (goal_node, self2)
                             else sample_random_point rnd grid self2)
      in case find_nearest_node self3 sample of
           None \<Rightarrow> Some (Inr self3)
         | Some nearest_node \<Rightarrow>
             (case extend_tree grid nearest_node sample self3 of
                None \<Rightarrow> None
              | Some (None, self4) \<Rightarrow> Some (Inr self4)
              | Some (Some nn, self4) \<Rightarrow>
                  let self5 = expand_node (self4\<lparr> tree_nodes := tree_nodes self4 @ [nn] \<rparr>);
                      os = objs self5
                  in if distance_to (os nn) (os goal_node) \<le> 1 / 2
                        \<and> is_collision_free grid (os nn) (os goal_node)
                     then
                       let os1 = os(goal_node := (os goal_node)\<lparr> node_parent := Some nn \<rparr>);
                           os2 = os1(goal_node := (os1 goal_node)\<lparr> cost := cost (os1 nn)
                                    + distance_to (os1 nn) (os1 goal_node) \<rparr>)
                       in (case construct_path_loop os2 (Some goal_node) [] of
                             None \<Rightarrow> None
                           | Some p \<Rightarrow>
                               let res = create_result self5 p True None
                               in Some (Inl (res\<lparr> algorithm_data := (algorithm_data res)
                                    (''iterations_used'' \<mapsto> VInt (iteration + 1),
                                     ''tree_size'' \<mapsto> VInt (int (length (tree_nodes self5))),
                                     ''sampling_efficiency'' \<mapsto>
                                        VFloat (Num (of_int (iteration + 1)
                                                  / of_int (rrt_max_iterations self5)))) \<rparr>)))
                     else Some (Inr self5)))"

fun rrt_loop ::
  "(Grid \<Rightarrow> nat \<Rightarrow> nat \<Rightarrow> 'a RRT_scheme \<Rightarrow> (nat option \<times> 'a RRT_scheme) option)
     \<Rightarrow> (nat \<Rightarrow> real) \<Rightarrow> Grid \<Rightarrow> nat \<Rightarrow> nat \<Rightarrow> int \<Rightarrow> 'a RRT_scheme
     \<Rightarrow> PathfindingResult option" where
  "rrt_loop extend_tree rnd grid goal_node 0 iteration self =
     Some (create_result self [] False
       (Some (''No path found within '' @ str_int (rrt_max_iterations self) @ '' iterations'')))"
| "rrt_loop extend_tree rnd grid goal_node (Suc remaining) iteration self =
     (case rrt_iteration extend_tree rnd grid goal_node iteration self of
        None \<Rightarrow> None
      | Some (Inl r) \<Rightarrow> Some r
      | Some (Inr self') \<Rightarrow> rrt_loop extend_tree rnd grid goal_node remaining (iteration + 1) self')"

text \<open>
  \<open>RRT.find_path\<close>, inherited by \<open>RRTStar\<close>. It neither reads nor writes the scratch
  fields of the grid, so the grid is not returned.
\<close>

definition sampling_find_path ::
  "(Grid \<Rightarrow> nat \<Rightarrow> nat \<Rightarrow> 'a RRT_scheme \<Rightarrow> (nat option \<times> 'a RRT_scheme) option)
     \<Rightarrow> (nat \<Rightarrow> real) \<Rightarrow> 'a RRT_scheme \<Rightarrow> Grid \<Rightarrow> pos \<Rightarrow> pos \<Rightarrow> PathfindingResult option" where
  "sampling_find_path extend_tree rnd self0 grid start goal =
     (let self = start_timing self0;
          error_msg = validate_inputs grid start goal
      in if truthy error_msg then Some (create_result self [] False error_msg)
         else
           (case new_node (self\<lparr> tree_nodes := [] \<rparr>) (of_int (fst start)) (of_int (snd start)) of
              (root_node, self1) \<Rightarrow>
                (case new_node (self1\<lparr> root := Some root_node, tree_nodes := [root_node] \<rparr>)
                        (of_int (fst goal)) (of_int (snd goal)) of
                   (goal_node, self2) \<Rightarrow>
                     rrt_loop extend_tree rnd grid goal_node (nat (rrt_max_iterations self2)) 0 self2)))"

definition RRT_find_path ::
  "(nat \<Rightarrow> real) \<Rightarrow> RRT \<Rightarrow> Grid \<Rightarrow> pos \<Rightarrow> pos \<Rightarrow> PathfindingResult option" where
  "RRT_find_path rnd self grid start goal =
     sampling_find_path (\<lambda>g f t s. Some (RRT_extend_tree g f t s)) rnd self grid start goal"

definition RRTStar_find_nearby_nodes :: "'a RRT_scheme \<Rightarrow> nat \<Rightarrow> real \<Rightarrow> nat list" where
  "RRTStar_find_nearby_nodes self node radius =
     filter (\<lambda>existing_node.
               \<not> node_eq (objs self existing_node) (objs self node)
               \<and> distance_to (objs self existing_node) (objs self node) \<le> radius)
       (tree_nodes self)"

text \<open>
  \<open>_update_descendant_costs\<close> is recursive over the \<open>children\<close> sets. The model runs
  the same assignments in the same order with an explicit stack of frames: a node and
  the children of it that the \<open>for\<close> loop has still to visit. \<open>None\<close> stands for a
  recursion that does not end (children that form a cycle).
\<close>

partial_function (option) update_descendant_costs_loop ::
  "objects \<Rightarrow> (nat \<times> nat list) list \<Rightarrow> objects option" where
  "update_descendant_costs_loop os stack =
     (case stack of
        [] \<Rightarrow> Some os
      | (node, []) # rest \<Rightarrow> update_descendant_costs_loop os rest
      | (node, child # cs) # rest \<Rightarrow>
          (let os1 = os(child := (os child)\<lparr> cost := cost (os node)
                         + distance_to (os node) (os child) \<rparr>)
           in update_descendant_costs_loop os1 ((child, children (os1 child)) # (node, cs) # rest)))"

definition update_descendant_costs :: "objects \<Rightarrow> nat \<Rightarrow> objects option" where
  "update_descendant_costs os node = update_descendant_costs_loop os [(node, children (os node))]"

text \<open>The body of the loop of \<open>_rewire_tree\<close>.\<close>

definition rewire_node :: "Grid \<Rightarrow> nat \<Rightarrow> nat \<Rightarrow> objects \<Rightarrow> objects option" where
  "rewire_node grid nn nearby_node os =
     (case node_parent (os nearby_node) of
        None \<Rightarrow> Some os
      | Some old_parent \<Rightarrow>
          if is_collision_free grid (os nn) (os nearby_node)
          then
            (let potential_cost = cost (os nn) + distance_to (os nn) (os nearby_node)
             in if potential_cost < cost (os nearby_node)
                then
                  (let os1 = remove_child os old_parent nearby_node;
                       os2 = add_child os1 nn nearby_node;
                       os3 = os2(nearby_node := (os2 nearby_node)\<lparr> cost := potential_cost \<rparr>)
                   in update_descendant_costs os3 nearby_node)
                else Some os)
          else Some os)"

fun rewire_tree :: "Grid \<Rightarrow> nat \<Rightarrow> nat list \<Rightarrow> objects \<Rightarrow> objects option" where
  "rewire_tree grid nn [] os = Some os"
| "rewire_tree grid nn (nearby_node # rest) os =
     (case rewire_node grid nn nearby_node os of
        None \<Rightarrow> None
      | Some os1 \<Rightarrow> rewire_tree grid nn rest os1)"

text \<open>The loop of \<open>RRTStar._extend_tree\<close> that chooses the parent of the new node.\<close>

definition choose_parent_step ::
  "Grid \<Rightarrow> objects \<Rightarrow> nat \<Rightarrow> nat \<Rightarrow> nat \<times> real \<Rightarrow> nat \<times> real" where
  "choose_parent_step grid os nn nearby_node best =
     (if is_collision_free grid (os nearby_node) (os nn)
      then (let potential_cost = cost (os nearby_node) + distance_to (os nearby_node) (os nn)
            in if potential_cost < snd best then (nearby_node, potential_cost) else best)
      else best)"

definition RRTStar_extend_tree ::
  "Grid \<Rightarrow> nat \<Rightarrow> nat \<Rightarrow> RRTStar \<Rightarrow> (nat option \<times> RRTStar) option" where
  "RRTStar_extend_tree grid from_node toward_sample self =
     (case RRT_extend_tree grid from_node toward_sample self of
        (None, self1) \<Rightarrow> Some (None, self1)
      | (Some nn, self1) \<Rightarrow>
          (let nearby_nodes = RRTStar_find_nearby_nodes self1 nn (rewiring_radius self1);
               os = objs self1;
               (best_parent, best_cost) =
                 fold (choose_parent_step grid os nn) nearby_nodes (from_node, cost (os nn));
               os1 = (if \<not> node_eq (os best_parent) (os from_node)
                      then (let a = remove_child os from_node nn;
                                b = add_child a best_parent nn
                            in b(nn := (b nn)\<lparr> cost := best_cost \<rparr>))
                      else os)
           in case rewire_tree grid nn nearby_nodes os1 of
                None \<Rightarrow> None
              | Some os2 \<Rightarrow> Some (Some nn, self1\<lparr> objs := os2 \<rparr>)))"

definition RRTStar_find_path ::
  "(nat \<Rightarrow> real) \<Rightarrow> RRTStar \<Rightarrow> Grid \<Rightarrow> pos \<Rightarrow> pos \<Rightarrow> PathfindingResult option" where
  "RRTStar_find_path rnd self grid start goal =
     sampling_find_path RRTStar_extend_tree rnd self grid start goal"

section \<open>Notions used in the statements\<close>

text \<open>The message \<open>validate_inputs\<close> gives when both positions are inside the grid and
  one of them is not walkable.\<close>

definition unwalkable_message :: "Grid \<Rightarrow> pos \<Rightarrow> pos \<Rightarrow> string" where
  "unwalkable_message grid start goal =
     (if \<not> is_walkable grid (fst start) (snd start)
      then ''Start position '' @ str_pos start @ '' is not walkable''
      else ''Goal position '' @ str_pos goal @ '' is not walkable'')"

text \<open>An assignment of identities to the nodes: the order in which \<open>Grid.__init__\<close>
  creates them, row by row.\<close>

definition row_major :: "int \<Rightarrow> pos \<Rightarrow> nat" where
  "row_major w p = nat (snd p * w + fst p)"

text \<open>The grid of two cells whose left cell is blocked.\<close>

definition blocked_start_grid :: Grid where
  "blocked_start_grid = set_walkable (Grid_init 2 1) 0 0 False"

text \<open>
  What every result built by \<open>_create_result\<close> in the engines has in common: the cost
  field is untouched, the length is the sum over the waypoints, and a result that is not
  a success has no path and carries a message.
\<close>

definition result_shape :: "PathfindingResult \<Rightarrow> bool" where
  "result_shape r =
     (path_cost r = 0 \<and> path_length r = consecutive_distances (path r)
      \<and> (found r \<or> (path r = [] \<and> truthy (error_message r))))"

text \<open>The state with which \<open>Dijkstra.find_path\<close> enters its loop: the grid reset, the
  start node at distance zero and alone on the heap.\<close>

definition Dijkstra_start_state ::
  "(pos \<Rightarrow> nat) \<Rightarrow> PathfindingAlgorithm \<Rightarrow> Grid \<Rightarrow> pos \<Rightarrow> dijkstra_state" where
  "Dijkstra_start_state ident self0 grid0 start =
     (let grid = reset_pathfinding_data grid0;
          s1 = (nodes grid start)\<lparr> g_cost := Num 0, f_cost := Num 0 \<rparr>
      in (start_timing self0, grid\<lparr> nodes := (nodes grid)(start := s1) \<rparr>,
          heappush [] (Num 0, ident start, start), []))"

text \<open>The heap with which the loop goes on after an iteration.\<close>

definition frontier_after :: "('r + ('a \<times> 'b \<times> entry list \<times> 'c)) option \<Rightarrow> entry list" where
  "frontier_after x = (case x of Some (Inr st) \<Rightarrow> fst (snd (snd st)) | _ \<Rightarrow> [])"

text \<open>
  Tie-breaking by insertion order, from the words of the claim: the entry that is
  dequeued is the first one pushed among the entries with its priority \<open>f\<close>. (The list
  holds the entries in the order they were pushed.)
\<close>

definition fifo_dequeue :: "entry list \<Rightarrow> bool" where
  "fifo_dequeue open_set =
     (case heappop open_set of
        None \<Rightarrow> True
      | Some (m, rest) \<Rightarrow> find (\<lambda>e. fst e = fst m) open_set = Some m)"

text \<open>Four entries of equal priority, pushed in the order of the four straight
  directions around the cell \<open>(1, 1)\<close> of a grid of width 3.\<close>

definition four_ties :: "entry list" where
  "four_ties = [(Num 1, row_major 3 (1, 2), (1, 2)), (Num 1, row_major 3 (2, 1), (2, 1)),
                (Num 1, row_major 3 (1, 0), (1, 0)), (Num 1, row_major 3 (0, 1), (0, 1))]"

text \<open>A row of three cells whose middle cell is an obstacle.\<close>

definition blocked_row :: Grid where
  "blocked_row = set_walkable (Grid_init 3 1) 1 0 False"

text \<open>
  The values \<open>f\<close> at which a depth-first search below the threshold \<open>thr\<close> is cut off:
  the search tree of \<open>_search\<close> walked completely, without the engine object and without
  the early return at the goal.
\<close>

function cutoff_values ::
  "Grid \<Rightarrow> pos \<Rightarrow> string \<Rightarrow> pyfloat \<Rightarrow> pos \<Rightarrow> pyfloat \<Rightarrow> pos list \<Rightarrow> pyfloat list" where
  "cutoff_values grid goal htype thr node g p =
     (let f = fadd g (Num (get_heuristic node goal htype))
      in if fless thr f then [f]
         else if node = goal then []
         else concat (map (\<lambda>n. if n \<in> set p then []
                                 else cutoff_values grid goal htype thr n
                                        (fadd g (get_movement_cost grid node n)) (p @ [n]))
                (get_neighbors grid node)))"
  by pat_completeness auto
termination
proof (relation "measure (\<lambda>(grid, goal, htype, thr, node, g, p). card (cells grid - set p))")
  show "wf (measure (\<lambda>(grid, goal, htype, thr, node, g, p). card (cells grid - set p)))"
    by simp
next
  fix grid :: Grid and goal :: pos and htype :: string and thr :: pyfloat and node :: pos
    and g :: pyfloat and p :: "pos list" and x :: pyfloat and n :: pos
  assume "n \<in> set (get_neighbors grid node)" and nin: "n \<notin> set p"
  hence "n \<in> cells grid"
    using get_neighbors_cells by blast
  hence "card (cells grid - set (p @ [n])) < card (cells grid - set p)"
    using nin by (intro psubset_card_mono) (auto simp: finite_cells)
  thus "((grid, goal, htype, thr, n, fadd g (get_movement_cost grid node n), p @ [n]),
         grid, goal, htype, thr, node, g, p)
        \<in> measure (\<lambda>(grid, goal, htype, thr, node, g, p). card (cells grid - set p))"
    by simp
qed

declare cutoff_values.simps [simp del]

text \<open>
  The thresholds of the successive passes of the loop of \<open>find_path\<close>: the value of
  \<open>current_threshold\<close> at the start of each pass.
\<close>

function IDAStar_thresholds ::
  "Grid \<Rightarrow> pos \<Rightarrow> pos \<Rightarrow> IDAStar \<Rightarrow> int \<Rightarrow> pyfloat list" where
  "IDAStar_thresholds grid start goal self iters =
     (if iters < max_iterations self
      then current_threshold self #
           (case IDAStar_iteration grid start goal self iters of
              Inl r \<Rightarrow> []
            | Inr (self', iterations') \<Rightarrow> IDAStar_thresholds grid start goal self' iterations')
      else [])"
  by pat_completeness auto
termination
proof (relation "measure (\<lambda>(grid, start, goal, self, iters). nat (max_iterations self - iters))")
  show "wf (measure (\<lambda>(grid, start, goal, self, iters). nat (max_iterations self - iters)))"
    by simp
next
  fix grid start goal self iters x2 self' iterations'
  assume lt: "iters < max_iterations self"
    and it: "IDAStar_iteration grid start goal self iters = Inr x2"
    and x2: "(self', iterations') = x2"
  have "max_iterations self' = max_iterations self \<and> iterations' = iters + 1"
    using it x2 IDAStar_search_frame[of grid goal "self\<lparr> next_threshold := PosInf \<rparr>" start "Num 0" "[start]"]
    by (auto simp: IDAStar_iteration_def Let_def increment_iteration_def split: prod.splits if_splits)
  with lt show "((grid, start, goal, self', iterations'), grid, start, goal, self, iters)
       \<in> measure (\<lambda>(grid, start, goal, self, iters). nat (max_iterations self - iters))"
    by simp
qed

declare IDAStar_thresholds.simps [simp del]

text \<open>
  The threshold \<open>t'\<close> follows \<open>t\<close>: it is greater than \<open>t\<close>, and it is the least of the
  values \<open>f\<close> at which the search from \<open>start\<close> below \<open>t\<close> is cut off.
\<close>

definition least_cutoff_above :: "Grid \<Rightarrow> pos \<Rightarrow> pos \<Rightarrow> string \<Rightarrow> pyfloat \<Rightarrow> pyfloat \<Rightarrow> bool" where
  "least_cutoff_above grid start goal htype t t' =
     (fless t t'
      \<and> t' \<in> set (cutoff_values grid goal htype t start (Num 0) [start])
      \<and> (\<forall>v \<in> set (cutoff_values grid goal htype t start (Num 0) [start]). fle t' v))"

text \<open>
  A grid of three by two cells with straight moves only and an obstacle between the
  start \<open>(0, 0)\<close> and the goal \<open>(2, 0)\<close>, and the engine as \<open>find_path\<close> has it when it
  enters its loop there with the Manhattan heuristic.
\<close>

definition detour_grid :: Grid where
  "detour_grid = (set_walkable (Grid_init 3 2) 1 0 False)\<lparr> diagonal_movement := False \<rparr>"

definition detour_engine :: IDAStar where
  "detour_engine = (start_timing (IDAStar_init ''manhattan'' 1000))
     \<lparr> solution_path := [],
       current_threshold := Num (get_heuristic (0, 0) (2, 0) ''manhattan'') \<rparr>"

text \<open>
  The result the claim about equal end points describes: a success whose path is the
  single way point \<open>p\<close>, with cost zero and no node expanded.
\<close>

definition single_waypoint_result :: "pos \<Rightarrow> PathfindingResult \<Rightarrow> bool" where
  "single_waypoint_result p r =
     (found r \<and> path r = [waypoint p] \<and> path_cost r = 0 \<and> path_length r = 0
      \<and> nodes_expanded r = 0)"

text \<open>
  The state with which \<open>RRT.find_path\<close> enters its loop, and the goal node: the tree
  holds the root alone.
\<close>

definition sampling_start_state :: "'a RRT_scheme \<Rightarrow> pos \<Rightarrow> pos \<Rightarrow> nat \<times> 'a RRT_scheme" where
  "sampling_start_state self0 start goal =
     (case new_node ((start_timing self0)\<lparr> tree_nodes := [] \<rparr>)
             (of_int (fst start)) (of_int (snd start)) of
        (root_node, self1) \<Rightarrow>
          new_node (self1\<lparr> root := Some root_node, tree_nodes := [root_node] \<rparr>)
            (of_int (fst goal)) (of_int (snd goal)))"

text \<open>The method \<open>_extend_tree\<close> of the two classes, as \<open>find_path\<close> calls it.\<close>

definition keeps_expanded ::
  "(Grid \<Rightarrow> nat \<Rightarrow> nat \<Rightarrow> 'a RRT_scheme \<Rightarrow> (nat option \<times> 'a RRT_scheme) option) \<Rightarrow> bool" where
  "keeps_expanded ext =
     (\<forall>g f t s r s'. ext g f t s = Some (r, s') \<longrightarrow>
        self_nodes_expanded s' = self_nodes_expanded s)"

text \<open>
  The scratch fields of a node as \<open>reset\<close> leaves them, and the grid \<open>g\<close> with the scratch
  fields of its nodes replaced by those of the nodes \<open>sc\<close>: what a previous search may
  have left on the same map.
\<close>

definition scratch_cleared :: "GridNode \<Rightarrow> bool" where
  "scratch_cleared n =
     (g_cost n = PosInf \<and> h_cost n = 0 \<and> f_cost n = PosInf \<and> parent n = None
      \<and> \<not> visited n \<and> \<not> in_open_set n)"

definition with_scratch :: "Grid \<Rightarrow> (pos \<Rightarrow> GridNode) \<Rightarrow> Grid" where
  "with_scratch g sc =
     g\<lparr> nodes := (\<lambda>p. if is_valid_position g (fst p) (snd p)
                         then (sc p)\<lparr> walkable := walkable (nodes g p) \<rparr> else nodes g p) \<rparr>"

text \<open>
  The grid as \<open>RRT.find_path\<close> leaves it. The method and the helpers it calls read the
  grid through \<open>width\<close>, \<open>height\<close>, \<open>is_valid_position\<close> and \<open>is_walkable\<close>; none of them
  calls \<open>reset_pathfinding_data\<close> or assigns to a node of the grid.
\<close>

definition RRT_find_path_grid :: "(nat \<Rightarrow> real) \<Rightarrow> 'a RRT_scheme \<Rightarrow> Grid \<Rightarrow> pos \<Rightarrow> pos \<Rightarrow> Grid" where
  "RRT_find_path_grid rnd self grid start goal = grid"

text \<open>A standalone engine object with the fields the constructor would assign.\<close>

definition standalone_engine :: Standalone_WeightedAStar where
  "standalone_engine =
     \<lparr> weight = 3 / 2, wa_heuristic_type = ''euclidean'', visited_nodes = [], open_nodes = [] \<rparr>"

text \<open>The result the claim about failed searches describes: not found, no path, and a
  reason that is not empty.\<close>

definition failure_result :: "PathfindingResult \<Rightarrow> bool" where
  "failure_result r = (\<not> found r \<and> path r = [] \<and> truthy (error_message r))"

section \<open>Movement costs\<close>

lemma get_movement_cost_sym:
  "get_movement_cost g a b = get_movement_cost g b a"
  by (simp add: get_movement_cost_def Let_def abs_minus_commute)

lemma adjacent_offset:
  "adjacent g a b = ((fst b - fst a, snd b - snd a) \<in> set (directions (diagonal_movement g)))"
proof
  assume "adjacent g a b"
  then obtain d where d: "d \<in> set (directions (diagonal_movement g))"
    and b: "b = (fst a + fst d, snd a + snd d)"
    by (auto simp: adjacent_def)
  from b have "(fst b - fst a, snd b - snd a) = d"
    by simp
  with d show "(fst b - fst a, snd b - snd a) \<in> set (directions (diagonal_movement g))"
    by simp
next
  assume r: "(fst b - fst a, snd b - snd a) \<in> set (directions (diagonal_movement g))"
  have "b = (fst a + fst (fst b - fst a, snd b - snd a), snd a + snd (fst b - fst a, snd b - snd a))"
    by simp
  with r show "adjacent g a b"
    unfolding adjacent_def set_map by (rule image_eqI[rotated])
qed

lemma adjacent_iff:
  "adjacent g a b =
     ((\<bar>fst b - fst a\<bar> = 1 \<and> snd b = snd a) \<or> (fst b = fst a \<and> \<bar>snd b - snd a\<bar> = 1)
      \<or> (diagonal_movement g \<and> diagonal_pair a b))"
  unfolding adjacent_offset directions_def diagonal_pair_def
  by (cases "diagonal_movement g") (auto simp: abs_if split: if_splits)

lemma get_movement_cost_PosInf_iff:
  "(get_movement_cost g a b = PosInf) = (\<not> (adjacent g a b \<or> diagonal_pair a b))"
  unfolding adjacent_iff by (auto simp: get_movement_cost_def diagonal_pair_def Let_def)

lemma get_neighbors_adjacent:
  "b \<in> set (get_neighbors g a) \<Longrightarrow> adjacent g a b"
  by (auto simp: get_neighbors_def adjacent_def)

lemma fle_Num [simp]: "fle (Num a) (Num b) = (a \<le> b)"
  by (auto simp: fle_def)

lemma fle_PosInf [simp]: "fle a PosInf"
  by (cases a) (simp_all add: fle_def)

lemma TERRAIN_COSTS_nonneg:
  "TERRAIN_COSTS t = Some c \<Longrightarrow> fle (Num 0) c"
  by (auto simp: TERRAIN_COSTS_def split: if_splits)

lemma get_terrain_cost_nonneg: "fle (Num 0) (get_terrain_cost g x y)"
  by (auto simp: get_terrain_cost_def split: option.splits dest: TERRAIN_COSTS_nonneg)

lemma fadd_comm: "fadd a b = fadd b a"
  by (cases a; cases b) simp_all

lemma terrain_average_nonneg:
  "fle (Num 0) a \<Longrightarrow> fle (Num 0) b \<Longrightarrow> fle (Num 0) (fhalf (fadd a b))"
  by (cases a; cases b) simp_all

lemma fmul_nonneg:
  "0 \<le> r \<Longrightarrow> fle (Num 0) c \<Longrightarrow> fle (Num 0) (fmul (Num r) c)"
  by (cases c) simp_all

text \<open>
  Claim C7, as amended. On every grid a program can build, plain or terrain-weighted,
  the movement cost is symmetric in its two nodes and never negative. It is infinite
  exactly for the pairs that are neither adjacent in the movement model of the map nor a
  diagonal pair: on a map with diagonal movement these are the pairs that are not
  adjacent, but on a map without it a diagonal pair, which is not adjacent there, has
  the finite diagonal cost. The neighbours \<open>get_neighbors\<close> gives are adjacent. On the
  terrain-weighted grid the cost is infinite for the same pairs (and wherever the
  terrain makes it so).
\<close>

theorem movement_cost_symmetric_nonneg_infinite:
  "get_movement_cost (built_Grid w h ns dm) a b = get_movement_cost (built_Grid w h ns dm) b a
   \<and> fle (Num 0) (get_movement_cost (built_Grid w h ns dm) a b)
   \<and> (get_movement_cost (built_Grid w h ns dm) a b = PosInf)
       = (\<not> (adjacent (built_Grid w h ns dm) a b \<or> diagonal_pair a b))
   \<and> (dm \<longrightarrow> (get_movement_cost (built_Grid w h ns dm) a b = PosInf)
                = (\<not> adjacent (built_Grid w h ns dm) a b))
   \<and> (\<not> dm \<and> diagonal_pair a b \<longrightarrow>
         \<not> adjacent (built_Grid w h ns dm) a b
         \<and> get_movement_cost (built_Grid w h ns dm) a b = Num (sqrt 2))
   \<and> (b \<in> set (get_neighbors (built_Grid w h ns dm) a) \<longrightarrow> adjacent (built_Grid w h ns dm) a b)
   \<and> WeightedGrid_get_movement_cost (built_WeightedGrid w h ns dm tr) a b
       = WeightedGrid_get_movement_cost (built_WeightedGrid w h ns dm tr) b a
   \<and> fle (Num 0) (WeightedGrid_get_movement_cost (built_WeightedGrid w h ns dm tr) a b)
   \<and> (\<not> (adjacent (built_WeightedGrid w h ns dm tr) a b \<or> diagonal_pair a b) \<longrightarrow>
        WeightedGrid_get_movement_cost (built_WeightedGrid w h ns dm tr) a b = PosInf)"
proof -
  let ?g = "built_Grid w h ns dm"
  let ?wg = "built_WeightedGrid w h ns dm tr"
  have costs: "diagonal_cost ?g = sqrt 2" "straight_cost ?g = 1"
    "diagonal_cost ?wg = sqrt 2" "straight_cost ?wg = 1"
    by (simp_all add: built_Grid_def built_WeightedGrid_def WeightedGrid_init_def
        Grid_init_def Grid.extend_def)
  have dm: "diagonal_movement ?g = dm"
    by (simp add: built_Grid_def)
  have nonneg_base: "fle (Num 0) (get_movement_cost ?g a b)"
    by (simp add: get_movement_cost_def Let_def costs)
  have base_cases: "get_movement_cost ?wg a b = PosInf
      \<or> (\<exists>r. get_movement_cost ?wg a b = Num r \<and> 0 \<le> r)"
    by (simp add: get_movement_cost_def Let_def costs)
  have avg: "fle (Num 0)
      (fhalf (fadd (get_terrain_cost ?wg (fst a) (snd a)) (get_terrain_cost ?wg (fst b) (snd b))))"
    by (rule terrain_average_nonneg) (rule get_terrain_cost_nonneg)+
  have nonneg_w: "fle (Num 0) (WeightedGrid_get_movement_cost ?wg a b)"
    using base_cases avg
    by (auto simp: WeightedGrid_get_movement_cost_def Let_def intro: fmul_nonneg)
  have sym_w: "WeightedGrid_get_movement_cost ?wg a b = WeightedGrid_get_movement_cost ?wg b a"
    by (simp add: WeightedGrid_get_movement_cost_def Let_def
        get_movement_cost_sym[of ?wg a b] fadd_comm[of "get_terrain_cost ?wg (fst a) (snd a)"])
  have inf_w: "\<not> (adjacent ?wg a b \<or> diagonal_pair a b) \<longrightarrow>
      WeightedGrid_get_movement_cost ?wg a b = PosInf"
    using get_movement_cost_PosInf_iff[of ?wg a b]
    by (simp add: WeightedGrid_get_movement_cost_def Let_def)
  have sym_g: "get_movement_cost ?g a b = get_movement_cost ?g b a"
    by (rule get_movement_cost_sym)
  have inf_g: "(get_movement_cost ?g a b = PosInf) = (\<not> (adjacent ?g a b \<or> diagonal_pair a b))"
    by (rule get_movement_cost_PosInf_iff)
  have inf_8: "dm \<longrightarrow> (get_movement_cost ?g a b = PosInf) = (\<not> adjacent ?g a b)"
    unfolding inf_g using adjacent_iff[of ?g a b] dm by auto
  have dcost: "diagonal_pair a b \<longrightarrow> get_movement_cost ?g a b = Num (sqrt 2)"
    by (simp add: diagonal_pair_def get_movement_cost_def Let_def costs)
  have nadj: "\<not> dm \<and> diagonal_pair a b \<longrightarrow> \<not> adjacent ?g a b"
    unfolding adjacent_iff dm by (auto simp: diagonal_pair_def)
  have fin_4: "\<not> dm \<and> diagonal_pair a b \<longrightarrow>
      \<not> adjacent ?g a b \<and> get_movement_cost ?g a b = Num (sqrt 2)"
    using dcost nadj by blast
  have nb: "b \<in> set (get_neighbors ?g a) \<longrightarrow> adjacent ?g a b"
    using get_neighbors_adjacent by blast
  from sym_g nonneg_base inf_g inf_8 fin_4 nb sym_w nonneg_w inf_w show ?thesis
    by (intro conjI)
qed

theorem movement_cost_symmetric_nonneg_infinite_witness:
  "\<not> adjacent (built_Grid 3 3 (\<lambda>p. GridNode_init True) True) (0, 0) (2, 0)
   \<and> \<not> diagonal_pair (0, 0) (2, 0)
   \<and> get_movement_cost (built_Grid 3 3 (\<lambda>p. GridNode_init True) True) (0, 0) (2, 0) = PosInf
   \<and> diagonal_pair (0, 0) (1, 1)
   \<and> \<not> adjacent (built_Grid 3 3 (\<lambda>p. GridNode_init True) False) (0, 0) (1, 1)
   \<and> get_movement_cost (built_Grid 3 3 (\<lambda>p. GridNode_init True) False) (0, 0) (1, 1)
       = Num (sqrt 2)
   \<and> (1, 0) \<in> set (get_neighbors (built_Grid 3 3 (\<lambda>p. GridNode_init True) True) (0, 0))
   \<and> adjacent (built_Grid 3 3 (\<lambda>p. GridNode_init True) True) (0, 0) (1, 0)
   \<and> WeightedGrid_get_movement_cost
       (built_WeightedGrid 3 3 (\<lambda>p. GridNode_init True) True (\<lambda>p. ''mud'')) (0, 0) (2, 0) = PosInf
   \<and> WeightedGrid_get_movement_cost
       (built_WeightedGrid 3 3 (\<lambda>p. GridNode_init True) True (\<lambda>p. ''mud'')) (0, 0) (1, 0) = Num 2"
proof -
  have na: "\<not> adjacent (built_Grid 3 3 (\<lambda>p. GridNode_init True) True) (0, 0) (2, 0)"
    "\<not> adjacent (built_WeightedGrid 3 3 (\<lambda>p. GridNode_init True) True (\<lambda>p. ''mud'')) (0, 0) (2, 0)"
    by (simp_all add: adjacent_def directions_def)
  have nd: "\<not> diagonal_pair (0, 0) (2, 0)" and d: "diagonal_pair (0, 0) (1, 1)"
    by (simp_all add: diagonal_pair_def)
  have nb: "(1, 0) \<in> set (get_neighbors (built_Grid 3 3 (\<lambda>p. GridNode_init True) True) (0, 0))"
    by (simp add: get_neighbors_def directions_def built_Grid_def Grid_init_def is_walkable_def
        get_node_def is_valid_position_def GridNode_init_def)
  have m: "WeightedGrid_get_movement_cost
       (built_WeightedGrid 3 3 (\<lambda>p. GridNode_init True) True (\<lambda>p. ''mud'')) (0, 0) (1, 0) = Num 2"
    by (simp add: WeightedGrid_get_movement_cost_def get_movement_cost_def get_terrain_cost_def
        is_valid_position_def TERRAIN_COSTS_def built_WeightedGrid_def WeightedGrid_init_def
        Grid_init_def Grid.extend_def Let_def)
  note t1 = movement_cost_symmetric_nonneg_infinite
      [of 3 3 "\<lambda>p. GridNode_init True" True "(0, 0)" "(2, 0)" "\<lambda>p. ''mud''"]
  note t2 = movement_cost_symmetric_nonneg_infinite
      [of 3 3 "\<lambda>p. GridNode_init True" False "(0, 0)" "(1, 1)" "\<lambda>p. ''mud''"]
  note t3 = movement_cost_symmetric_nonneg_infinite
      [of 3 3 "\<lambda>p. GridNode_init True" True "(0, 0)" "(1, 0)" "\<lambda>p. ''mud''"]
  from t1 na nd have c1:
    "get_movement_cost (built_Grid 3 3 (\<lambda>p. GridNode_init True) True) (0, 0) (2, 0) = PosInf"
    "WeightedGrid_get_movement_cost
       (built_WeightedGrid 3 3 (\<lambda>p. GridNode_init True) True (\<lambda>p. ''mud'')) (0, 0) (2, 0) = PosInf"
    by blast+
  from t2 d have c2:
    "\<not> adjacent (built_Grid 3 3 (\<lambda>p. GridNode_init True) False) (0, 0) (1, 1)"
    "get_movement_cost (built_Grid 3 3 (\<lambda>p. GridNode_init True) False) (0, 0) (1, 1) = Num (sqrt 2)"
    by blast+
  from t3 nb have c3: "adjacent (built_Grid 3 3 (\<lambda>p. GridNode_init True) True) (0, 0) (1, 0)"
    by blast
  from na(1) nd c1(1) d c2 nb c3 c1(2) m show ?thesis
    by (intro conjI)
qed

text \<open>
  The claim as it is written fails on a map without diagonal movement: on the open grid
  of three by three cells, \<open>(1, 1)\<close> is not adjacent to \<open>(0, 0)\<close>, and is not among its
  neighbours, yet the movement cost between them is \<open>sqrt 2\<close>, not infinite.
\<close>

theorem movement_cost_diagonal_counterexample:
  "\<not> adjacent (built_Grid 3 3 (\<lambda>p. GridNode_init True) False) (0, 0) (1, 1)
   \<and> (1, 1) \<notin> set (get_neighbors (built_Grid 3 3 (\<lambda>p. GridNode_init True) False) (0, 0))
   \<and> get_neighbors (built_Grid 3 3 (\<lambda>p. GridNode_init True) False) (0, 0) = [(0, 1), (1, 0)]
   \<and> get_movement_cost (built_Grid 3 3 (\<lambda>p. GridNode_init True) False) (0, 0) (1, 1)
       = Num (sqrt 2)
   \<and> get_movement_cost (built_Grid 3 3 (\<lambda>p. GridNode_init True) False) (0, 0) (1, 1) \<noteq> PosInf"
  by (simp add: adjacent_def get_neighbors_def directions_def built_Grid_def Grid_init_def
      is_walkable_def get_node_def is_valid_position_def GridNode_init_def
      get_movement_cost_def Let_def)

section \<open>Results of the engines\<close>

lemma add_segment_shift:
  "0 < i \<Longrightarrow> add_segment (p # ps) (Suc i) t = add_segment ps i t"
  by (cases i) (simp_all add: add_segment_def)

lemma fold_add_segment_shift:
  "\<forall>i \<in> set is. 0 < i \<Longrightarrow>
   fold (add_segment (p # ps)) (map Suc is) t = fold (add_segment ps) is t"
  by (induction "is" arbitrary: t) (simp_all add: add_segment_shift)

lemma add_segment_acc: "add_segment ps i (c + t) = c + add_segment ps i t"
  by (simp add: add_segment_def Let_def case_prod_beta)

lemma fold_add_segment_acc:
  "fold (add_segment ps) is (c + t) = c + fold (add_segment ps) is t"
  by (induction "is" arbitrary: t) (simp_all add: add_segment_acc)

lemma upt_one_Suc: "[1 ..< Suc (Suc n)] = 1 # map Suc [1 ..< Suc n]"
proof -
  have "[1 ..< Suc (Suc n)] = 1 # [Suc 1 ..< Suc (Suc n)]"
    by (rule upt_conv_Cons) simp
  also have "[Suc 1 ..< Suc (Suc n)] = map Suc [1 ..< Suc n]"
    by (rule map_Suc_upt [symmetric])
  finally show ?thesis .
qed

lemma fold_add_segment:
  "fold (add_segment (p # ps)) [1 ..< Suc (length ps)] 0 = consecutive_distances (p # ps)"
proof (induction ps arbitrary: p)
  case Nil
  then show ?case by simp
next
  case (Cons q qs)
  have pos: "\<forall>i \<in> set [1 ..< Suc (length qs)]. 0 < i"
    by (simp only: set_upt) auto
  have first: "add_segment (p # q # qs) 1 0
      = sqrt ((fst q - fst p) * (fst q - fst p) + (snd q - snd p) * (snd q - snd p))"
    by (simp add: add_segment_def case_prod_beta Let_def)
  have "fold (add_segment (p # q # qs)) [1 ..< Suc (length (q # qs))] 0
      = fold (add_segment (p # q # qs)) (map Suc [1 ..< Suc (length qs)])
          (add_segment (p # q # qs) 1 0)"
    by (simp only: length_Cons upt_one_Suc fold_simps)
  also have "\<dots> = fold (add_segment (q # qs)) [1 ..< Suc (length qs)]
          (add_segment (p # q # qs) 1 0 + 0)"
    using fold_add_segment_shift [OF pos] by simp
  also have "\<dots> = add_segment (p # q # qs) 1 0
          + fold (add_segment (q # qs)) [1 ..< Suc (length qs)] 0"
    by (rule fold_add_segment_acc)
  also have "\<dots> = consecutive_distances (p # q # qs)"
    by (simp only: Cons.IH first consecutive_distances.simps)
  finally show ?case .
qed

lemma path_length_create_result:
  "path_length (create_result self p fnd msg) = consecutive_distances p"
proof (cases p)
  case Nil
  then show ?thesis by (simp add: create_result_def PathfindingResult_init_def)
next
  case (Cons q qs)
  then show ?thesis
    using fold_add_segment[of q qs]
    by (cases qs) (simp_all add: create_result_def PathfindingResult_init_def calculate_path_length_def Let_def)
qed

lemma path_cost_create_result: "path_cost (create_result self p fnd msg) = 0"
  by (simp add: create_result_def PathfindingResult_init_def calculate_path_length_def Let_def)

lemma path_create_result [simp]: "path (create_result self p fnd msg) = p"
  by (simp add: create_result_def PathfindingResult_init_def calculate_path_length_def Let_def)

lemma found_create_result [simp]: "found (create_result self p fnd msg) = fnd"
  by (simp add: create_result_def PathfindingResult_init_def calculate_path_length_def Let_def)

lemma error_message_create_result [simp]: "error_message (create_result self p fnd msg) = msg"
  by (simp add: create_result_def PathfindingResult_init_def calculate_path_length_def Let_def)

lemma nodes_expanded_create_result [simp]:
  "nodes_expanded (create_result self p fnd msg) = self_nodes_expanded self"
  by (simp add: create_result_def PathfindingResult_init_def calculate_path_length_def Let_def)

lemma iterations_create_result [simp]:
  "iterations (create_result self p fnd msg) = self_iterations self"
  by (simp add: create_result_def PathfindingResult_init_def calculate_path_length_def Let_def)

lemma result_shape_found: "result_shape (create_result self p True msg)"
  by (simp add: result_shape_def path_cost_create_result path_length_create_result)

lemma result_shape_failed:
  "m \<noteq> [] \<Longrightarrow> result_shape (create_result self [] False (Some m))"
  by (simp add: result_shape_def path_cost_create_result path_length_create_result truthy_def)

lemma result_shape_truthy:
  "truthy m \<Longrightarrow> result_shape (create_result self [] False m)"
  by (simp add: result_shape_def path_cost_create_result path_length_create_result)

lemma result_shape_algorithm_data:
  "result_shape r \<Longrightarrow> result_shape (r\<lparr> algorithm_data := d \<rparr>)"
  by (simp add: result_shape_def)

lemma astar_iteration_result:
  "astar_iteration ident goal st = Some (Inl y) \<Longrightarrow> result_shape (fst y)"
  by (auto simp: astar_iteration_def Let_def result_shape_found
      split: prod.splits option.splits if_splits)

lemma astar_loop_result:
  "astar_loop ident goal st = Some y \<Longrightarrow> result_shape (fst y)"
proof (induction ident goal st y rule: astar_loop.raw_induct[rotated, consumes 1])
  case (1 loop ident goal st y)
  show ?case
  proof (cases "fst (snd (snd st)) = []")
    case True
    with 1(2) show ?thesis
      by (auto simp: result_shape_failed)
  next
    case False
    with 1 show ?thesis
      by (auto split: option.splits sum.splits dest: astar_iteration_result)
  qed
qed

lemma AStar_find_path_result:
  "AStar_find_path ident self grid start goal = Some y \<Longrightarrow> result_shape (fst y)"
  unfolding AStar_find_path_def Let_def
  by (auto split: if_splits option.splits prod.splits
      dest: astar_loop_result
      simp: result_shape_found result_shape_failed result_shape_truthy)

lemma WeightedAStar_find_path_result:
  "WeightedAStar_find_path ident self grid start goal = Some y \<Longrightarrow> result_shape (fst y)"
  unfolding WeightedAStar_find_path_def
  by (auto split: option.splits prod.splits
      dest!: AStar_find_path_result intro: result_shape_algorithm_data)

lemma dijkstra_iteration_result:
  "dijkstra_iteration ident goal st = Some (Inl y) \<Longrightarrow> result_shape (fst y)"
  by (auto simp: dijkstra_iteration_def Let_def result_shape_found
      intro!: result_shape_algorithm_data
      split: prod.splits option.splits if_splits)

lemma dijkstra_loop_result:
  "dijkstra_loop ident goal st = Some y \<Longrightarrow> result_shape (fst y)"
proof (induction ident goal st y rule: dijkstra_loop.raw_induct[rotated, consumes 1])
  case (1 loop ident goal st y)
  show ?case
  proof (cases "fst (snd (snd st)) = []")
    case True
    with 1(2) show ?thesis
      by (auto simp: result_shape_failed)
  next
    case False
    with 1 show ?thesis
      by (auto split: option.splits sum.splits dest: dijkstra_iteration_result)
  qed
qed

lemma Dijkstra_find_path_result:
  "Dijkstra_find_path ident self grid start goal = Some y \<Longrightarrow> result_shape (fst y)"
  unfolding Dijkstra_find_path_def Let_def
  by (auto split: if_splits option.splits prod.splits
      dest: dijkstra_loop_result
      simp: result_shape_found result_shape_failed result_shape_truthy)

lemma IDAStar_iteration_result:
  "IDAStar_iteration grid start goal self iters = Inl r \<Longrightarrow> result_shape r"
  by (auto simp: IDAStar_iteration_def Let_def result_shape_found result_shape_failed
      intro!: result_shape_algorithm_data split: prod.splits if_splits)

lemma IDAStar_loop_result: "result_shape (IDAStar_loop grid start goal self iters)"
proof (induction grid start goal self iters rule: IDAStar_loop.induct)
  case (1 grid start goal self iters)
  show ?case
  proof (cases "iters < max_iterations self")
    case True
    then show ?thesis
      using 1 IDAStar_iteration_result[of grid start goal self iters]
      by (subst IDAStar_loop.simps) (auto split: sum.splits)
  next
    case False
    then show ?thesis
      by (subst IDAStar_loop.simps) (simp add: result_shape_failed)
  qed
qed

lemma IDAStar_find_path_result:
  "result_shape (fst (IDAStar_find_path self grid start goal))"
  unfolding IDAStar_find_path_def Let_def
  by (auto split: if_splits option.splits prod.splits
      simp: result_shape_found result_shape_failed result_shape_truthy IDAStar_loop_result)

lemma rrt_iteration_result:
  "rrt_iteration ext rnd grid goal_node iteration self = Some (Inl r) \<Longrightarrow> result_shape r"
  by (auto simp: rrt_iteration_def Let_def result_shape_found
      intro!: result_shape_algorithm_data split: prod.splits option.splits if_splits)

lemma rrt_loop_result:
  "rrt_loop ext rnd grid goal_node n iteration self = Some r \<Longrightarrow> result_shape r"
proof (induction n arbitrary: iteration self)
  case 0
  then show ?case by (auto simp: result_shape_failed)
next
  case (Suc n)
  then show ?case
    by (auto split: option.splits sum.splits dest: rrt_iteration_result)
qed

lemma sampling_find_path_result:
  "sampling_find_path ext rnd self grid start goal = Some r \<Longrightarrow> result_shape r"
  unfolding sampling_find_path_def Let_def
  by (auto split: if_splits prod.splits dest: rrt_loop_result simp: result_shape_truthy)

lemma RRT_find_path_result:
  "RRT_find_path rnd self grid start goal = Some r \<Longrightarrow> result_shape r"
  unfolding RRT_find_path_def by (rule sampling_find_path_result)

lemma RRTStar_find_path_result:
  "RRTStar_find_path rnd self grid start goal = Some r \<Longrightarrow> result_shape r"
  unfolding RRTStar_find_path_def by (rule sampling_find_path_result)

lemmas grid_defs = Grid_init_def reset_pathfinding_data_def is_valid_position_def
  GridNode_reset_def GridNode_init_def get_neighbors_def directions_def is_walkable_def
  get_node_def get_movement_cost_def validate_inputs_def truthy_def set_walkable_def

lemmas counter_defs = expand_node_def update_memory_usage_def increment_iteration_def
  visit_node_def start_timing_def PathfindingAlgorithm_init_def

lemmas heap_defs = heappush_def heappop_def entry_less_def

text \<open>A run of A* on the open grid of two cells, from the left cell to the right one.\<close>

lemma astar_two_cells:
  "map_option fst (AStar_find_path (\<lambda>p. 0) (AStar_init ''manhattan'' 1) (Grid_init 2 1) (0, 0) (1, 0))
   = Some (create_result
       \<lparr> alg_name = ''A*'', category = CLASSICAL, self_nodes_expanded = 1,
         self_nodes_visited = 1, self_max_memory = 2, self_iterations = 2,
         heuristic_type = ''manhattan'', heuristic_weight = 1 \<rparr>
       [(0, 0), (1, 0)] True None)"
  apply (simp add: AStar_find_path_def AStar_init_def grid_defs counter_defs heap_defs Let_def
      PathfindingAlgorithm.extend_def get_heuristic_def manhattan_distance_def)
  apply (subst astar_loop.simps)
  apply (simp add: astar_iteration_def astar_neighbor_def grid_defs counter_defs heap_defs Let_def
      get_heuristic_def manhattan_distance_def)
  apply (subst astar_loop.simps)
  apply (simp add: astar_iteration_def astar_neighbor_def grid_defs counter_defs heap_defs Let_def
      get_path_def)
  apply (subst get_path_loop.simps, simp)
  apply (subst get_path_loop.simps, simp)
  apply (subst get_path_loop.simps, simp add: waypoint_def)
  done

text \<open>
  Claim C10. No engine assigns \<open>path_cost\<close>: every result \<open>_create_result\<close> builds has
  \<open>path_cost = 0.0\<close>, and its \<open>path_length\<close> is the sum of the Euclidean distances
  between consecutive waypoints of its path. The same holds for what \<open>find_path\<close> of
  A*, weighted A*, Dijkstra, IDA*, RRT and RRT* returns, whose results all come from
  \<open>_create_result\<close> with at most \<open>algorithm_data\<close> changed afterwards.
\<close>

theorem path_cost_never_assigned:
  "path_cost (create_result self p fnd msg) = 0
   \<and> path_length (create_result self p fnd msg) = consecutive_distances p
   \<and> (\<forall>y. AStar_find_path ident a grid start goal = Some y \<longrightarrow>
          path_cost (fst y) = 0 \<and> path_length (fst y) = consecutive_distances (path (fst y)))
   \<and> (\<forall>y. WeightedAStar_find_path ident a grid start goal = Some y \<longrightarrow>
          path_cost (fst y) = 0 \<and> path_length (fst y) = consecutive_distances (path (fst y)))
   \<and> (\<forall>y. Dijkstra_find_path ident d grid start goal = Some y \<longrightarrow>
          path_cost (fst y) = 0 \<and> path_length (fst y) = consecutive_distances (path (fst y)))
   \<and> path_cost (fst (IDAStar_find_path i grid start goal)) = 0
   \<and> path_length (fst (IDAStar_find_path i grid start goal))
       = consecutive_distances (path (fst (IDAStar_find_path i grid start goal)))
   \<and> (\<forall>r. RRT_find_path rnd rr grid start goal = Some r \<longrightarrow>
          path_cost r = 0 \<and> path_length r = consecutive_distances (path r))
   \<and> (\<forall>r. RRTStar_find_path rnd rs grid start goal = Some r \<longrightarrow>
          path_cost r = 0 \<and> path_length r = consecutive_distances (path r))"
proof -
  have a: "\<forall>y. AStar_find_path ident a grid start goal = Some y \<longrightarrow>
          path_cost (fst y) = 0 \<and> path_length (fst y) = consecutive_distances (path (fst y))"
    using AStar_find_path_result by (auto simp: result_shape_def)
  have w: "\<forall>y. WeightedAStar_find_path ident a grid start goal = Some y \<longrightarrow>
          path_cost (fst y) = 0 \<and> path_length (fst y) = consecutive_distances (path (fst y))"
    using WeightedAStar_find_path_result by (auto simp: result_shape_def)
  have d: "\<forall>y. Dijkstra_find_path ident d grid start goal = Some y \<longrightarrow>
          path_cost (fst y) = 0 \<and> path_length (fst y) = consecutive_distances (path (fst y))"
    using Dijkstra_find_path_result by (auto simp: result_shape_def)
  have i: "path_cost (fst (IDAStar_find_path i grid start goal)) = 0
      \<and> path_length (fst (IDAStar_find_path i grid start goal))
       = consecutive_distances (path (fst (IDAStar_find_path i grid start goal)))"
    using IDAStar_find_path_result[of i grid start goal] by (simp add: result_shape_def)
  have r: "\<forall>r. RRT_find_path rnd rr grid start goal = Some r \<longrightarrow>
          path_cost r = 0 \<and> path_length r = consecutive_distances (path r)"
    using RRT_find_path_result by (auto simp: result_shape_def)
  have s: "\<forall>r. RRTStar_find_path rnd rs grid start goal = Some r \<longrightarrow>
          path_cost r = 0 \<and> path_length r = consecutive_distances (path r)"
    using RRTStar_find_path_result by (auto simp: result_shape_def)
  from a w d i r s show ?thesis
    by (simp only: path_cost_create_result path_length_create_result simp_thms)
qed

theorem path_cost_never_assigned_witness:
  "\<exists>y. AStar_find_path (\<lambda>p. 0) (AStar_init ''manhattan'' 1) (Grid_init 2 1) (0, 0) (1, 0) = Some y
       \<and> found (fst y) \<and> path (fst y) = [(0, 0), (1, 0)]
       \<and> path_cost (fst y) = 0 \<and> path_length (fst y) = 1"
proof -
  obtain y where y: "AStar_find_path (\<lambda>p. 0) (AStar_init ''manhattan'' 1) (Grid_init 2 1) (0, 0) (1, 0) = Some y"
    and f: "found (fst y)" and p: "path (fst y) = [(0, 0), (1, 0)]"
    using astar_two_cells by (auto simp: map_option_case split: option.splits)
  from y have "path_cost (fst y) = 0 \<and> path_length (fst y) = consecutive_distances (path (fst y))"
    using path_cost_never_assigned
      [of "PathfindingAlgorithm_init [] CLASSICAL" "[]" False None "\<lambda>p. 0" "AStar_init ''manhattan'' 1"
          "Grid_init 2 1" "(0, 0)" "(1, 0)"]
    by blast
  with y f p show ?thesis by simp
qed

section \<open>Unwalkable end points\<close>

lemma validate_inputs_unwalkable:
  assumes "is_valid_position grid (fst start) (snd start)"
    and "is_valid_position grid (fst goal) (snd goal)"
    and "\<not> is_walkable grid (fst start) (snd start) \<or> \<not> is_walkable grid (fst goal) (snd goal)"
  shows "validate_inputs grid start goal = Some (unwalkable_message grid start goal)"
  using assms by (auto simp: validate_inputs_def unwalkable_message_def)

lemma unwalkable_message_nonempty: "unwalkable_message grid start goal \<noteq> []"
  by (simp add: unwalkable_message_def)

lemma validate_inputs_nonempty: "validate_inputs grid start goal = Some m \<Longrightarrow> m \<noteq> []"
  by (auto simp: validate_inputs_def split: if_splits)

lemma truthy_validate_inputs:
  "truthy (validate_inputs grid start goal) = (validate_inputs grid start goal \<noteq> None)"
  by (auto simp: truthy_def dest: validate_inputs_nonempty split: option.splits)

text \<open>When the validation complains, each engine returns what the shared prologue
  returns, and leaves the grid as it is.\<close>

lemma engines_return_prologue:
  assumes "validate_inputs grid start goal \<noteq> None"
  shows "AStar_find_path ident a grid start goal
           = Some (the (find_path_prologue a grid start goal), grid)"
    and "WeightedAStar_find_path ident a grid start goal
           = Some ((the (find_path_prologue a grid start goal))
               \<lparr> algorithm_data := [''heuristic_weight'' \<mapsto> VFloat (Num (heuristic_weight a)),
                    ''optimality_bound'' \<mapsto> VFloat (Num (heuristic_weight a))] \<rparr>, grid)"
    and "Dijkstra_find_path ident d grid start goal
           = Some (the (find_path_prologue d grid start goal), grid)"
    and "IDAStar_find_path i grid start goal = (the (find_path_prologue i grid start goal), grid)"
    and "RRT_find_path rnd rr grid start goal = find_path_prologue rr grid start goal"
    and "RRTStar_find_path rnd rs grid start goal = find_path_prologue rs grid start goal"
  using assms
  by (simp_all add: AStar_find_path_def WeightedAStar_find_path_def Dijkstra_find_path_def
      IDAStar_find_path_def RRT_find_path_def RRTStar_find_path_def sampling_find_path_def
      find_path_prologue_def truthy_validate_inputs Let_def create_result_def
      PathfindingResult_init_def)

text \<open>
  Claim C9, as amended. When the start or the goal is inside the grid but not walkable,
  every engine that starts with the shared prologue returns a failed result with no node
  expanded; its reason is the message of \<open>validate_inputs\<close>, which names the end point
  and its position ("Start position (x, y) is not walkable", or the same for the goal).
  A*, weighted A*, Dijkstra, IDA*, RRT and RRT* return exactly that result.
\<close>

theorem unwalkable_endpoint_fails_with_message:
  assumes "is_valid_position grid (fst start) (snd start)"
    and "is_valid_position grid (fst goal) (snd goal)"
    and "\<not> is_walkable grid (fst start) (snd start) \<or> \<not> is_walkable grid (fst goal) (snd goal)"
  shows "(\<exists>r. find_path_prologue self grid start goal = Some r
           \<and> \<not> found r \<and> nodes_expanded r = 0 \<and> path r = []
           \<and> error_message r = Some (unwalkable_message grid start goal))
    \<and> (\<exists>r. map_option fst (AStar_find_path ident a grid start goal) = Some r
           \<and> \<not> found r \<and> nodes_expanded r = 0
           \<and> error_message r = Some (unwalkable_message grid start goal))
    \<and> (\<exists>r. map_option fst (WeightedAStar_find_path ident a grid start goal) = Some r
           \<and> \<not> found r \<and> nodes_expanded r = 0
           \<and> error_message r = Some (unwalkable_message grid start goal))
    \<and> (\<exists>r. map_option fst (Dijkstra_find_path ident d grid start goal) = Some r
           \<and> \<not> found r \<and> nodes_expanded r = 0
           \<and> error_message r = Some (unwalkable_message grid start goal))
    \<and> (\<not> found (fst (IDAStar_find_path i grid start goal))
           \<and> nodes_expanded (fst (IDAStar_find_path i grid start goal)) = 0
           \<and> error_message (fst (IDAStar_find_path i grid start goal))
               = Some (unwalkable_message grid start goal))
    \<and> (\<exists>r. RRT_find_path rnd rr grid start goal = Some r
           \<and> \<not> found r \<and> nodes_expanded r = 0
           \<and> error_message r = Some (unwalkable_message grid start goal))
    \<and> (\<exists>r. RRTStar_find_path rnd rs grid start goal = Some r
           \<and> \<not> found r \<and> nodes_expanded r = 0
           \<and> error_message r = Some (unwalkable_message grid start goal))"
proof -
  have v: "validate_inputs grid start goal = Some (unwalkable_message grid start goal)"
    using assms by (rule validate_inputs_unwalkable)
  then have nn: "validate_inputs grid start goal \<noteq> None"
    by simp
  note early = find_path_prologue_def v truthy_def unwalkable_message_nonempty start_timing_def
  have p0: "\<exists>r. find_path_prologue self grid start goal = Some r
           \<and> \<not> found r \<and> nodes_expanded r = 0 \<and> path r = []
           \<and> error_message r = Some (unwalkable_message grid start goal)"
    by (simp add: early)
  have p1: "\<exists>r. map_option fst (AStar_find_path ident a grid start goal) = Some r
           \<and> \<not> found r \<and> nodes_expanded r = 0
           \<and> error_message r = Some (unwalkable_message grid start goal)"
    by (simp add: engines_return_prologue(1)[OF nn] early)
  have p2: "\<exists>r. map_option fst (WeightedAStar_find_path ident a grid start goal) = Some r
           \<and> \<not> found r \<and> nodes_expanded r = 0
           \<and> error_message r = Some (unwalkable_message grid start goal)"
    by (simp add: engines_return_prologue(2)[OF nn] early)
  have p3: "\<exists>r. map_option fst (Dijkstra_find_path ident d grid start goal) = Some r
           \<and> \<not> found r \<and> nodes_expanded r = 0
           \<and> error_message r = Some (unwalkable_message grid start goal)"
    by (simp add: engines_return_prologue(3)[OF nn] early)
  have p4: "\<not> found (fst (IDAStar_find_path i grid start goal))
           \<and> nodes_expanded (fst (IDAStar_find_path i grid start goal)) = 0
           \<and> error_message (fst (IDAStar_find_path i grid start goal))
               = Some (unwalkable_message grid start goal)"
    by (simp add: engines_return_prologue(4)[OF nn] early)
  have p5: "\<exists>r. RRT_find_path rnd rr grid start goal = Some r
           \<and> \<not> found r \<and> nodes_expanded r = 0
           \<and> error_message r = Some (unwalkable_message grid start goal)"
    by (simp add: engines_return_prologue(5)[OF nn] early)
  have p6: "\<exists>r. RRTStar_find_path rnd rs grid start goal = Some r
           \<and> \<not> found r \<and> nodes_expanded r = 0
           \<and> error_message r = Some (unwalkable_message grid start goal)"
    by (simp add: engines_return_prologue(6)[OF nn] early)
  from p0 p1 p2 p3 p4 p5 p6 show ?thesis
    by blast
qed

lemma blocked_start_grid_facts:
  "is_valid_position blocked_start_grid 0 0" "is_valid_position blocked_start_grid 1 0"
  "\<not> is_walkable blocked_start_grid 0 0"
  "unwalkable_message blocked_start_grid (0, 0) (1, 0) = ''Start position (0, 0) is not walkable''"
  by (simp_all add: blocked_start_grid_def set_walkable_def get_node_def is_valid_position_def
      is_walkable_def Grid_init_def unwalkable_message_def str_pos_def str_int_def)

theorem unwalkable_endpoint_fails_with_message_witness:
  "is_valid_position blocked_start_grid 0 0 \<and> is_valid_position blocked_start_grid 1 0
   \<and> \<not> is_walkable blocked_start_grid 0 0
   \<and> (\<exists>r. map_option fst (AStar_find_path (row_major 2) (AStar_init ''euclidean'' 1)
                blocked_start_grid (0, 0) (1, 0)) = Some r
          \<and> \<not> found r \<and> nodes_expanded r = 0
          \<and> error_message r = Some ''Start position (0, 0) is not walkable'')"
  using unwalkable_endpoint_fails_with_message
    [of blocked_start_grid "(0, 0)" "(1, 0)" "AStar_init ''euclidean'' 1" "row_major 2"
        "AStar_init ''euclidean'' 1"]
    blocked_start_grid_facts
  by simp

text \<open>The claim as it is written asks for the reason "Unwalkable"; the reason the code
  gives for a blocked start is another string.\<close>

theorem unwalkable_reason_counterexample:
  "is_valid_position blocked_start_grid 0 0 \<and> is_valid_position blocked_start_grid 1 0
   \<and> \<not> is_walkable blocked_start_grid 0 0
   \<and> map_option (error_message \<circ> fst)
        (AStar_find_path (row_major 2) (AStar_init ''euclidean'' 1) blocked_start_grid (0, 0) (1, 0))
      = Some (Some ''Start position (0, 0) is not walkable'')
   \<and> map_option (error_message \<circ> fst)
        (AStar_find_path (row_major 2) (AStar_init ''euclidean'' 1) blocked_start_grid (0, 0) (1, 0))
      \<noteq> Some (Some ''Unwalkable'')"
proof -
  have v: "validate_inputs blocked_start_grid (0, 0) (1, 0)
      = Some ''Start position (0, 0) is not walkable''"
    using validate_inputs_unwalkable[of blocked_start_grid "(0, 0)" "(1, 0)"]
      blocked_start_grid_facts by simp
  have eq: "map_option (error_message \<circ> fst)
        (AStar_find_path (row_major 2) (AStar_init ''euclidean'' 1) blocked_start_grid (0, 0) (1, 0))
      = Some (Some ''Start position (0, 0) is not walkable'')"
    by (simp add: AStar_find_path_def v truthy_def Let_def)
  have ne: "map_option (error_message \<circ> fst)
        (AStar_find_path (row_major 2) (AStar_init ''euclidean'' 1) blocked_start_grid (0, 0) (1, 0))
      \<noteq> Some (Some ''Unwalkable'')"
    unfolding eq by simp
  from blocked_start_grid_facts(1,2,3) eq ne show ?thesis
    by (intro conjI)
qed

section \<open>The order of the frontier\<close>

lemma fless_irrefl: "\<not> fless a a"
  by (cases a) simp_all

lemma fless_trans: "fless a b \<Longrightarrow> fless b c \<Longrightarrow> fless a c"
  by (cases a; cases b; cases c) simp_all

lemma fless_total: "a \<noteq> b \<Longrightarrow> fless a b \<or> fless b a"
  by (cases a; cases b) auto

lemma fless_asym: "fless a b \<Longrightarrow> \<not> fless b a"
  by (cases a; cases b) auto

lemma entry_le_iff:
  "(\<not> entry_less b a)
   = (fless (fst a) (fst b) \<or> (fst a = fst b \<and> fst (snd a) \<le> fst (snd b)))"
proof (cases "fst a = fst b")
  case True
  then show ?thesis
    by (auto simp: entry_less_def fless_irrefl)
next
  case False
  then show ?thesis
    using fless_total[of "fst a" "fst b"] fless_asym[of "fst a" "fst b"]
    by (auto simp: entry_less_def)
qed

lemma entry_le_refl: "\<not> entry_less a a"
  by (simp add: entry_le_iff)

lemma entry_le_trans:
  assumes "\<not> entry_less b a" and "\<not> entry_less c b"
  shows "\<not> entry_less c a"
proof -
  from assms have ab: "fless (fst a) (fst b) \<or> (fst a = fst b \<and> fst (snd a) \<le> fst (snd b))"
    and bc: "fless (fst b) (fst c) \<or> (fst b = fst c \<and> fst (snd b) \<le> fst (snd c))"
    by (simp_all add: entry_le_iff)
  from ab bc have "fless (fst a) (fst c) \<or> (fst a = fst c \<and> fst (snd a) \<le> fst (snd c))"
    by (auto dest: fless_trans)
  then show ?thesis
    by (simp add: entry_le_iff)
qed

lemma entry_le_total: "entry_less b a \<Longrightarrow> \<not> entry_less a b"
  using fless_asym[of "fst b" "fst a"]
  by (auto simp: entry_less_def split: if_splits)

lemma least_entry_in: "least_entry m es \<in> set (m # es)"
  by (induction es arbitrary: m) (auto split: if_splits)

lemma least_entry_least: "e \<in> set (m # es) \<Longrightarrow> \<not> entry_less e (least_entry m es)"
proof (induction es arbitrary: m e)
  case Nil
  then show ?case by (simp add: entry_le_refl)
next
  case (Cons x xs)
  define m' where "m' = (if entry_less x m then x else m)"
  have m1: "\<not> entry_less m m'"
    by (simp add: m'_def entry_le_refl entry_le_total)
  have m2: "\<not> entry_less x m'"
    by (simp add: m'_def entry_le_refl)
  have step: "least_entry m (x # xs) = least_entry m' xs"
    by (simp add: m'_def)
  have L: "\<not> entry_less m' (least_entry m' xs)"
    by (rule Cons.IH) simp
  consider "e = m" | "e = x" | "e \<in> set xs"
    using Cons.prems by auto
  then have "\<not> entry_less e (least_entry m' xs)"
  proof cases
    case 1
    with entry_le_trans[OF L m1] show ?thesis by simp
  next
    case 2
    with entry_le_trans[OF L m2] show ?thesis by simp
  next
    case 3
    then show ?thesis
      by (intro Cons.IH) simp
  qed
  then show ?case
    unfolding step .
qed

lemma heappop_Some:
  assumes "open_set \<noteq> []"
  shows "\<exists>m. heappop open_set = Some (m, remove1 m open_set) \<and> m \<in> set open_set
       \<and> (\<forall>e \<in> set open_set. \<not> entry_less e m)"
proof -
  from assms obtain x xs where os: "open_set = x # xs"
    by (cases open_set) auto
  have "heappop open_set = Some (least_entry x xs, remove1 (least_entry x xs) open_set)"
    by (simp add: heappop_def os Let_def)
  moreover have "least_entry x xs \<in> set open_set"
    using least_entry_in[of x xs] by (simp only: os)
  moreover have "\<forall>e \<in> set open_set. \<not> entry_less e (least_entry x xs)"
    using least_entry_least[of _ x xs] by (simp only: os) blast
  ultimately show ?thesis by blast
qed

lemma astar_neighbor_closed:
  "snd (snd (snd (astar_neighbor ident goal current n st))) = snd (snd (snd st))"
  by (cases st) (simp add: astar_neighbor_def Let_def)

lemma fold_astar_neighbor_closed:
  "snd (snd (snd (fold (astar_neighbor ident goal current) ns st))) = snd (snd (snd st))"
  by (induction ns arbitrary: st) (simp_all add: astar_neighbor_closed)

lemma dijkstra_neighbor_visited:
  "snd (snd (snd (dijkstra_neighbor ident current n st))) = snd (snd (snd st))"
  by (cases st) (simp add: dijkstra_neighbor_def Let_def)

lemma fold_dijkstra_neighbor_visited:
  "snd (snd (snd (fold (dijkstra_neighbor ident current) ns st))) = snd (snd (snd st))"
  by (induction ns arbitrary: st) (simp_all add: dijkstra_neighbor_visited)

lemma astar_iteration_closes_popped:
  assumes "heappop open_set = Some (m, rest)"
    and "astar_iteration ident goal (self, grid, open_set, closed_set) = Some (Inr st')"
  shows "snd (snd (snd st')) = List.insert (snd (snd m)) closed_set"
  using assms
  by (auto simp: astar_iteration_def Let_def fold_astar_neighbor_closed
      split: if_splits option.splits)

lemma dijkstra_iteration_visits_popped:
  assumes "heappop open_set = Some (m, rest)"
    and "dijkstra_iteration ident goal (self, grid, open_set, visited_set) = Some (Inr st')"
  shows "snd (snd (snd st')) = List.insert (snd (snd m)) visited_set"
  using assms
  by (auto simp: dijkstra_iteration_def Let_def fold_dijkstra_neighbor_visited
      split: if_splits option.splits)

text \<open>
  Claim C3, as amended. In A*, weighted A* (the same loop) and Dijkstra, an iteration
  dequeues an entry of least priority \<open>f\<close>, and among the entries with that \<open>f\<close> one
  whose node has the least \<open>id(node)\<close>; the node of that entry is the one the iteration
  closes (A*) or marks visited (Dijkstra). The order of insertion plays no part.
\<close>

theorem frontier_ties_broken_by_node_id:
  assumes "open_set \<noteq> []"
  shows "\<exists>m. heappop open_set = Some (m, remove1 m open_set) \<and> m \<in> set open_set
     \<and> (\<forall>e \<in> set open_set. \<not> fless (fst e) (fst m))
     \<and> (\<forall>e \<in> set open_set. fst e = fst m \<longrightarrow> fst (snd m) \<le> fst (snd e))
     \<and> (\<forall>self grid closed_set st'.
           astar_iteration ident goal (self, grid, open_set, closed_set) = Some (Inr st')
           \<longrightarrow> snd (snd (snd st')) = List.insert (snd (snd m)) closed_set)
     \<and> (\<forall>self grid visited_set st'.
           dijkstra_iteration ident goal (self, grid, open_set, visited_set) = Some (Inr st')
           \<longrightarrow> snd (snd (snd st')) = List.insert (snd (snd m)) visited_set)"
proof -
  from heappop_Some[OF assms] obtain m where
    pop: "heappop open_set = Some (m, remove1 m open_set)" and
    mem: "m \<in> set open_set" and
    least: "\<forall>e \<in> set open_set. \<not> entry_less e m"
    by blast
  have f: "\<forall>e \<in> set open_set. \<not> fless (fst e) (fst m)"
    using least by (auto simp: entry_le_iff dest: fless_asym simp: fless_irrefl)
  have i: "\<forall>e \<in> set open_set. fst e = fst m \<longrightarrow> fst (snd m) \<le> fst (snd e)"
    using least by (auto simp: entry_le_iff fless_irrefl)
  have a: "\<forall>self grid closed_set st'.
           astar_iteration ident goal (self, grid, open_set, closed_set) = Some (Inr st')
           \<longrightarrow> snd (snd (snd st')) = List.insert (snd (snd m)) closed_set"
    using astar_iteration_closes_popped[OF pop] by blast
  have d: "\<forall>self grid visited_set st'.
           dijkstra_iteration ident goal (self, grid, open_set, visited_set) = Some (Inr st')
           \<longrightarrow> snd (snd (snd st')) = List.insert (snd (snd m)) visited_set"
    using dijkstra_iteration_visits_popped[OF pop] by blast
  from pop mem f i a d show ?thesis
    by blast
qed

lemma heappop_four_ties:
  "heappop four_ties = Some ((Num 1, 1, (1, 0)), [(Num 1, 7, (1, 2)), (Num 1, 5, (2, 1)), (Num 1, 3, (0, 1))])"
  by (simp add: four_ties_def heappop_def entry_less_def row_major_def Let_def)

theorem frontier_ties_broken_by_node_id_witness:
  "four_ties \<noteq> []
   \<and> heappop four_ties
       = Some ((Num 1, 1, (1, 0)), [(Num 1, 7, (1, 2)), (Num 1, 5, (2, 1)), (Num 1, 3, (0, 1))])
   \<and> list_all (\<lambda>e. fst e = Num 1 \<and> 1 \<le> fst (snd e)) four_ties"
proof -
  have ne: "four_ties \<noteq> []"
    by (simp add: four_ties_def)
  have f: "list_all (\<lambda>e. fst e = Num 1) four_ties"
    by (simp add: four_ties_def)
  from frontier_ties_broken_by_node_id[OF ne, of "row_major 3" "(2, 2)"]
  obtain m where "heappop four_ties = Some (m, remove1 m four_ties)"
    and "\<forall>e \<in> set four_ties. fst e = fst m \<longrightarrow> fst (snd m) \<le> fst (snd e)"
    by blast
  with heappop_four_ties ne f show ?thesis
    by (auto simp: list_all_iff)
qed

text \<open>
  The claim as it is written fails on the open grid of three by three cells, with the
  node identities in the order of creation: Dijkstra from the centre pushes the eight
  neighbours, the four straight ones with priority 1; the first pushed of them is
  \<open>(1, 2)\<close>, and the one dequeued next is \<open>(1, 0)\<close>, the third pushed.
\<close>

theorem fifo_tie_break_counterexample:
  "frontier_after (dijkstra_iteration (row_major 3) (2, 2)
       (Dijkstra_start_state (row_major 3) Dijkstra_init (Grid_init 3 3) (1, 1)))
     = [(Num 1, 7, (1, 2)), (Num 1, 5, (2, 1)), (Num 1, 1, (1, 0)), (Num 1, 3, (0, 1)),
        (Num (sqrt 2), 8, (2, 2)), (Num (sqrt 2), 2, (2, 0)),
        (Num (sqrt 2), 6, (0, 2)), (Num (sqrt 2), 0, (0, 0))]
   \<and> map_option fst (heappop (frontier_after (dijkstra_iteration (row_major 3) (2, 2)
       (Dijkstra_start_state (row_major 3) Dijkstra_init (Grid_init 3 3) (1, 1)))))
     = Some (Num 1, 1, (1, 0))
   \<and> \<not> fifo_dequeue (frontier_after (dijkstra_iteration (row_major 3) (2, 2)
       (Dijkstra_start_state (row_major 3) Dijkstra_init (Grid_init 3 3) (1, 1))))"
proof -
  have fr: "frontier_after (dijkstra_iteration (row_major 3) (2, 2)
       (Dijkstra_start_state (row_major 3) Dijkstra_init (Grid_init 3 3) (1, 1)))
     = [(Num 1, 7, (1, 2)), (Num 1, 5, (2, 1)), (Num 1, 1, (1, 0)), (Num 1, 3, (0, 1)),
        (Num (sqrt 2), 8, (2, 2)), (Num (sqrt 2), 2, (2, 0)),
        (Num (sqrt 2), 6, (0, 2)), (Num (sqrt 2), 0, (0, 0))]"
    by (simp add: frontier_after_def Dijkstra_start_state_def dijkstra_iteration_def
        dijkstra_neighbor_def heappop_def heappush_def Let_def Grid_init_def
        reset_pathfinding_data_def is_valid_position_def GridNode_reset_def GridNode_init_def
        get_neighbors_def directions_def is_walkable_def get_node_def get_movement_cost_def
        row_major_def expand_node_def update_memory_usage_def increment_iteration_def
        visit_node_def start_timing_def Dijkstra_init_def PathfindingAlgorithm_init_def)
  have pop: "heappop [(Num 1, 7, (1, 2)), (Num 1, 5, (2, 1)), (Num 1, 1, (1, 0)), (Num 1, 3, (0, 1)),
        (Num (sqrt 2), 8, (2, 2)), (Num (sqrt 2), 2, (2, 0)),
        (Num (sqrt 2), 6, (0, 2)), (Num (sqrt 2), 0, (0, 0))]
      = Some ((Num 1, 1, (1, 0)),
          [(Num 1, 7, (1, 2)), (Num 1, 5, (2, 1)), (Num 1, 3, (0, 1)),
           (Num (sqrt 2), 8, (2, 2)), (Num (sqrt 2), 2, (2, 0)),
           (Num (sqrt 2), 6, (0, 2)), (Num (sqrt 2), 0, (0, 0))])"
    by (simp add: heappop_def entry_less_def Let_def)
  have nf: "\<not> fifo_dequeue [(Num 1, 7, (1, 2)), (Num 1, 5, (2, 1)), (Num 1, 1, (1, 0)), (Num 1, 3, (0, 1)),
        (Num (sqrt 2), 8, (2, 2)), (Num (sqrt 2), 2, (2, 0)),
        (Num (sqrt 2), 6, (0, 2)), (Num (sqrt 2), 0, (0, 0))]"
    unfolding fifo_dequeue_def pop by simp
  show ?thesis
    unfolding fr using pop nf by simp
qed

section \<open>Line of sight\<close>

text \<open>
  The loop invariant: with \<open>rx\<close> and \<open>ry\<close> the numbers of steps that remain along the two
  axes, the error term is \<open>dx - dy + dy * rx - dx * ry\<close>. A pass never steps along an axis
  with nothing left, and steps along at least one axis, so \<open>rx + ry\<close> decreases.
\<close>

lemma los_step_facts:
  fixes rx ry dx dy :: int
  assumes "0 \<le> rx" "rx \<le> dx" "0 \<le> ry" "ry \<le> dy" "rx \<noteq> 0 \<or> ry \<noteq> 0"
  defines "e \<equiv> dx - dy + dy * rx - dx * ry"
  shows "2 * e > - dy \<Longrightarrow> 0 < rx" and "2 * e < dx \<Longrightarrow> 0 < ry"
    and "2 * e > - dy \<or> 2 * e < dx"
proof -
  show "0 < rx" if s: "2 * e > - dy"
  proof (rule ccontr)
    assume "\<not> 0 < rx"
    with assms have rx: "rx = 0" and ry: "1 \<le> ry" by auto
    have "dx * 1 \<le> dx * ry" using ry assms by (intro mult_left_mono) auto
    hence "e \<le> - dy" unfolding e_def rx by simp
    with s assms show False by simp
  qed
  show "0 < ry" if s: "2 * e < dx"
  proof (rule ccontr)
    assume "\<not> 0 < ry"
    with assms have ry: "ry = 0" and rx: "1 \<le> rx" by auto
    have "dy * 1 \<le> dy * rx" using rx assms by (intro mult_left_mono) auto
    hence "dx \<le> e" unfolding e_def ry by simp
    moreover have "0 \<le> dx" using assms by simp
    ultimately show False using s by simp
  qed
  show "2 * e > - dy \<or> 2 * e < dx"
    using assms by auto
qed

lemma los_loop_bresenham:
  fixes rx ry :: int
  assumes "0 \<le> rx" "rx \<le> dx" "0 \<le> ry" "ry \<le> dy"
    and "x_step = 1 \<or> x_step = - 1" and "y_step = 1 \<or> y_step = - 1"
  shows "\<exists>cs. bresenham_loop ix2 iy2 dx dy x_step y_step
              (ix2 - x_step * rx) (iy2 - y_step * ry) (dx - dy + dy * rx - dx * ry) = Some cs
          \<and> los_loop grid ix2 iy2 dx dy x_step y_step
              (ix2 - x_step * rx) (iy2 - y_step * ry) (dx - dy + dy * rx - dx * ry)
            = Some (\<forall>c \<in> set cs. is_walkable grid (fst c) (snd c))"
  using assms(1-4)
proof (induction "nat (rx + ry)" arbitrary: rx ry rule: less_induct)
  case less
  define x where "x = ix2 - x_step * rx"
  define y where "y = iy2 - y_step * ry"
  define e where "e = dx - dy + dy * rx - dx * ry"
  show ?case
  proof (cases "rx = 0 \<and> ry = 0")
    case True
    then show ?thesis
      by (subst bresenham_loop.simps, subst los_loop.simps) simp
  next
    case False
    hence nz: "rx \<noteq> 0 \<or> ry \<noteq> 0" by simp
    have here: "\<not> (x = ix2 \<and> y = iy2)"
      using nz assms(5,6) unfolding x_def y_def by auto
    define sx where "sx = (2 * e > - dy)"
    define sy where "sy = (2 * e < dx)"
    define rx' where "rx' = (if sx then rx - 1 else rx)"
    define ry' where "ry' = (if sy then ry - 1 else ry)"
    note f = los_step_facts[OF less.prems nz, folded e_def]
    have b: "0 \<le> rx'" "rx' \<le> dx" "0 \<le> ry'" "ry' \<le> dy"
      using f(1,2) less.prems unfolding rx'_def ry'_def sx_def sy_def by auto
    have m: "nat (rx' + ry') < nat (rx + ry)"
      using f less.prems unfolding rx'_def ry'_def sx_def sy_def by auto
    have nx: "(if sx then x + x_step else x) = ix2 - x_step * rx'"
      unfolding rx'_def x_def by (simp add: algebra_simps)
    have ny: "(if sy then y + y_step else y) = iy2 - y_step * ry'"
      unfolding ry'_def y_def by (simp add: algebra_simps)
    have ne: "(if sy then (if sx then e - dy else e) + dx else (if sx then e - dy else e))
                = dx - dy + dy * rx' - dx * ry'"
      unfolding rx'_def ry'_def e_def by (simp add: algebra_simps)
    from less.hyps[OF m b] obtain cs where
      w: "bresenham_loop ix2 iy2 dx dy x_step y_step (ix2 - x_step * rx') (iy2 - y_step * ry')
            (dx - dy + dy * rx' - dx * ry') = Some cs" and
      l: "los_loop grid ix2 iy2 dx dy x_step y_step (ix2 - x_step * rx') (iy2 - y_step * ry')
            (dx - dy + dy * rx' - dx * ry') = Some (\<forall>c \<in> set cs. is_walkable grid (fst c) (snd c))"
      by blast
    have w1: "bresenham_loop ix2 iy2 dx dy x_step y_step x y e = Some ((x, y) # cs)"
      by (subst bresenham_loop.simps)
        (simp add: here Let_def sx_def[symmetric] sy_def[symmetric] nx ny ne w del: if_split
          cong: if_cong)
    have l1: "los_loop grid ix2 iy2 dx dy x_step y_step x y e
        = Some (\<forall>c \<in> set ((x, y) # cs). is_walkable grid (fst c) (snd c))"
    proof (cases "is_walkable grid x y")
      case True
      then show ?thesis
        by (subst los_loop.simps)
          (simp add: here Let_def sx_def[symmetric] sy_def[symmetric] nx ny ne l del: if_split
            cong: if_cong)
    next
      case False
      then show ?thesis
        by (subst los_loop.simps) simp
    qed
    from w1 l1 show ?thesis
      unfolding x_def y_def e_def by blast
  qed
qed

lemma has_line_of_sight_bresenham:
  "\<exists>cs. bresenham_cells x1 y1 x2 y2 = Some cs
     \<and> has_line_of_sight grid x1 y1 x2 y2 = Some (\<forall>c \<in> set cs. is_walkable grid (fst c) (snd c))"
proof -
  define ix1 where "ix1 = py_int x1"
  define iy1 where "iy1 = py_int y1"
  define ix2 where "ix2 = py_int x2"
  define iy2 where "iy2 = py_int y2"
  define dx where "dx = \<bar>ix2 - ix1\<bar>"
  define dy where "dy = \<bar>iy2 - iy1\<bar>"
  define x_step :: int where "x_step = (if ix1 < ix2 then 1 else - 1)"
  define y_step :: int where "y_step = (if iy1 < iy2 then 1 else - 1)"
  have sx: "x_step = 1 \<or> x_step = - 1" and sy: "y_step = 1 \<or> y_step = - 1"
    unfolding x_step_def y_step_def by auto
  have px: "ix2 - x_step * dx = ix1" and py: "iy2 - y_step * dy = iy1"
    unfolding x_step_def y_step_def dx_def dy_def by auto
  have pe: "dx - dy + dy * dx - dx * dy = dx - dy"
    by (simp add: algebra_simps)
  have "0 \<le> dx" "dx \<le> dx" "0 \<le> dy" "dy \<le> dy"
    unfolding dx_def dy_def by auto
  from los_loop_bresenham[OF this sx sy, of ix2 iy2 grid]
  have "\<exists>cs. bresenham_loop ix2 iy2 dx dy x_step y_step ix1 iy1 (dx - dy) = Some cs
          \<and> los_loop grid ix2 iy2 dx dy x_step y_step ix1 iy1 (dx - dy)
            = Some (\<forall>c \<in> set cs. is_walkable grid (fst c) (snd c))"
    unfolding px py pe .
  thus ?thesis
    unfolding bresenham_cells_def has_line_of_sight_def Let_def
      ix1_def iy1_def ix2_def iy2_def dx_def dy_def x_step_def y_step_def .
qed

lemma blocked_row_walkable:
  "is_walkable blocked_row 0 0" "\<not> is_walkable blocked_row 1 0" "is_walkable blocked_row 2 0"
  by (simp_all add: blocked_row_def set_walkable_def Grid_init_def is_walkable_def get_node_def
      is_valid_position_def GridNode_init_def Let_def)

lemma bresenham_cells_row:
  "bresenham_cells 0 0 2 0 = Some [(0, 0), (1, 0), (2, 0)]"
  unfolding bresenham_cells_def py_int_def
  apply (simp add: Let_def)
  apply (subst bresenham_loop.simps, simp add: Let_def)
  apply (subst bresenham_loop.simps, simp add: Let_def)
  apply (subst bresenham_loop.simps, simp add: Let_def)
  done

lemma has_line_of_sight_blocked_row:
  "has_line_of_sight blocked_row 0 0 2 0 = Some False"
  unfolding has_line_of_sight_def py_int_def
  apply (simp add: Let_def)
  apply (subst los_loop.simps, simp add: Let_def blocked_row_walkable)
  apply (subst los_loop.simps, simp add: Let_def blocked_row_walkable)
  done

text \<open>
  Claim C4. For every pair of points, \<open>has_line_of_sight\<close> returns, and it returns false
  exactly when some cell of its walk from the first point to the second is unwalkable;
  the test of Theta* (and of Lazy Theta*, which calls the function inline) is this
  function. The test of Incremental Phi* is not: it answers true for every pair of nodes,
  so it differs from \<open>has_line_of_sight\<close> wherever a cell of the walk is unwalkable.
\<close>

theorem phi_star_line_of_sight_is_placeholder:
  "\<exists>cs b. bresenham_cells x1 y1 x2 y2 = Some cs
      \<and> has_line_of_sight grid x1 y1 x2 y2 = Some b
      \<and> (\<not> b) = (\<exists>c \<in> set cs. \<not> is_walkable grid (fst c) (snd c))
      \<and> ThetaStar_line_of_sight_check grid (x1, y1) n
          = has_line_of_sight grid x1 y1 (of_int (fst n)) (of_int (snd n))
      \<and> IncrementalPhiStar_has_line_of_sight grid from_node to_node
      \<and> ((\<exists>c \<in> set cs. \<not> is_walkable grid (fst c) (snd c))
          \<longrightarrow> Some (IncrementalPhiStar_has_line_of_sight grid from_node to_node)
                \<noteq> has_line_of_sight grid x1 y1 x2 y2)"
proof -
  from has_line_of_sight_bresenham[of x1 y1 x2 y2 grid] obtain cs where
    w: "bresenham_cells x1 y1 x2 y2 = Some cs" and
    l: "has_line_of_sight grid x1 y1 x2 y2
          = Some (\<forall>c \<in> set cs. is_walkable grid (fst c) (snd c))"
    by blast
  have t: "ThetaStar_line_of_sight_check grid (x1, y1) n
          = has_line_of_sight grid x1 y1 (of_int (fst n)) (of_int (snd n))"
    by (simp add: ThetaStar_line_of_sight_check_def)
  have p: "IncrementalPhiStar_has_line_of_sight grid from_node to_node"
    by (simp add: IncrementalPhiStar_has_line_of_sight_def)
  show ?thesis
    using w l t p by auto
qed

theorem phi_star_line_of_sight_is_placeholder_witness:
  "bresenham_cells 0 0 2 0 = Some [(0, 0), (1, 0), (2, 0)]
   \<and> (\<exists>c \<in> set [(0, 0), (1, 0), (2, 0)]. \<not> is_walkable blocked_row (fst c) (snd c))
   \<and> has_line_of_sight blocked_row 0 0 2 0 = Some False
   \<and> Some (IncrementalPhiStar_has_line_of_sight blocked_row (0, 0) (2, 0))
       \<noteq> has_line_of_sight blocked_row 0 0 2 0"
proof -
  have blocked: "\<exists>c \<in> set [(0, 0), (1, 0), (2, 0)]. \<not> is_walkable blocked_row (fst c) (snd c)"
    by (simp add: blocked_row_walkable)
  from phi_star_line_of_sight_is_placeholder[of 0 0 2 0 blocked_row "(2, 0)" "(0, 0)" "(2, 0)"]
  obtain cs b where
    "bresenham_cells 0 0 2 0 = Some cs"
    "has_line_of_sight blocked_row 0 0 2 0 = Some b"
    "(\<not> b) = (\<exists>c \<in> set cs. \<not> is_walkable blocked_row (fst c) (snd c))"
    "(\<exists>c \<in> set cs. \<not> is_walkable blocked_row (fst c) (snd c))
       \<longrightarrow> Some (IncrementalPhiStar_has_line_of_sight blocked_row (0, 0) (2, 0))
             \<noteq> has_line_of_sight blocked_row 0 0 2 0"
    by blast
  with bresenham_cells_row blocked show ?thesis
    by auto
qed

text \<open>
  The failing input: on the row of three cells with the middle one an obstacle, the walk
  from \<open>(0, 0)\<close> to \<open>(2, 0)\<close> meets the obstacle and \<open>has_line_of_sight\<close> answers false, as
  does the test of Theta*; the test of Incremental Phi* answers true.
\<close>

theorem phi_star_line_of_sight_counterexample:
  "has_line_of_sight blocked_row 0 0 2 0 = Some False
   \<and> ThetaStar_line_of_sight_check blocked_row (0, 0) (2, 0) = Some False
   \<and> IncrementalPhiStar_has_line_of_sight blocked_row (0, 0) (2, 0) = True"
  using has_line_of_sight_blocked_row
  by (simp add: ThetaStar_line_of_sight_check_def IncrementalPhiStar_has_line_of_sight_def)

section \<open>The thresholds of IDA*\<close>

lemma fle_refl: "fle a a"
  by (simp add: fle_def)

lemma fle_trans: "fle a b \<Longrightarrow> fle b c \<Longrightarrow> fle a c"
  unfolding fle_def using fless_trans by blast

lemma fless_fle_trans: "fless a b \<Longrightarrow> fle b c \<Longrightarrow> fless a c"
  unfolding fle_def using fless_trans by blast

lemma fmin_le1: "fle (fmin a b) a"
  by (simp add: fmin_def fle_def)

lemma fmin_le2: "fle (fmin a b) b"
  using fless_total[of a b] by (auto simp: fmin_def fle_def)

lemma fmin_cases: "fmin a b = a \<or> fmin a b = b"
  by (simp add: fmin_def)

lemma foldl_fmin_le_init: "fle (foldl fmin a vs) a"
proof (induction vs arbitrary: a)
  case Nil
  show ?case by (simp add: fle_refl)
next
  case (Cons v vs)
  show ?case
    using Cons[of "fmin a v"] fmin_le1[of a v] by (auto intro: fle_trans)
qed

lemma foldl_fmin_le: "v \<in> set vs \<Longrightarrow> fle (foldl fmin a vs) v"
proof (induction vs arbitrary: a)
  case Nil
  then show ?case by simp
next
  case (Cons w vs)
  show ?case
  proof (cases "v = w")
    case True
    then show ?thesis
      using foldl_fmin_le_init[of "fmin a w" vs] fmin_le2[of a w] by (auto intro: fle_trans)
  next
    case False
    then show ?thesis
      using Cons by simp
  qed
qed

lemma foldl_fmin_in: "foldl fmin a vs = a \<or> foldl fmin a vs \<in> set vs"
proof (induction vs arbitrary: a)
  case Nil
  show ?case by simp
next
  case (Cons v vs)
  show ?case
    using Cons[of "fmin a v"] fmin_cases[of a v] by auto
qed

lemma foldl_fmin_PosInf_in:
  assumes "vs \<noteq> []"
  shows "foldl fmin PosInf vs \<in> set vs"
proof (cases "foldl fmin PosInf vs = PosInf")
  case True
  from assms obtain v where v: "v \<in> set vs"
    by (cases vs) auto
  from foldl_fmin_le[OF v, of PosInf] True have "v = PosInf"
    by (cases v) (simp_all add: fle_def)
  with v True show ?thesis by simp
next
  case False
  with foldl_fmin_in[of PosInf vs] show ?thesis by simp
qed

lemma cutoff_values_exceed:
  "v \<in> set (cutoff_values grid goal htype thr node g p) \<Longrightarrow> fless thr v"
proof (induction grid goal htype thr node g p arbitrary: v rule: cutoff_values.induct)
  case (1 grid goal htype thr node g p)
  from "1.prems" show ?case
    by (subst (asm) cutoff_values.simps)
       (auto simp: Let_def split: if_splits dest: "1.IH"[OF refl])
qed

lemma IDAStar_search_iterations:
  "self_iterations (snd (IDAStar_search grid goal self node g p)) = self_iterations self"
  and IDAStar_search_neighbors_iterations:
  "self_iterations (snd (IDAStar_search_neighbors grid goal self node g p ns c)) = self_iterations self"
proof (induction grid goal self node g p and grid goal self node g p ns c
    rule: IDAStar_search_IDAStar_search_neighbors.induct)
  case (1 grid goal self node g p)
  then show ?case
    by (subst IDAStar_search.simps(1))
       (simp add: Let_def expand_node_def update_memory_usage_def)
next
  case (2 grid goal self node g p cutoff_occurred)
  then show ?case by simp
next
  case (3 grid goal self node g p neighbor rest cutoff_occurred)
  then show ?case
    by (auto simp: Let_def visit_node_def split: prod.splits)
qed

lemma IDAStar_search_cutoffs:
  "fst (IDAStar_search grid goal self node g p) \<noteq> FOUND \<Longrightarrow>
     next_threshold (snd (IDAStar_search grid goal self node g p))
       = foldl fmin (next_threshold self)
           (cutoff_values grid goal (ida_heuristic_type self) (current_threshold self) node g p)
     \<and> (fst (IDAStar_search grid goal self node g p) = CUTOFF)
       = (cutoff_values grid goal (ida_heuristic_type self) (current_threshold self) node g p \<noteq> [])"
  and IDAStar_search_neighbors_cutoffs:
  "fst (IDAStar_search_neighbors grid goal self node g p ns c) \<noteq> FOUND \<Longrightarrow>
     next_threshold (snd (IDAStar_search_neighbors grid goal self node g p ns c))
       = foldl fmin (next_threshold self)
           (concat (map (\<lambda>n. if n \<in> set p then []
                               else cutoff_values grid goal (ida_heuristic_type self)
                                      (current_threshold self) n
                                      (fadd g (get_movement_cost grid node n)) (p @ [n])) ns))
     \<and> (fst (IDAStar_search_neighbors grid goal self node g p ns c) = CUTOFF)
       = (c \<or> concat (map (\<lambda>n. if n \<in> set p then []
                               else cutoff_values grid goal (ida_heuristic_type self)
                                      (current_threshold self) n
                                      (fadd g (get_movement_cost grid node n)) (p @ [n])) ns) \<noteq> [])"
proof (induction grid goal self node g p and grid goal self node g p ns c
    rule: IDAStar_search_IDAStar_search_neighbors.induct)
  case (1 grid goal self node g p)
  define f where "f = fadd g (Num (get_heuristic node goal (ida_heuristic_type self)))"
  show ?case
  proof (cases "fless (current_threshold self) f")
    case True
    then show ?thesis
      unfolding f_def
      by (subst (1 2) IDAStar_search.simps(1), subst (1 2) cutoff_values.simps)
         (simp add: Let_def)
  next
    case nc: False
    show ?thesis
    proof (cases "node = goal")
      case True
      with nc "1.prems" show ?thesis
        unfolding f_def by (subst (asm) IDAStar_search.simps(1)) (simp add: Let_def)
    next
      case False
      define self1 where "self1 = expand_node (update_memory_usage self (int (length p)))"
      have eq: "IDAStar_search grid goal self node g p
          = IDAStar_search_neighbors grid goal self1 node g p (get_neighbors grid node) False"
        using nc False unfolding f_def self1_def
        by (subst IDAStar_search.simps(1)) (simp add: Let_def)
      have fr: "next_threshold self1 = next_threshold self"
        "ida_heuristic_type self1 = ida_heuristic_type self"
        "current_threshold self1 = current_threshold self"
        by (simp_all add: self1_def expand_node_def update_memory_usage_def)
      have cv: "cutoff_values grid goal (ida_heuristic_type self) (current_threshold self) node g p
          = concat (map (\<lambda>n. if n \<in> set p then []
                               else cutoff_values grid goal (ida_heuristic_type self)
                                      (current_threshold self) n
                                      (fadd g (get_movement_cost grid node n)) (p @ [n]))
              (get_neighbors grid node))"
        using nc False unfolding f_def
        by (subst cutoff_values.simps) (simp add: Let_def)
      have ih: "fst (IDAStar_search_neighbors grid goal self1 node g p (get_neighbors grid node) False) \<noteq> FOUND"
        using "1.prems" eq by simp
      from "1.IH"[OF refl refl _ _ ih[unfolded self1_def]] nc False
      show ?thesis
        unfolding eq cv f_def self1_def[symmetric] fr
        by (simp add: self1_def[symmetric] fr)
    qed
  qed
next
  case (2 grid goal self node g p cutoff_occurred)
  then show ?case by simp
next
  case (3 grid goal self node g p neighbor rest cutoff_occurred)
  define self1 where "self1 = visit_node self"
  have fr1: "next_threshold self1 = next_threshold self"
    "ida_heuristic_type self1 = ida_heuristic_type self"
    "current_threshold self1 = current_threshold self"
    by (simp_all add: self1_def visit_node_def)
  show ?case
  proof (cases "neighbor \<in> set p")
    case True
    have eq: "IDAStar_search_neighbors grid goal self node g p (neighbor # rest) cutoff_occurred
        = IDAStar_search_neighbors grid goal self1 node g p rest cutoff_occurred"
      using True by (simp add: Let_def self1_def)
    have nf: "fst (IDAStar_search_neighbors grid goal self1 node g p rest cutoff_occurred) \<noteq> FOUND"
      using "3.prems" eq by simp
    note ih = "3.IH"(1)[OF self1_def[symmetric, THEN sym] True, folded self1_def, OF nf, unfolded fr1]
    show ?thesis
      unfolding eq using ih True by simp
  next
    case False
    obtain result self2 where s: "IDAStar_search grid goal self1 neighbor
        (fadd g (get_movement_cost grid node neighbor)) (p @ [neighbor]) = (result, self2)"
      by (cases "IDAStar_search grid goal self1 neighbor
        (fadd g (get_movement_cost grid node neighbor)) (p @ [neighbor])") blast
    have nf: "result \<noteq> FOUND"
      using "3.prems" False s by (auto simp: Let_def self1_def)
    have eq: "IDAStar_search_neighbors grid goal self node g p (neighbor # rest) cutoff_occurred
        = IDAStar_search_neighbors grid goal self2 node g p rest
            (cutoff_occurred \<or> result = CUTOFF)"
      using False s nf by (simp add: Let_def self1_def)
    have fr2: "ida_heuristic_type self2 = ida_heuristic_type self"
      "current_threshold self2 = current_threshold self"
      using IDAStar_search_frame[of grid goal self1 neighbor
          "fadd g (get_movement_cost grid node neighbor)" "p @ [neighbor]"] s fr1
      by simp_all
    have ih2: "next_threshold self2 = foldl fmin (next_threshold self)
           (cutoff_values grid goal (ida_heuristic_type self) (current_threshold self) neighbor
              (fadd g (get_movement_cost grid node neighbor)) (p @ [neighbor]))
       \<and> (result = CUTOFF)
         = (cutoff_values grid goal (ida_heuristic_type self) (current_threshold self) neighbor
              (fadd g (get_movement_cost grid node neighbor)) (p @ [neighbor]) \<noteq> [])"
      using "3.IH"(2)[OF self1_def[symmetric, THEN sym] False] s nf fr1
      by (simp add: self1_def[symmetric])
    have ih3: "next_threshold (snd (IDAStar_search_neighbors grid goal self2 node g p rest
            (cutoff_occurred \<or> result = CUTOFF)))
       = foldl fmin (next_threshold self2)
           (concat (map (\<lambda>n. if n \<in> set p then []
                               else cutoff_values grid goal (ida_heuristic_type self)
                                      (current_threshold self) n
                                      (fadd g (get_movement_cost grid node n)) (p @ [n])) rest))
     \<and> (fst (IDAStar_search_neighbors grid goal self2 node g p rest
            (cutoff_occurred \<or> result = CUTOFF)) = CUTOFF)
       = ((cutoff_occurred \<or> result = CUTOFF)
          \<or> concat (map (\<lambda>n. if n \<in> set p then []
                               else cutoff_values grid goal (ida_heuristic_type self)
                                      (current_threshold self) n
                                      (fadd g (get_movement_cost grid node n)) (p @ [n])) rest) \<noteq> [])"
    proof -
      have nf3: "fst (IDAStar_search_neighbors grid goal self2 node g p rest
            (cutoff_occurred \<or> result = CUTOFF)) \<noteq> FOUND"
        using "3.prems" eq by simp
      show ?thesis
        using "3.IH"(3)[OF self1_def[symmetric, THEN sym] False s[symmetric] nf nf3]
        unfolding fr2 .
    qed
    show ?thesis
      unfolding eq using ih2 ih3 False by auto
  qed
qed

lemma IDAStar_iteration_continues:
  assumes "IDAStar_iteration grid start goal self iters = Inr (self', iters')"
  shows "least_cutoff_above grid start goal (ida_heuristic_type self)
           (current_threshold self) (current_threshold self')"
    and "iters' = iters + 1"
    and "max_iterations self' = max_iterations self"
    and "ida_heuristic_type self' = ida_heuristic_type self"
    and "self_iterations self' = self_iterations self + 1"
proof -
  define self0 where "self0 = self\<lparr> next_threshold := PosInf \<rparr>"
  obtain result self1 where s: "IDAStar_search grid goal self0 start (Num 0) [start] = (result, self1)"
    by (cases "IDAStar_search grid goal self0 start (Num 0) [start]") blast
  have r: "result = CUTOFF"
    using assms s unfolding IDAStar_iteration_def self0_def[symmetric]
    by (cases result) (auto simp: Let_def)
  have self': "self' = (increment_iteration self1)
      \<lparr> current_threshold := next_threshold (increment_iteration self1) \<rparr>"
    and it: "iters' = iters + 1"
    using assms s r unfolding IDAStar_iteration_def self0_def[symmetric]
    by (auto simp: Let_def)
  have fr: "max_iterations self1 = max_iterations self"
    "current_threshold self1 = current_threshold self"
    "ida_heuristic_type self1 = ida_heuristic_type self"
    using IDAStar_search_frame[of grid goal self0 start "Num 0" "[start]"] s
    by (simp_all add: self0_def)
  have its: "self_iterations self1 = self_iterations self"
    using IDAStar_search_iterations[of grid goal self0 start "Num 0" "[start]"] s
    by (simp add: self0_def)
  let ?cv = "cutoff_values grid goal (ida_heuristic_type self) (current_threshold self)
      start (Num 0) [start]"
  have "fst (IDAStar_search grid goal self0 start (Num 0) [start]) \<noteq> FOUND"
    using s r by simp
  from IDAStar_search_cutoffs[OF this] s r
  have nt: "next_threshold self1 = foldl fmin PosInf ?cv" and ne: "?cv \<noteq> []"
    by (simp_all add: self0_def)
  have thr: "current_threshold self' = foldl fmin PosInf ?cv"
    using nt by (simp add: self' increment_iteration_def)
  have mem: "current_threshold self' \<in> set ?cv"
    unfolding thr by (rule foldl_fmin_PosInf_in[OF ne])
  have low: "\<forall>v \<in> set ?cv. fle (current_threshold self') v"
    unfolding thr by (blast intro: foldl_fmin_le)
  have up: "fless (current_threshold self) (current_threshold self')"
    using mem by (rule cutoff_values_exceed)
  show "least_cutoff_above grid start goal (ida_heuristic_type self)
           (current_threshold self) (current_threshold self')"
    unfolding least_cutoff_above_def using up mem low by blast
  show "iters' = iters + 1" by (rule it)
  show "max_iterations self' = max_iterations self"
    using fr by (simp add: self' increment_iteration_def)
  show "ida_heuristic_type self' = ida_heuristic_type self"
    using fr by (simp add: self' increment_iteration_def)
  show "self_iterations self' = self_iterations self + 1"
    using its by (simp add: self' increment_iteration_def)
qed

lemma IDAStar_iteration_returns:
  assumes "IDAStar_iteration grid start goal self iters = Inl r"
  shows "iterations r = self_iterations self + 1"
proof -
  define self0 where "self0 = self\<lparr> next_threshold := PosInf \<rparr>"
  obtain result self1 where s: "IDAStar_search grid goal self0 start (Num 0) [start] = (result, self1)"
    by (cases "IDAStar_search grid goal self0 start (Num 0) [start]") blast
  have its: "self_iterations self1 = self_iterations self"
    using IDAStar_search_iterations[of grid goal self0 start "Num 0" "[start]"] s
    by (simp add: self0_def)
  show ?thesis
    using assms s its unfolding IDAStar_iteration_def self0_def[symmetric]
    by (auto simp: Let_def increment_iteration_def split: if_splits)
qed

lemma IDAStar_thresholds_hd:
  "IDAStar_thresholds grid start goal self iters \<noteq> [] \<Longrightarrow>
     hd (IDAStar_thresholds grid start goal self iters) = current_threshold self"
  by (subst (asm) IDAStar_thresholds.simps, subst IDAStar_thresholds.simps)
     (simp split: if_splits)

lemma IDAStar_thresholds_successively:
  "successively (least_cutoff_above grid start goal (ida_heuristic_type self))
     (IDAStar_thresholds grid start goal self iters)"
proof (induction grid start goal self iters rule: IDAStar_thresholds.induct)
  case (1 grid start goal self iters)
  show ?case
  proof (cases "iters < max_iterations self")
    case False
    then show ?thesis
      by (subst IDAStar_thresholds.simps) simp
  next
    case lt: True
    show ?thesis
    proof (cases "IDAStar_iteration grid start goal self iters")
      case (Inl r)
      with lt show ?thesis
        by (subst IDAStar_thresholds.simps) simp
    next
      case (Inr x)
      obtain self' iters' where x: "x = (self', iters')"
        by (cases x) blast
      note c = IDAStar_iteration_continues[OF Inr[unfolded x]]
      have eq: "IDAStar_thresholds grid start goal self iters
          = current_threshold self # IDAStar_thresholds grid start goal self' iters'"
        using lt Inr x by (subst IDAStar_thresholds.simps) simp
      have ih: "successively (least_cutoff_above grid start goal (ida_heuristic_type self))
          (IDAStar_thresholds grid start goal self' iters')"
        using "1.IH"[OF lt Inr x[symmetric]] c(4) by simp
      show ?thesis
        unfolding eq successively_Cons
        using ih c(1) IDAStar_thresholds_hd[of grid start goal self' iters']
        by (cases "IDAStar_thresholds grid start goal self' iters' = []") auto
    qed
  qed
qed

lemma IDAStar_thresholds_length:
  "int (length (IDAStar_thresholds grid start goal self iters)) \<le> max 0 (max_iterations self - iters)
   \<and> iterations (IDAStar_loop grid start goal self iters)
       = self_iterations self + int (length (IDAStar_thresholds grid start goal self iters))"
proof (induction grid start goal self iters rule: IDAStar_thresholds.induct)
  case (1 grid start goal self iters)
  show ?case
  proof (cases "iters < max_iterations self")
    case False
    have t: "IDAStar_thresholds grid start goal self iters = []"
      using False by (subst IDAStar_thresholds.simps) simp
    have l: "iterations (IDAStar_loop grid start goal self iters) = self_iterations self"
      using False by (subst IDAStar_loop.simps) simp
    show ?thesis
      unfolding t l by simp
  next
    case lt: True
    show ?thesis
    proof (cases "IDAStar_iteration grid start goal self iters")
      case (Inl r)
      have t: "IDAStar_thresholds grid start goal self iters = [current_threshold self]"
        using lt Inl by (subst IDAStar_thresholds.simps) simp
      have l: "IDAStar_loop grid start goal self iters = r"
        using lt Inl by (subst IDAStar_loop.simps) simp
      show ?thesis
        unfolding t l using lt IDAStar_iteration_returns[OF Inl] by simp
    next
      case (Inr x)
      obtain self' iters' where x: "x = (self', iters')"
        by (cases x) blast
      note c = IDAStar_iteration_continues[OF Inr[unfolded x]]
      have t: "IDAStar_thresholds grid start goal self iters
          = current_threshold self # IDAStar_thresholds grid start goal self' iters'"
        using lt Inr x by (subst IDAStar_thresholds.simps) simp
      have l: "IDAStar_loop grid start goal self iters = IDAStar_loop grid start goal self' iters'"
        using lt Inr x by (subst IDAStar_loop.simps) simp
      show ?thesis
        unfolding t l using "1.IH"[OF lt Inr x[symmetric]] c(2,3,5) lt by simp
    qed
  qed
qed

lemma fless_transp: "transp fless"
  by (rule transpI) (rule fless_trans)

lemma IDAStar_thresholds_sorted:
  "sorted_wrt fless (IDAStar_thresholds grid start goal self iters)"
proof -
  have "successively fless (IDAStar_thresholds grid start goal self iters)"
    by (rule successively_mono[OF IDAStar_thresholds_successively])
       (simp add: least_cutoff_above_def)
  thus ?thesis
    by (simp add: successively_conv_sorted_wrt[OF fless_transp])
qed

lemma detour_neighbors:
  "get_neighbors detour_grid (0, 0) = [(0, 1)]"
  "get_neighbors detour_grid (0, 1) = [(1, 1), (0, 0)]"
  "get_neighbors detour_grid (1, 1) = [(2, 1), (0, 1)]"
  "get_neighbors detour_grid (2, 1) = [(2, 0), (1, 1)]"
  by (simp_all add: detour_grid_def get_neighbors_def directions_def is_walkable_def
      get_node_def is_valid_position_def set_walkable_def Grid_init_def GridNode_init_def)

lemma detour_costs:
  "get_movement_cost detour_grid (0, 0) (0, 1) = Num 1"
  "get_movement_cost detour_grid (0, 1) (1, 1) = Num 1"
  "get_movement_cost detour_grid (1, 1) (2, 1) = Num 1"
  "get_movement_cost detour_grid (2, 1) (2, 0) = Num 1"
  by (simp_all add: detour_grid_def get_movement_cost_def set_walkable_def Grid_init_def Let_def
      get_node_def is_valid_position_def)

lemma detour_thresholds:
  "IDAStar_thresholds detour_grid (0, 0) (2, 0) detour_engine 0 = [Num 2, Num 4]"
  apply (subst IDAStar_thresholds.simps)
  apply (simp add: detour_engine_def IDAStar_init_def IDAStar_iteration_def
      IDAStar_search.simps(1) detour_neighbors detour_costs get_heuristic_def
      manhattan_distance_def counter_defs Let_def fmin_def PathfindingAlgorithm.defs)
  apply (subst IDAStar_thresholds.simps)
  apply (simp add: detour_engine_def IDAStar_init_def IDAStar_iteration_def
      IDAStar_search.simps(1) detour_neighbors detour_costs get_heuristic_def
      manhattan_distance_def counter_defs Let_def fmin_def PathfindingAlgorithm.defs)
  done

lemma detour_cutoffs:
  "cutoff_values detour_grid (2, 0) ''manhattan'' (Num 2) (0, 0) (Num 0) [(0, 0)] = [Num 4]"
  apply (subst cutoff_values.simps)
  apply (simp add: detour_neighbors detour_costs get_heuristic_def manhattan_distance_def Let_def)
  apply (subst cutoff_values.simps)
  apply (simp add: detour_neighbors detour_costs get_heuristic_def manhattan_distance_def Let_def)
  done

text \<open>
  Claim C6. The thresholds of the successive passes of the loop of IDA*, from any state
  with which the loop is entered, form a sequence in which each threshold is followed by
  a greater one, namely the least value \<open>f\<close> at which the search below it was cut off;
  so the sequence is non-decreasing. The loop ends: it makes at most \<open>max_iterations\<close>
  passes, and the result it returns counts as many iterations as there are thresholds.
  No assumption on the heuristic is needed.
\<close>

theorem IDAStar_thresholds_increase_and_loop_ends:
  "successively (least_cutoff_above grid start goal (ida_heuristic_type self))
     (IDAStar_thresholds grid start goal self iters)
   \<and> sorted_wrt fle (IDAStar_thresholds grid start goal self iters)
   \<and> int (length (IDAStar_thresholds grid start goal self iters))
       \<le> max 0 (max_iterations self - iters)
   \<and> iterations (IDAStar_loop grid start goal self iters)
       = self_iterations self + int (length (IDAStar_thresholds grid start goal self iters))"
proof -
  have "sorted_wrt fle (IDAStar_thresholds grid start goal self iters)"
    by (rule sorted_wrt_mono_rel[OF _ IDAStar_thresholds_sorted]) (simp add: fle_def)
  with IDAStar_thresholds_successively[of grid start goal self iters]
    IDAStar_thresholds_length[of grid start goal self iters]
  show ?thesis
    by blast
qed

theorem IDAStar_thresholds_increase_and_loop_ends_witness:
  "IDAStar_thresholds detour_grid (0, 0) (2, 0) detour_engine 0 = [Num 2, Num 4]
   \<and> cutoff_values detour_grid (2, 0) ''manhattan'' (Num 2) (0, 0) (Num 0) [(0, 0)] = [Num 4]
   \<and> least_cutoff_above detour_grid (0, 0) (2, 0) ''manhattan'' (Num 2) (Num 4)
   \<and> iterations (IDAStar_loop detour_grid (0, 0) (2, 0) detour_engine 0) = 2"
proof -
  have h: "ida_heuristic_type detour_engine = ''manhattan''"
    and i: "self_iterations detour_engine = 0"
    by (simp_all add: detour_engine_def IDAStar_init_def start_timing_def
        PathfindingAlgorithm_init_def PathfindingAlgorithm.defs)
  from IDAStar_thresholds_increase_and_loop_ends[of detour_grid "(0, 0)" "(2, 0)" detour_engine 0]
  show ?thesis
    unfolding detour_thresholds h i using detour_cutoffs by simp
qed

section \<open>Equal end points\<close>

lemma validate_inputs_same:
  "is_valid_position grid (fst p) (snd p) \<Longrightarrow> is_walkable grid (fst p) (snd p)
     \<Longrightarrow> validate_inputs grid p p = None"
  by (simp add: validate_inputs_def)

lemma get_node_reset:
  "is_valid_position g x y \<Longrightarrow>
     get_node (reset_pathfinding_data g) x y = Some (GridNode_reset (nodes g (x, y)))"
  by (simp add: get_node_def reset_pathfinding_data_def is_valid_position_def)

lemma single_waypoint_create_result:
  "single_waypoint_result p (create_result (start_timing self) [waypoint p] True None)"
  by (simp add: single_waypoint_result_def path_cost_create_result path_length_create_result
      start_timing_def)

lemma grid_engines_equal_end_points:
  assumes v: "is_valid_position grid (fst p) (snd p)" and w: "is_walkable grid (fst p) (snd p)"
  shows "AStar_find_path ident a grid p p
           = Some (create_result (start_timing a) [waypoint p] True None,
                   reset_pathfinding_data grid)"
    and "Dijkstra_find_path ident d grid p p
           = Some (create_result (start_timing d) [waypoint p] True None,
                   reset_pathfinding_data grid)"
    and "IDAStar_find_path i grid p p
           = (create_result (start_timing i) [waypoint p] True None,
              reset_pathfinding_data grid)"
  using validate_inputs_same[OF v w] get_node_reset[OF v]
  by (simp_all add: AStar_find_path_def Dijkstra_find_path_def IDAStar_find_path_def Let_def
      truthy_def)

lemma RRT_extend_tree_expanded:
  "self_nodes_expanded (snd (RRT_extend_tree grid f t s)) = self_nodes_expanded s"
  by (simp add: RRT_extend_tree_def new_node_def Let_def)

lemma RRTStar_extend_tree_expanded:
  "RRTStar_extend_tree grid f t s = Some (r, s') \<Longrightarrow>
     self_nodes_expanded s' = self_nodes_expanded s"
  using RRT_extend_tree_expanded[of grid f t s]
  by (auto simp: RRTStar_extend_tree_def Let_def split: prod.splits option.splits)

lemma sample_random_point_expanded:
  "self_nodes_expanded (snd (sample_random_point rnd grid s)) = self_nodes_expanded s"
  by (simp add: sample_random_point_def random_uniform_def new_node_def)

lemma keeps_expanded_RRT: "keeps_expanded (\<lambda>g f t s. Some (RRT_extend_tree g f t s))"
  unfolding keeps_expanded_def using RRT_extend_tree_expanded
  by (metis option.inject snd_conv)

lemma keeps_expanded_RRTStar: "keeps_expanded RRTStar_extend_tree"
  unfolding keeps_expanded_def using RRTStar_extend_tree_expanded by blast

lemma rrt_iteration_unfold:
  "rrt_iteration ext rnd grid goal_node iteration self =
     (let self1 = update_memory_usage (increment_iteration self) (int (length (tree_nodes self)));
          self2 = self1\<lparr> n_draws := Suc (n_draws self1) \<rparr>;
          ss = (if rnd (n_draws self1) < goal_bias self2 then (goal_node, self2)
                else sample_random_point rnd grid self2)
      in case find_nearest_node (snd ss) (fst ss) of
           None \<Rightarrow> Some (Inr (snd ss))
         | Some nearest_node \<Rightarrow>
             (case ext grid nearest_node (fst ss) (snd ss) of
                None \<Rightarrow> None
              | Some (None, self4) \<Rightarrow> Some (Inr self4)
              | Some (Some nn, self4) \<Rightarrow>
                  let self5 = expand_node (self4\<lparr> tree_nodes := tree_nodes self4 @ [nn] \<rparr>);
                      os = objs self5
                  in if distance_to (os nn) (os goal_node) \<le> 1 / 2
                        \<and> is_collision_free grid (os nn) (os goal_node)
                     then
                       let os1 = os(goal_node := (os goal_node)\<lparr> node_parent := Some nn \<rparr>);
                           os2 = os1(goal_node := (os1 goal_node)\<lparr> cost := cost (os1 nn)
                                    + distance_to (os1 nn) (os1 goal_node) \<rparr>)
                       in (case construct_path_loop os2 (Some goal_node) [] of
                             None \<Rightarrow> None
                           | Some p \<Rightarrow>
                               let res = create_result self5 p True None
                               in Some (Inl (res\<lparr> algorithm_data := (algorithm_data res)
                                    (''iterations_used'' \<mapsto> VInt (iteration + 1),
                                     ''tree_size'' \<mapsto> VInt (int (length (tree_nodes self5))),
                                     ''sampling_efficiency'' \<mapsto>
                                        VFloat (Num (of_int (iteration + 1)
                                                  / of_int (rrt_max_iterations self5)))) \<rparr>)))
                     else Some (Inr self5)))"
  unfolding rrt_iteration_def Let_def by (simp add: case_prod_beta)

lemma rrt_iteration_expanded:
  assumes ext: "keeps_expanded ext"
    and nn: "0 \<le> self_nodes_expanded self"
  shows "rrt_iteration ext rnd grid goal_node iteration self = Some (Inl r)
           \<Longrightarrow> 1 \<le> nodes_expanded r"
    and "rrt_iteration ext rnd grid goal_node iteration self = Some (Inr self')
           \<Longrightarrow> 0 \<le> self_nodes_expanded self'"
proof -
  define self1 where
    "self1 = update_memory_usage (increment_iteration self) (int (length (tree_nodes self)))"
  define self2 where "self2 = self1\<lparr> n_draws := Suc (n_draws self1) \<rparr>"
  define ss where "ss = (if rnd (n_draws self1) < goal_bias self2 then (goal_node, self2)
    else sample_random_point rnd grid self2)"
  have e2: "self_nodes_expanded self2 = self_nodes_expanded self"
    by (simp add: self2_def self1_def update_memory_usage_def increment_iteration_def)
  have e3: "self_nodes_expanded (snd ss) = self_nodes_expanded self"
    using e2 sample_random_point_expanded[of rnd grid self2] by (simp add: ss_def)
  have k: "\<And>n r s'. ext grid n (fst ss) (snd ss) = Some (r, s')
      \<Longrightarrow> self_nodes_expanded s' = self_nodes_expanded self"
    using ext e3 unfolding keeps_expanded_def by metis
  note it = rrt_iteration_unfold[of ext rnd grid goal_node iteration self,
      unfolded Let_def, folded self1_def, folded self2_def, folded ss_def]
  show "1 \<le> nodes_expanded r"
    if "rrt_iteration ext rnd grid goal_node iteration self = Some (Inl r)"
    using that nn e3 unfolding it
    by (auto simp: Let_def expand_node_def split: option.splits prod.splits if_splits
        dest!: k)
  show "0 \<le> self_nodes_expanded self'"
    if "rrt_iteration ext rnd grid goal_node iteration self = Some (Inr self')"
    using that nn e3 unfolding it
    by (auto simp: Let_def expand_node_def split: option.splits prod.splits if_splits
        dest!: k)
qed

lemma rrt_loop_expanded:
  assumes ext: "keeps_expanded ext"
  shows "0 \<le> self_nodes_expanded self \<Longrightarrow>
         rrt_loop ext rnd grid goal_node n iteration self = Some r \<Longrightarrow> found r
           \<Longrightarrow> 1 \<le> nodes_expanded r"
proof (induction n arbitrary: iteration self)
  case 0
  then show ?case by auto
next
  case (Suc n)
  show ?case
  proof (cases "rrt_iteration ext rnd grid goal_node iteration self")
    case None
    with Suc.prems show ?thesis by simp
  next
    case (Some x)
    show ?thesis
    proof (cases x)
      case (Inl r')
      with Some Suc.prems have "rrt_iteration ext rnd grid goal_node iteration self = Some (Inl r)"
        by simp
      then show ?thesis
        by (rule rrt_iteration_expanded(1)[OF ext Suc.prems(1)])
    next
      case (Inr self')
      from Some Inr Suc.prems
      have l: "rrt_loop ext rnd grid goal_node n (iteration + 1) self' = Some r"
        by simp
      have "0 \<le> self_nodes_expanded self'"
        using rrt_iteration_expanded(2)[OF ext Suc.prems(1)] Some Inr by simp
      then show ?thesis
        by (rule Suc.IH[OF _ l Suc.prems(3)])
    qed
  qed
qed

lemma sampling_find_path_loop:
  "\<not> truthy (validate_inputs grid start goal) \<Longrightarrow>
     sampling_find_path ext rnd self grid start goal
       = rrt_loop ext rnd grid (fst (sampling_start_state self start goal))
           (nat (rrt_max_iterations (snd (sampling_start_state self start goal)))) 0
           (snd (sampling_start_state self start goal))"
  by (simp add: sampling_find_path_def sampling_start_state_def Let_def split: prod.splits)

lemma sampling_find_path_expanded:
  assumes ext: "keeps_expanded ext"
    and run: "sampling_find_path ext rnd self grid start goal = Some r" and f: "found r"
  shows "1 \<le> nodes_expanded r"
proof (cases "truthy (validate_inputs grid start goal)")
  case True
  with run f show ?thesis
    by (auto simp: sampling_find_path_def Let_def)
next
  case False
  have l: "rrt_loop ext rnd grid (fst (sampling_start_state self start goal))
           (nat (rrt_max_iterations (snd (sampling_start_state self start goal)))) 0
           (snd (sampling_start_state self start goal)) = Some r"
    using run unfolding sampling_find_path_loop[OF False, of ext rnd self] .
  have z: "self_nodes_expanded (snd (sampling_start_state self start goal)) = 0"
    by (simp add: sampling_start_state_def new_node_def start_timing_def)
  show ?thesis
    by (rule rrt_loop_expanded[OF ext _ l f]) (simp add: z)
qed

text \<open>
  On the grid of one cell every sample is the cell itself, at distance zero from the
  root, so the tree never grows and the loop runs to its end.
\<close>

lemma rrt_iteration_one_cell:
  assumes g: "width grid = 1" "height grid = 1"
    and t: "tree_nodes self = [rt]"
    and r0: "node_x (objs self rt) = 0" "node_y (objs self rt) = 0"
    and g0: "node_x (objs self goal_node) = 0" "node_y (objs self goal_node) = 0"
    and lt: "rt < n_objs self" "goal_node < n_objs self"
  shows "\<exists>self'. rrt_iteration (\<lambda>g f t s. Some (RRT_extend_tree g f t s)) rnd grid goal_node
             iteration self = Some (Inr self')
           \<and> tree_nodes self' = [rt]
           \<and> node_x (objs self' rt) = 0 \<and> node_y (objs self' rt) = 0
           \<and> node_x (objs self' goal_node) = 0 \<and> node_y (objs self' goal_node) = 0
           \<and> rt < n_objs self' \<and> goal_node < n_objs self'
           \<and> rrt_max_iterations self' = rrt_max_iterations self"
proof -
  define self1 where
    "self1 = update_memory_usage (increment_iteration self) (int (length (tree_nodes self)))"
  define self2 where "self2 = self1\<lparr> n_draws := Suc (n_draws self1) \<rparr>"
  define ss where "ss = (if rnd (n_draws self1) < goal_bias self2 then (goal_node, self2)
    else sample_random_point rnd grid self2)"
  have f2: "tree_nodes self2 = [rt]" "objs self2 = objs self" "n_objs self2 = n_objs self"
    "rrt_max_iterations self2 = rrt_max_iterations self"
    by (simp_all add: self2_def self1_def update_memory_usage_def increment_iteration_def t)
  have s3: "tree_nodes (snd ss) = [rt]"
    "node_x (objs (snd ss) rt) = 0" "node_y (objs (snd ss) rt) = 0"
    "node_x (objs (snd ss) goal_node) = 0" "node_y (objs (snd ss) goal_node) = 0"
    "node_x (objs (snd ss) (fst ss)) = 0" "node_y (objs (snd ss) (fst ss)) = 0"
    "rt < n_objs (snd ss)" "goal_node < n_objs (snd ss)"
    "rrt_max_iterations (snd ss) = rrt_max_iterations self"
    using f2 r0 g0 lt g
    by (auto simp: ss_def sample_random_point_def random_uniform_def new_node_def
        SamplingNode_init_def)
  have near: "find_nearest_node (snd ss) (fst ss) = Some rt"
    by (simp add: find_nearest_node_def s3)
  have ext: "RRT_extend_tree grid rt (fst ss) (snd ss) = (None, snd ss)"
    by (simp add: RRT_extend_tree_def s3 Let_def)
  note it = rrt_iteration_unfold[of "\<lambda>g f t s. Some (RRT_extend_tree g f t s)" rnd grid
      goal_node iteration self, unfolded Let_def, folded self1_def, folded self2_def,
      folded ss_def]
  have "rrt_iteration (\<lambda>g f t s. Some (RRT_extend_tree g f t s)) rnd grid goal_node
      iteration self = Some (Inr (snd ss))"
    unfolding it by (simp add: near ext)
  with s3 show ?thesis
    by blast
qed

lemma rrt_loop_one_cell:
  assumes g: "width grid = 1" "height grid = 1"
  shows "tree_nodes self = [rt] \<Longrightarrow>
     node_x (objs self rt) = 0 \<Longrightarrow> node_y (objs self rt) = 0 \<Longrightarrow>
     node_x (objs self goal_node) = 0 \<Longrightarrow> node_y (objs self goal_node) = 0 \<Longrightarrow>
     rt < n_objs self \<Longrightarrow> goal_node < n_objs self \<Longrightarrow>
     \<exists>r. rrt_loop (\<lambda>g f t s. Some (RRT_extend_tree g f t s)) rnd grid goal_node n
            iteration self = Some r
       \<and> \<not> found r
       \<and> error_message r = Some (''No path found within ''
             @ str_int (rrt_max_iterations self) @ '' iterations'')"
proof (induction n arbitrary: self iteration)
  case 0
  then show ?case by simp
next
  case (Suc n)
  from rrt_iteration_one_cell[OF g Suc.prems, of rnd iteration]
  obtain self' where
    it: "rrt_iteration (\<lambda>g f t s. Some (RRT_extend_tree g f t s)) rnd grid goal_node
             iteration self = Some (Inr self')"
    and inv: "tree_nodes self' = [rt]"
      "node_x (objs self' rt) = 0" "node_y (objs self' rt) = 0"
      "node_x (objs self' goal_node) = 0" "node_y (objs self' goal_node) = 0"
      "rt < n_objs self'" "goal_node < n_objs self'"
    and mx: "rrt_max_iterations self' = rrt_max_iterations self"
    by blast
  from Suc.IH[OF inv, of "iteration + 1"] it mx show ?case
    by simp
qed

lemma RRT_find_path_one_cell:
  "\<exists>r. RRT_find_path rnd self (Grid_init 1 1) (0, 0) (0, 0) = Some r
     \<and> \<not> found r
     \<and> error_message r = Some (''No path found within ''
           @ str_int (rrt_max_iterations self) @ '' iterations'')"
proof -
  have v: "\<not> truthy (validate_inputs (Grid_init 1 1) (0, 0) (0, 0))"
    by (simp add: grid_defs)
  let ?st = "sampling_start_state self (0, 0) (0, 0)"
  have st: "fst ?st = Suc (n_objs self)" "tree_nodes (snd ?st) = [n_objs self]"
    "node_x (objs (snd ?st) (n_objs self)) = 0" "node_y (objs (snd ?st) (n_objs self)) = 0"
    "node_x (objs (snd ?st) (Suc (n_objs self))) = 0"
    "node_y (objs (snd ?st) (Suc (n_objs self))) = 0"
    "n_objs (snd ?st) = Suc (Suc (n_objs self))"
    "rrt_max_iterations (snd ?st) = rrt_max_iterations self"
    by (simp_all add: sampling_start_state_def new_node_def start_timing_def
        SamplingNode_init_def)
  have g: "width (Grid_init 1 1) = 1" "height (Grid_init 1 1) = 1"
    by (simp_all add: Grid_init_def)
  from rrt_loop_one_cell[OF g st(2) st(3) st(4) st(5) st(6), of rnd
      "nat (rrt_max_iterations self)" 0] st(7)
  show ?thesis
    unfolding RRT_find_path_def sampling_find_path_loop[OF v] st(1) st(8) by simp
qed

lemma single_waypoint_algorithm_data:
  "single_waypoint_result p r \<Longrightarrow> single_waypoint_result p (r\<lparr> algorithm_data := d \<rparr>)"
  by (simp add: single_waypoint_result_def)

text \<open>
  Claim C2. With equal, valid and walkable end points, A*, weighted A*, Dijkstra and IDA*
  return the success with the single way point, cost zero and no node expanded. RRT and
  RRT* have no such case in \<open>find_path\<close>: whatever they return for equal end points, it
  is not that result, since they expand a node before any success.
\<close>

theorem equal_end_points_grid_engines_but_not_rrt:
  assumes v: "is_valid_position grid (fst p) (snd p)" and w: "is_walkable grid (fst p) (snd p)"
  shows "(\<exists>r g. AStar_find_path ident a grid p p = Some (r, g) \<and> single_waypoint_result p r)
     \<and> (\<exists>r g. WeightedAStar_find_path ident a grid p p = Some (r, g)
            \<and> single_waypoint_result p r)
     \<and> (\<exists>r g. Dijkstra_find_path ident d grid p p = Some (r, g) \<and> single_waypoint_result p r)
     \<and> single_waypoint_result p (fst (IDAStar_find_path i grid p p))
     \<and> (\<forall>r. RRT_find_path rnd rr grid p p = Some r \<longrightarrow> \<not> single_waypoint_result p r)
     \<and> (\<forall>r. RRTStar_find_path rnd rs grid p p = Some r \<longrightarrow> \<not> single_waypoint_result p r)"
proof -
  note e = grid_engines_equal_end_points[OF v w]
  have a: "\<exists>r g. AStar_find_path ident a grid p p = Some (r, g) \<and> single_waypoint_result p r"
    unfolding e(1) by (simp add: single_waypoint_create_result)
  have wa: "\<exists>r g. WeightedAStar_find_path ident a grid p p = Some (r, g)
      \<and> single_waypoint_result p r"
    unfolding WeightedAStar_find_path_def e(1)
    by (simp add: single_waypoint_create_result single_waypoint_algorithm_data)
  have dj: "\<exists>r g. Dijkstra_find_path ident d grid p p = Some (r, g) \<and> single_waypoint_result p r"
    unfolding e(2) by (simp add: single_waypoint_create_result)
  have ida: "single_waypoint_result p (fst (IDAStar_find_path i grid p p))"
    unfolding e(3) by (simp add: single_waypoint_create_result)
  have rrt: "\<forall>r. RRT_find_path rnd rr grid p p = Some r \<longrightarrow> \<not> single_waypoint_result p r"
    using sampling_find_path_expanded[OF keeps_expanded_RRT, of rnd rr grid p p]
    unfolding RRT_find_path_def single_waypoint_result_def by fastforce
  have rrts: "\<forall>r. RRTStar_find_path rnd rs grid p p = Some r \<longrightarrow> \<not> single_waypoint_result p r"
    using sampling_find_path_expanded[OF keeps_expanded_RRTStar, of rnd rs grid p p]
    unfolding RRTStar_find_path_def single_waypoint_result_def by fastforce
  from a wa dj ida rrt rrts show ?thesis
    by (intro conjI)
qed

theorem equal_end_points_grid_engines_but_not_rrt_witness:
  "is_valid_position (Grid_init 1 1) 0 0 \<and> is_walkable (Grid_init 1 1) 0 0
   \<and> single_waypoint_result (0, 0)
        (fst (IDAStar_find_path (IDAStar_init ''manhattan'' 1000) (Grid_init 1 1) (0, 0) (0, 0)))
   \<and> (\<exists>r g. AStar_find_path (\<lambda>p. 0) (AStar_init ''euclidean'' 1) (Grid_init 1 1) (0, 0) (0, 0)
               = Some (r, g) \<and> single_waypoint_result (0, 0) r)
   \<and> (\<exists>r. RRT_find_path (\<lambda>n. 0) (RRT_init 1 10000 (1 / 10)) (Grid_init 1 1) (0, 0) (0, 0)
               = Some r \<and> \<not> single_waypoint_result (0, 0) r)"
proof -
  have v: "is_valid_position (Grid_init 1 1) (fst (0, 0)) (snd (0, 0))"
    and w: "is_walkable (Grid_init 1 1) (fst (0, 0)) (snd (0, 0))"
    by (simp_all add: grid_defs)
  note t = equal_end_points_grid_engines_but_not_rrt[OF v w, of "\<lambda>p. 0"
      "AStar_init ''euclidean'' 1" Dijkstra_init "IDAStar_init ''manhattan'' 1000" "\<lambda>n. 0"
      "RRT_init 1 10000 (1 / 10)"]
  from RRT_find_path_one_cell[of "\<lambda>n. 0" "RRT_init 1 10000 (1 / 10)"]
  obtain r where "RRT_find_path (\<lambda>n. 0) (RRT_init 1 10000 (1 / 10)) (Grid_init 1 1) (0, 0) (0, 0)
      = Some r"
    by blast
  with t v w show ?thesis
    by auto
qed

text \<open>
  The failing input: on the grid of one cell, with start and goal the cell, RRT with its
  default parameters returns, whatever the random numbers, the failure
  "No path found within 10000 iterations".
\<close>

theorem rrt_equal_end_points_counterexample:
  "\<forall>rnd. \<exists>r. RRT_find_path rnd (RRT_init 1 10000 (1 / 10)) (Grid_init 1 1) (0, 0) (0, 0) = Some r
     \<and> \<not> found r \<and> path r = []
     \<and> error_message r = Some (''No path found within '' @ str_int 10000 @ '' iterations'')
     \<and> \<not> single_waypoint_result (0, 0) r"
proof
  fix rnd
  have m: "rrt_max_iterations (RRT_init 1 10000 (1 / 10)) = 10000"
    by (simp add: RRT_init_def PathfindingAlgorithm.defs)
  from RRT_find_path_one_cell[of rnd "RRT_init 1 10000 (1 / 10)"] obtain r where
    r: "RRT_find_path rnd (RRT_init 1 10000 (1 / 10)) (Grid_init 1 1) (0, 0) (0, 0) = Some r"
    and nf: "\<not> found r"
    and msg: "error_message r = Some (''No path found within '' @ str_int 10000 @ '' iterations'')"
    unfolding m by blast
  from RRT_find_path_result[OF r] nf have "path r = []"
    by (simp add: result_shape_def)
  with r nf msg
  show "\<exists>r. RRT_find_path rnd (RRT_init 1 10000 (1 / 10)) (Grid_init 1 1) (0, 0) (0, 0) = Some r
     \<and> \<not> found r \<and> path r = []
     \<and> error_message r = Some (''No path found within '' @ str_int 10000 @ '' iterations'')
     \<and> \<not> single_waypoint_result (0, 0) r"
    by (auto simp: single_waypoint_result_def)
qed

section \<open>The scratch state of the map\<close>

lemma is_valid_position_with_scratch [simp]:
  "is_valid_position (with_scratch g sc) x y = is_valid_position g x y"
  by (simp add: with_scratch_def is_valid_position_def)

lemma is_walkable_with_scratch [simp]:
  "is_walkable (with_scratch g sc) x y = is_walkable g x y"
  by (simp add: is_walkable_def get_node_def) (simp add: with_scratch_def)

lemma width_with_scratch [simp]: "width (with_scratch g sc) = width g"
  and height_with_scratch [simp]: "height (with_scratch g sc) = height g"
  by (simp_all add: with_scratch_def)

lemma validate_inputs_with_scratch [simp]:
  "validate_inputs (with_scratch g sc) s t = validate_inputs g s t"
  by (simp add: validate_inputs_def)

lemma reset_with_scratch [simp]:
  "reset_pathfinding_data (with_scratch g sc) = reset_pathfinding_data g"
  by (simp add: reset_pathfinding_data_def)
     (auto simp: with_scratch_def GridNode_reset_def fun_eq_iff)

lemma reset_clears:
  "is_valid_position g (fst p) (snd p) \<Longrightarrow>
     scratch_cleared (nodes (reset_pathfinding_data g) p)
     \<and> walkable (nodes (reset_pathfinding_data g) p) = walkable (nodes g p)"
  by (simp add: reset_pathfinding_data_def GridNode_reset_def scratch_cleared_def)

lemma reset_is_with_scratch:
  "reset_pathfinding_data g = with_scratch g (\<lambda>p. GridNode_reset (nodes g p))"
  by (auto simp: reset_pathfinding_data_def with_scratch_def GridNode_reset_def fun_eq_iff)

lemma WeightedAStar_fst:
  "map_option fst (WeightedAStar_find_path ident a g s t)
     = map_option (\<lambda>r. r\<lparr> algorithm_data := (algorithm_data r)
                   (''heuristic_weight'' \<mapsto> VFloat (Num (heuristic_weight a)),
                    ''optimality_bound'' \<mapsto> VFloat (Num (heuristic_weight a))) \<rparr>)
         (map_option fst (AStar_find_path ident a g s t))"
  by (simp add: WeightedAStar_find_path_def split: option.splits prod.splits)

lemma grid_engines_with_scratch:
  "map_option fst (AStar_find_path ident a (with_scratch g sc) s t)
     = map_option fst (AStar_find_path ident a g s t)"
  "map_option fst (WeightedAStar_find_path ident a (with_scratch g sc) s t)
     = map_option fst (WeightedAStar_find_path ident a g s t)"
  "map_option fst (Dijkstra_find_path ident d (with_scratch g sc) s t)
     = map_option fst (Dijkstra_find_path ident d g s t)"
  "fst (IDAStar_find_path i (with_scratch g sc) s t) = fst (IDAStar_find_path i g s t)"
proof -
  show a: "map_option fst (AStar_find_path ident a (with_scratch g sc) s t)
     = map_option fst (AStar_find_path ident a g s t)"
    by (simp add: AStar_find_path_def Let_def)
  show "map_option fst (WeightedAStar_find_path ident a (with_scratch g sc) s t)
     = map_option fst (WeightedAStar_find_path ident a g s t)"
    unfolding WeightedAStar_fst a ..
  show "map_option fst (Dijkstra_find_path ident d (with_scratch g sc) s t)
     = map_option fst (Dijkstra_find_path ident d g s t)"
    by (simp add: Dijkstra_find_path_def Let_def)
  show "fst (IDAStar_find_path i (with_scratch g sc) s t) = fst (IDAStar_find_path i g s t)"
    by (simp add: IDAStar_find_path_def Let_def)
qed

lemma grid_engines_start_from_reset:
  assumes "\<not> truthy (validate_inputs g s t)"
  shows "AStar_find_path ident a g s t = AStar_find_path ident a (reset_pathfinding_data g) s t"
    and "Dijkstra_find_path ident d g s t
           = Dijkstra_find_path ident d (reset_pathfinding_data g) s t"
    and "IDAStar_find_path i g s t = IDAStar_find_path i (reset_pathfinding_data g) s t"
  using assms unfolding reset_is_with_scratch
  by (simp_all add: AStar_find_path_def Dijkstra_find_path_def IDAStar_find_path_def Let_def)

lemma is_collision_free_with_scratch:
  "is_collision_free (with_scratch g sc) = is_collision_free g"
  by (simp add: is_collision_free_def fun_eq_iff)

lemma sample_random_point_with_scratch:
  "sample_random_point rnd (with_scratch g sc) = sample_random_point rnd g"
  by (simp add: sample_random_point_def fun_eq_iff)

lemma RRT_extend_tree_with_scratch:
  "RRT_extend_tree (with_scratch g sc) = RRT_extend_tree g"
  unfolding RRT_extend_tree_def is_collision_free_with_scratch ..

lemma choose_parent_step_with_scratch:
  "choose_parent_step (with_scratch g sc) = choose_parent_step g"
  unfolding choose_parent_step_def is_collision_free_with_scratch ..

lemma rewire_node_with_scratch:
  "rewire_node (with_scratch g sc) = rewire_node g"
  unfolding rewire_node_def is_collision_free_with_scratch ..

lemma rewire_tree_with_scratch:
  "rewire_tree (with_scratch g sc) nn ns os = rewire_tree g nn ns os"
  by (induction ns arbitrary: os)
     (simp_all add: rewire_node_with_scratch split: option.splits)

lemma RRTStar_extend_tree_with_scratch:
  "RRTStar_extend_tree (with_scratch g sc) = RRTStar_extend_tree g"
  unfolding RRTStar_extend_tree_def RRT_extend_tree_with_scratch
    choose_parent_step_with_scratch rewire_tree_with_scratch ..

lemma rrt_iteration_with_scratch:
  assumes "ext (with_scratch g sc) = ext g"
  shows "rrt_iteration ext rnd (with_scratch g sc) = rrt_iteration ext rnd g"
  unfolding rrt_iteration_def assms sample_random_point_with_scratch
    is_collision_free_with_scratch ..

lemma rrt_loop_with_scratch:
  assumes "ext (with_scratch g sc) = ext g"
  shows "rrt_loop ext rnd (with_scratch g sc) goal_node n iteration self
           = rrt_loop ext rnd g goal_node n iteration self"
  by (induction n arbitrary: iteration self)
     (simp_all add: rrt_iteration_with_scratch[OF assms] split: option.splits sum.splits)

lemma sampling_find_path_with_scratch:
  assumes "ext (with_scratch g sc) = ext g"
  shows "sampling_find_path ext rnd self (with_scratch g sc) s t
           = sampling_find_path ext rnd self g s t"
  unfolding sampling_find_path_def validate_inputs_with_scratch
    rrt_loop_with_scratch[OF assms] ..

text \<open>
  Claim C5, as amended. A*, weighted A*, Dijkstra and IDA*, once the end points have
  passed validation, reset the scratch state of every cell before their loop: the call
  runs as it would on the reset map, and a reset cell has \<open>g\<close> and \<open>f\<close> infinite, \<open>h\<close>
  zero, no parent and both flags cleared. RRT and RRT* never reset the map, and leave
  its scratch state as they found it. For all six engines the result is the same
  whatever scratch state the map holds when \<open>find_path\<close> is called.
\<close>

theorem results_independent_of_scratch_state:
  "map_option fst (AStar_find_path ident a (with_scratch g sc) s t)
     = map_option fst (AStar_find_path ident a g s t)
   \<and> map_option fst (WeightedAStar_find_path ident a (with_scratch g sc) s t)
     = map_option fst (WeightedAStar_find_path ident a g s t)
   \<and> map_option fst (Dijkstra_find_path ident d (with_scratch g sc) s t)
     = map_option fst (Dijkstra_find_path ident d g s t)
   \<and> fst (IDAStar_find_path i (with_scratch g sc) s t) = fst (IDAStar_find_path i g s t)
   \<and> RRT_find_path rnd rr (with_scratch g sc) s t = RRT_find_path rnd rr g s t
   \<and> RRTStar_find_path rnd rs (with_scratch g sc) s t = RRTStar_find_path rnd rs g s t
   \<and> (\<not> truthy (validate_inputs g s t) \<longrightarrow>
        AStar_find_path ident a g s t = AStar_find_path ident a (reset_pathfinding_data g) s t
        \<and> Dijkstra_find_path ident d g s t
            = Dijkstra_find_path ident d (reset_pathfinding_data g) s t
        \<and> IDAStar_find_path i g s t = IDAStar_find_path i (reset_pathfinding_data g) s t)
   \<and> (is_valid_position g (fst p) (snd p) \<longrightarrow>
        scratch_cleared (nodes (reset_pathfinding_data g) p)
        \<and> walkable (nodes (reset_pathfinding_data g) p) = walkable (nodes g p))
   \<and> RRT_find_path_grid rnd rr (with_scratch g sc) s t = with_scratch g sc"
proof -
  have rrt: "RRT_find_path rnd rr (with_scratch g sc) s t = RRT_find_path rnd rr g s t"
    unfolding RRT_find_path_def
    by (rule sampling_find_path_with_scratch) (simp add: RRT_extend_tree_with_scratch)
  have rrts: "RRTStar_find_path rnd rs (with_scratch g sc) s t = RRTStar_find_path rnd rs g s t"
    unfolding RRTStar_find_path_def
    by (rule sampling_find_path_with_scratch) (rule RRTStar_extend_tree_with_scratch)
  have st: "\<not> truthy (validate_inputs g s t) \<longrightarrow>
        AStar_find_path ident a g s t = AStar_find_path ident a (reset_pathfinding_data g) s t
        \<and> Dijkstra_find_path ident d g s t
            = Dijkstra_find_path ident d (reset_pathfinding_data g) s t
        \<and> IDAStar_find_path i g s t = IDAStar_find_path i (reset_pathfinding_data g) s t"
    using grid_engines_start_from_reset[of g s t] by blast
  have cl: "is_valid_position g (fst p) (snd p) \<longrightarrow>
        scratch_cleared (nodes (reset_pathfinding_data g) p)
        \<and> walkable (nodes (reset_pathfinding_data g) p) = walkable (nodes g p)"
    using reset_clears by blast
  have gr: "RRT_find_path_grid rnd rr (with_scratch g sc) s t = with_scratch g sc"
    by (simp add: RRT_find_path_grid_def)
  note e = grid_engines_with_scratch
  from e(1)[of ident a g sc s t] e(2)[of ident a g sc s t] e(3)[of ident d g sc s t]
    e(4)[of i g sc s t] rrt rrts st cl gr show ?thesis
    by (intro conjI)
qed

lemma astar_two_cells_grid:
  "map_option (\<lambda>y. (width (snd y), height (snd y), nodes (snd y) (1, 0)))
     (AStar_find_path (\<lambda>p. 0) (AStar_init ''manhattan'' 1) (Grid_init 2 1) (0, 0) (1, 0))
   = Some (2, 1, \<lparr> walkable = True, g_cost = Num 1, h_cost = 0, f_cost = Num 1,
            parent = Some (0, 0), visited = False, in_open_set = False \<rparr>)"
  apply (simp add: AStar_find_path_def AStar_init_def grid_defs counter_defs heap_defs Let_def
      PathfindingAlgorithm.extend_def get_heuristic_def manhattan_distance_def)
  apply (subst astar_loop.simps)
  apply (simp add: astar_iteration_def astar_neighbor_def grid_defs counter_defs heap_defs Let_def
      get_heuristic_def manhattan_distance_def)
  apply (subst astar_loop.simps)
  apply (simp add: astar_iteration_def astar_neighbor_def grid_defs counter_defs heap_defs Let_def
      get_path_def)
  apply (subst get_path_loop.simps, simp)
  apply (subst get_path_loop.simps, simp)
  apply (subst get_path_loop.simps, simp add: waypoint_def)
  done

theorem results_independent_of_scratch_state_witness:
  "\<not> truthy (validate_inputs (Grid_init 2 1) (0, 0) (1, 0))
   \<and> is_valid_position (Grid_init 2 1) 1 0
   \<and> scratch_cleared (nodes (reset_pathfinding_data (Grid_init 2 1)) (1, 0))
   \<and> map_option fst (AStar_find_path (\<lambda>p. 0) (AStar_init ''manhattan'' 1)
        (with_scratch (Grid_init 2 1) (\<lambda>p. (GridNode_init True)\<lparr> g_cost := Num 1 \<rparr>))
        (0, 0) (1, 0))
     = Some (create_result
       \<lparr> alg_name = ''A*'', category = CLASSICAL, self_nodes_expanded = 1,
         self_nodes_visited = 1, self_max_memory = 2, self_iterations = 2,
         heuristic_type = ''manhattan'', heuristic_weight = 1 \<rparr>
       [(0, 0), (1, 0)] True None)"
proof -
  have v: "\<not> truthy (validate_inputs (Grid_init 2 1) (0, 0) (1, 0))"
    and p: "is_valid_position (Grid_init 2 1) (fst (1, 0)) (snd (1, 0))"
    by (simp_all add: grid_defs)
  note t = results_independent_of_scratch_state[of "\<lambda>p. 0" "AStar_init ''manhattan'' 1"
      "Grid_init 2 1" "\<lambda>p. (GridNode_init True)\<lparr> g_cost := Num 1 \<rparr>" "(0, 0)" "(1, 0)"
      Dijkstra_init "IDAStar_init ''manhattan'' 1000" "\<lambda>n. 0" "RRT_init 1 10000 (1 / 10)"
      "RRTStar_init 1 10000 (1 / 10) 2" "(1, 0)"]
  from t p have c: "scratch_cleared (nodes (reset_pathfinding_data (Grid_init 2 1)) (1, 0))"
    by blast
  from t have "map_option fst (AStar_find_path (\<lambda>p. 0) (AStar_init ''manhattan'' 1)
        (with_scratch (Grid_init 2 1) (\<lambda>p. (GridNode_init True)\<lparr> g_cost := Num 1 \<rparr>))
        (0, 0) (1, 0))
     = map_option fst (AStar_find_path (\<lambda>p. 0) (AStar_init ''manhattan'' 1) (Grid_init 2 1)
        (0, 0) (1, 0))"
    by blast
  with v p c show ?thesis
    unfolding astar_two_cells by simp
qed

text \<open>
  The claim as it is written fails for RRT. A* from \<open>(0, 0)\<close> to \<open>(1, 0)\<close> on the open
  grid of two cells leaves the node \<open>(1, 0)\<close> with \<open>g = 1\<close> and a parent. A call of
  \<open>RRT.find_path\<close> on that grid leaves the node as it is, where a reset would have
  cleared it.
\<close>

theorem rrt_leaves_scratch_counterexample:
  "\<exists>r g1. AStar_find_path (\<lambda>p. 0) (AStar_init ''manhattan'' 1) (Grid_init 2 1) (0, 0) (1, 0)
             = Some (r, g1)
     \<and> g_cost (nodes g1 (1, 0)) = Num 1 \<and> parent (nodes g1 (1, 0)) = Some (0, 0)
     \<and> \<not> scratch_cleared (nodes g1 (1, 0))
     \<and> \<not> scratch_cleared
          (nodes (RRT_find_path_grid (\<lambda>n. 0) (RRT_init 1 10000 (1 / 10)) g1 (0, 0) (1, 0)) (1, 0))
     \<and> scratch_cleared (nodes (reset_pathfinding_data g1) (1, 0))"
proof -
  from astar_two_cells_grid obtain r g1 where
    run: "AStar_find_path (\<lambda>p. 0) (AStar_init ''manhattan'' 1) (Grid_init 2 1) (0, 0) (1, 0)
             = Some (r, g1)"
    and n: "nodes g1 (1, 0) = \<lparr> walkable = True, g_cost = Num 1, h_cost = 0, f_cost = Num 1,
            parent = Some (0, 0), visited = False, in_open_set = False \<rparr>"
    and sz: "width g1 = 2" "height g1 = 1"
    by (cases "AStar_find_path (\<lambda>p. 0) (AStar_init ''manhattan'' 1) (Grid_init 2 1) (0, 0) (1, 0)")
       auto
  have v: "is_valid_position g1 1 0"
    using sz by (simp add: is_valid_position_def)
  show ?thesis
    using run n v
    by (auto simp: scratch_cleared_def RRT_find_path_grid_def reset_pathfinding_data_def
        GridNode_reset_def)
qed

section \<open>Failed searches\<close>

lemma standalone_get_neighbors_cases:
  "standalone_get_neighbors grid p = Inl AttributeError
   \<or> standalone_get_neighbors grid p = Inr []"
  by (simp add: standalone_get_neighbors_def)

lemma Standalone_WeightedAStar_find_path_outcome:
  "Standalone_WeightedAStar_find_path self grid start goal
     = Some (if start = goal then PathList [start]
             else case standalone_get_neighbors grid start of
                    Inl e \<Rightarrow> Raised e
                  | Inr ns \<Rightarrow> PyNone)"
proof (cases "start = goal")
  case True
  have r: "standalone_reconstruct Map.empty goal [goal] = Some [goal]"
    by (subst standalone_reconstruct.simps) simp
  show ?thesis
    unfolding Standalone_WeightedAStar_find_path_def Let_def
    by (subst standalone_loop.simps) (simp add: True wheappop_def r)
next
  case False
  from standalone_get_neighbors_cases[of grid start] show ?thesis
  proof
    assume e: "standalone_get_neighbors grid start = Inl AttributeError"
    show ?thesis
      unfolding Standalone_WeightedAStar_find_path_def Let_def
      by (subst standalone_loop.simps) (simp add: False wheappop_def e)
  next
    assume e: "standalone_get_neighbors grid start = Inr []"
    have l: "\<And>s c f g. standalone_loop grid goal (s, [], c, f, g) = Some PyNone"
      by (subst standalone_loop.simps) (simp add: wheappop_def)
    show ?thesis
      unfolding Standalone_WeightedAStar_find_path_def Let_def
      by (subst standalone_loop.simps) (simp add: False wheappop_def e l)
  qed
qed

lemma result_shape_failure:
  "result_shape r \<Longrightarrow> found r \<or> failure_result r"
  by (auto simp: result_shape_def failure_result_def)

lemma prologue_failure:
  assumes "validate_inputs grid start goal \<noteq> None"
  shows "failure_result (the (find_path_prologue self grid start goal))"
    and "error_message (the (find_path_prologue self grid start goal))
           = validate_inputs grid start goal"
    and "find_path_prologue self grid start goal \<noteq> None"
  using assms
  by (simp_all add: find_path_prologue_def Let_def failure_result_def truthy_validate_inputs)

lemma failure_result_algorithm_data:
  "failure_result r \<Longrightarrow> failure_result (r\<lparr> algorithm_data := d \<rparr>)"
  by (simp add: failure_result_def)

text \<open>
  Claim C1. When the validation of the end points fails, A*, weighted A*, Dijkstra,
  IDA*, RRT and RRT* return a result that is not found, with no path and the message of
  the validation. Whatever these engines return is a success or such a failure, never a
  failure with a partial path; IDA* always returns. The standalone \<open>WeightedAStar\<close> of
  \<open>weighted_astar.py\<close> does not keep the contract: its constructor raises \<open>TypeError\<close>,
  and its \<open>find_path\<close> never gives a result object: it returns the list \<open>[start]\<close> when
  the end points are equal, raises \<open>AttributeError\<close> when the start has a neighbour
  inside the bounds, and returns \<open>None\<close> otherwise.
\<close>

theorem failed_search_results_except_standalone:
  "(validate_inputs grid start goal \<noteq> None \<longrightarrow>
       (\<exists>r g. AStar_find_path ident a grid start goal = Some (r, g) \<and> failure_result r
           \<and> error_message r = validate_inputs grid start goal)
     \<and> (\<exists>r g. WeightedAStar_find_path ident a grid start goal = Some (r, g) \<and> failure_result r
           \<and> error_message r = validate_inputs grid start goal)
     \<and> (\<exists>r g. Dijkstra_find_path ident d grid start goal = Some (r, g) \<and> failure_result r
           \<and> error_message r = validate_inputs grid start goal)
     \<and> failure_result (fst (IDAStar_find_path i grid start goal))
     \<and> error_message (fst (IDAStar_find_path i grid start goal))
           = validate_inputs grid start goal
     \<and> (\<exists>r. RRT_find_path rnd rr grid start goal = Some r \<and> failure_result r
           \<and> error_message r = validate_inputs grid start goal)
     \<and> (\<exists>r. RRTStar_find_path rnd rs grid start goal = Some r \<and> failure_result r
           \<and> error_message r = validate_inputs grid start goal))
   \<and> (found (fst (IDAStar_find_path i grid start goal))
        \<or> failure_result (fst (IDAStar_find_path i grid start goal)))
   \<and> (\<forall>y. AStar_find_path ident a grid start goal = Some y
          \<longrightarrow> found (fst y) \<or> failure_result (fst y))
   \<and> (\<forall>y. WeightedAStar_find_path ident a grid start goal = Some y
          \<longrightarrow> found (fst y) \<or> failure_result (fst y))
   \<and> (\<forall>y. Dijkstra_find_path ident d grid start goal = Some y
          \<longrightarrow> found (fst y) \<or> failure_result (fst y))
   \<and> (\<forall>r. RRT_find_path rnd rr grid start goal = Some r \<longrightarrow> found r \<or> failure_result r)
   \<and> (\<forall>r. RRTStar_find_path rnd rs grid start goal = Some r \<longrightarrow> found r \<or> failure_result r)
   \<and> Standalone_WeightedAStar_init w h = Inl TypeError
   \<and> Standalone_WeightedAStar_find_path s grid start goal
       = Some (if start = goal then PathList [start]
               else case standalone_get_neighbors grid start of
                      Inl e \<Rightarrow> Raised e
                    | Inr ns \<Rightarrow> PyNone)
   \<and> (\<forall>r. Standalone_WeightedAStar_find_path s grid start goal \<noteq> Some (Result r))"
proof -
  have val: "validate_inputs grid start goal \<noteq> None \<longrightarrow>
       (\<exists>r g. AStar_find_path ident a grid start goal = Some (r, g) \<and> failure_result r
           \<and> error_message r = validate_inputs grid start goal)
     \<and> (\<exists>r g. WeightedAStar_find_path ident a grid start goal = Some (r, g) \<and> failure_result r
           \<and> error_message r = validate_inputs grid start goal)
     \<and> (\<exists>r g. Dijkstra_find_path ident d grid start goal = Some (r, g) \<and> failure_result r
           \<and> error_message r = validate_inputs grid start goal)
     \<and> failure_result (fst (IDAStar_find_path i grid start goal))
     \<and> error_message (fst (IDAStar_find_path i grid start goal))
           = validate_inputs grid start goal
     \<and> (\<exists>r. RRT_find_path rnd rr grid start goal = Some r \<and> failure_result r
           \<and> error_message r = validate_inputs grid start goal)
     \<and> (\<exists>r. RRTStar_find_path rnd rs grid start goal = Some r \<and> failure_result r
           \<and> error_message r = validate_inputs grid start goal)"
  proof
    assume v: "validate_inputs grid start goal \<noteq> None"
    note e = engines_return_prologue[OF v]
    note p = prologue_failure[OF v]
    have 1: "\<exists>r g. AStar_find_path ident a grid start goal = Some (r, g) \<and> failure_result r
           \<and> error_message r = validate_inputs grid start goal"
      unfolding e(1) using p(1,2)[of a] by simp
    have 2: "\<exists>r g. WeightedAStar_find_path ident a grid start goal = Some (r, g)
           \<and> failure_result r \<and> error_message r = validate_inputs grid start goal"
      unfolding e(2) using p(1,2)[of a] by (simp add: failure_result_algorithm_data)
    have 3: "\<exists>r g. Dijkstra_find_path ident d grid start goal = Some (r, g) \<and> failure_result r
           \<and> error_message r = validate_inputs grid start goal"
      unfolding e(3) using p(1,2)[of d] by simp
    have 4: "failure_result (fst (IDAStar_find_path i grid start goal))"
      "error_message (fst (IDAStar_find_path i grid start goal))
           = validate_inputs grid start goal"
      unfolding e(4) using p(1,2)[of i] by simp_all
    have 5: "\<exists>r. RRT_find_path rnd rr grid start goal = Some r \<and> failure_result r
           \<and> error_message r = validate_inputs grid start goal"
      unfolding e(5) using p[of rr] by auto
    have 6: "\<exists>r. RRTStar_find_path rnd rs grid start goal = Some r \<and> failure_result r
           \<and> error_message r = validate_inputs grid start goal"
      unfolding e(6) using p[of rs] by auto
    from 1 2 3 4 5 6 show "(\<exists>r g. AStar_find_path ident a grid start goal = Some (r, g)
           \<and> failure_result r \<and> error_message r = validate_inputs grid start goal)
     \<and> (\<exists>r g. WeightedAStar_find_path ident a grid start goal = Some (r, g) \<and> failure_result r
           \<and> error_message r = validate_inputs grid start goal)
     \<and> (\<exists>r g. Dijkstra_find_path ident d grid start goal = Some (r, g) \<and> failure_result r
           \<and> error_message r = validate_inputs grid start goal)
     \<and> failure_result (fst (IDAStar_find_path i grid start goal))
     \<and> error_message (fst (IDAStar_find_path i grid start goal))
           = validate_inputs grid start goal
     \<and> (\<exists>r. RRT_find_path rnd rr grid start goal = Some r \<and> failure_result r
           \<and> error_message r = validate_inputs grid start goal)
     \<and> (\<exists>r. RRTStar_find_path rnd rs grid start goal = Some r \<and> failure_result r
           \<and> error_message r = validate_inputs grid start goal)"
      by (intro conjI)
  qed
  have ida: "found (fst (IDAStar_find_path i grid start goal))
        \<or> failure_result (fst (IDAStar_find_path i grid start goal))"
    by (rule result_shape_failure[OF IDAStar_find_path_result])
  have as: "\<forall>y. AStar_find_path ident a grid start goal = Some y
          \<longrightarrow> found (fst y) \<or> failure_result (fst y)"
    using AStar_find_path_result result_shape_failure by blast
  have was: "\<forall>y. WeightedAStar_find_path ident a grid start goal = Some y
          \<longrightarrow> found (fst y) \<or> failure_result (fst y)"
    using WeightedAStar_find_path_result result_shape_failure by blast
  have dj: "\<forall>y. Dijkstra_find_path ident d grid start goal = Some y
          \<longrightarrow> found (fst y) \<or> failure_result (fst y)"
    using Dijkstra_find_path_result result_shape_failure by blast
  have rrt: "\<forall>r. RRT_find_path rnd rr grid start goal = Some r \<longrightarrow> found r \<or> failure_result r"
    using RRT_find_path_result result_shape_failure by blast
  have rrts: "\<forall>r. RRTStar_find_path rnd rs grid start goal = Some r
      \<longrightarrow> found r \<or> failure_result r"
    using RRTStar_find_path_result result_shape_failure by blast
  have ini: "Standalone_WeightedAStar_init w h = Inl TypeError"
    by (simp add: Standalone_WeightedAStar_init_def)
  note out = Standalone_WeightedAStar_find_path_outcome[of s grid start goal]
  have nores: "\<forall>r. Standalone_WeightedAStar_find_path s grid start goal \<noteq> Some (Result r)"
    unfolding out by (auto split: sum.splits)
  from val ida as was dj rrt rrts ini out nores show ?thesis
    by (intro conjI)
qed

theorem failed_search_results_except_standalone_witness:
  "validate_inputs (Grid_init 1 1) (0, 0) (5, 5)
     = Some ''Goal position (5, 5) is outside grid bounds''
   \<and> (\<exists>r g. AStar_find_path (\<lambda>p. 0) (AStar_init ''euclidean'' 1) (Grid_init 1 1) (0, 0) (5, 5)
               = Some (r, g)
          \<and> failure_result r
          \<and> error_message r = Some ''Goal position (5, 5) is outside grid bounds'')
   \<and> (\<exists>r. RRT_find_path (\<lambda>n. 0) (RRT_init 1 10000 (1 / 10)) (Grid_init 1 1) (0, 0) (5, 5)
               = Some r
          \<and> failure_result r
          \<and> error_message r = Some ''Goal position (5, 5) is outside grid bounds'')
   \<and> Standalone_WeightedAStar_find_path standalone_engine (Grid_init 1 1) (0, 0) (5, 5)
       = Some PyNone"
proof -
  have v: "validate_inputs (Grid_init 1 1) (0, 0) (5, 5)
     = Some ''Goal position (5, 5) is outside grid bounds''"
    by (simp add: validate_inputs_def is_valid_position_def Grid_init_def str_pos_def
        str_int_def)
  have n: "standalone_get_neighbors (Grid_init 1 1) (0, 0) = Inr []"
    by (simp add: standalone_get_neighbors_def standalone_directions_def Grid_init_def)
  note t = failed_search_results_except_standalone[of "Grid_init 1 1" "(0, 0)" "(5, 5)"
      "\<lambda>p. 0" "AStar_init ''euclidean'' 1" Dijkstra_init "IDAStar_init ''manhattan'' 1000"
      "\<lambda>n. 0" "RRT_init 1 10000 (1 / 10)" "RRTStar_init 1 10000 (1 / 10) 2"
      "3 / 2" "''euclidean''" standalone_engine]
  from t v n show ?thesis
    by simp
qed

text \<open>
  The failing inputs. Creating the standalone engine raises \<open>TypeError\<close>. On an object
  with its fields, a search towards a goal outside the open grid of two cells raises
  \<open>AttributeError\<close>; on the grid of one cell it returns \<open>None\<close>, which is no result object
  and carries no reason; with equal end points it returns a bare list.
\<close>

theorem standalone_WeightedAStar_counterexample:
  "Standalone_WeightedAStar_init (3 / 2) ''euclidean'' = Inl TypeError
   \<and> Standalone_WeightedAStar_find_path standalone_engine (Grid_init 2 1) (0, 0) (5, 5)
       = Some (Raised AttributeError)
   \<and> Standalone_WeightedAStar_find_path standalone_engine (Grid_init 2 1) (0, 0) (1, 0)
       = Some (Raised AttributeError)
   \<and> Standalone_WeightedAStar_find_path standalone_engine (Grid_init 1 1) (0, 0) (5, 5)
       = Some PyNone
   \<and> Standalone_WeightedAStar_find_path standalone_engine (Grid_init 1 1) (0, 0) (0, 0)
       = Some (PathList [(0, 0)])"
proof -
  have n1: "standalone_get_neighbors (Grid_init 1 1) (0, 0) = Inr []"
    by (simp add: standalone_get_neighbors_def standalone_directions_def Grid_init_def)
  have n2: "standalone_get_neighbors (Grid_init 2 1) (0, 0) = Inl AttributeError"
    by (simp add: standalone_get_neighbors_def standalone_directions_def Grid_init_def)
  show ?thesis
    by (simp add: Standalone_WeightedAStar_find_path_outcome n1 n2
        Standalone_WeightedAStar_init_def)
qed

end
